theory Spec2Isabelle
  imports Complex_Main
begin

section \<open>Errors, log lines and outbound calls\<close>

text \<open>
  Go errors are values. \<open>Errorf s\<close> is \<^verbatim>\<open>fmt.Errorf(s)\<close> with the message already
  formatted, \<open>ErrorfD s n\<close> is \<^verbatim>\<open>fmt.Errorf(s + "%d", n)\<close>, \<open>ErrorfW s e\<close> is
  \<^verbatim>\<open>fmt.Errorf(s + ": %w", e)\<close>, and \<open>External s\<close> is an error produced outside the
  repository (the provider SDK, the HTTP client, a cancelled context).
\<close>

datatype error =
  External string
| Errorf string
| ErrorfD string int
| ErrorfW string error

text \<open>A call that can panic either returns or panics, with the message of the panic.\<close>

datatype 'a exit = Return 'a | Panics string

text \<open>
  A \<^verbatim>\<open>float64\<close> is a finite value (\<open>Finite 0\<close> is the positive zero), the negative
  zero, an infinity or a NaN. A \<^verbatim>\<open>time.Duration\<close> is a count of nanoseconds, an
  \<^verbatim>\<open>int64\<close>.
\<close>

datatype float64 = Finite real | NegZero | PosInf | NegInf | NaN

type_synonym Duration = int

definition Second :: Duration where
  "Second = 1000000000"

definition Minute :: Duration where
  "Minute = 60 * Second"

text \<open>
  Rounding of a real to the nearest \<^verbatim>\<open>float64\<close>, ties to even: 53 bits of precision,
  the unit in the last place never below \<open>2 powi (- 1074)\<close>, and overflow to an infinity
  from \<open>2 ^ 1024\<close> on.
\<close>

definition roundHalfEven :: "real \<Rightarrow> int" where
  "roundHalfEven y =
     (let n = \<lfloor>y\<rfloor> in
      if y - of_int n < 1 / 2 then n
      else if 1 / 2 < y - of_int n then n + 1
      else if even n then n else n + 1)"

definition round64 :: "real \<Rightarrow> float64" where
  "round64 x =
     (if x = 0 then Finite 0
      else
        let e = max (\<lfloor>log 2 \<bar>x\<bar>\<rfloor> - 52) (- 1074);
            v = of_int (roundHalfEven (x / 2 powi e)) * 2 powi e
        in if 2 ^ 1024 \<le> v then PosInf
           else if v \<le> - (2 ^ 1024) then NegInf
           else if v = 0 \<and> x < 0 then NegZero
           else Finite v)"

text \<open>The conversion \<^verbatim>\<open>float64(n)\<close> of an \<^verbatim>\<open>int64\<close>.\<close>

definition float64_of_int64 :: "int \<Rightarrow> float64" where
  "float64_of_int64 n = round64 (of_int n)"

text \<open>The division \<^verbatim>\<open>a / b\<close> of two \<^verbatim>\<open>float64\<close> values (IEEE 754).\<close>

fun negative :: "float64 \<Rightarrow> bool" where
  "negative (Finite x) = (x < 0)"
| "negative NegZero = True"
| "negative PosInf = False"
| "negative NegInf = True"
| "negative NaN = False"

definition isZero :: "float64 \<Rightarrow> bool" where
  "isZero f = (f = Finite 0 \<or> f = NegZero)"

definition isInf :: "float64 \<Rightarrow> bool" where
  "isInf f = (f = PosInf \<or> f = NegInf)"

definition fdiv :: "float64 \<Rightarrow> float64 \<Rightarrow> float64" where
  "fdiv a b =
     (if a = NaN \<or> b = NaN \<or> (isZero a \<and> isZero b) \<or> (isInf a \<and> isInf b) then NaN
      else if isInf a \<or> isZero b
        then (if negative a \<noteq> negative b then NegInf else PosInf)
      else if isZero a \<or> isInf b
        then (if negative a \<noteq> negative b then NegZero else Finite 0)
      else (case (a, b) of (Finite x, Finite y) \<Rightarrow> round64 (x / y) | _ \<Rightarrow> NaN))"

text \<open>
  The conversion \<^verbatim>\<open>int64(f)\<close> of a \<^verbatim>\<open>float64\<close>, and so \<^verbatim>\<open>time.Duration(f)\<close>: the
  fraction is discarded. When \<^verbatim>\<open>int64\<close> cannot represent the value the conversion
  succeeds with a result that depends on the implementation, here \<open>impl f\<close>.
\<close>

definition truncZero :: "real \<Rightarrow> int" where
  "truncZero x = (if 0 \<le> x then \<lfloor>x\<rfloor> else \<lceil>x\<rceil>)"

definition int64_of_float64 :: "(float64 \<Rightarrow> int) \<Rightarrow> float64 \<Rightarrow> int" where
  "int64_of_float64 impl f =
     (case f of
        Finite x \<Rightarrow>
          if - (2 ^ 63) \<le> truncZero x \<and> truncZero x < 2 ^ 63 then truncZero x else impl f
      | NegZero \<Rightarrow> 0
      | _ \<Rightarrow> impl f)"

text \<open>A log line keeps its format string and its arguments.\<close>

datatype LogArg = S string | E error | D Duration | F float64

datatype Log = Println string | Printf string "LogArg list"

section \<open>Package dnsmanager: data\<close>

type_synonym DNSRecordType = string

definition ARecord :: DNSRecordType where
  "ARecord = ''A''"

definition AAAARecord :: DNSRecordType where
  "AAAARecord = ''AAAA''"

record DNSRecord =
  Root :: string
  Name :: string
  Type :: DNSRecordType
  Proxied :: bool

record Domain =
  ZoneID :: string
  ZoneName :: string
  Records :: "DNSRecord list"

record UpdateDNSRecord =
  ID :: string
  Record :: DNSRecord

text \<open>The provider SDK's types, as far as the manager reads or writes them.\<close>

record Zone =
  Zone_ID :: string
  Zone_Name :: string

definition RecordResponseTypeA :: string where
  "RecordResponseTypeA = ''A''"

definition RecordResponseTypeAAAA :: string where
  "RecordResponseTypeAAAA = ''AAAA''"

record RecordResponse =
  Response_ID :: string
  Response_Name :: string
  Response_Type :: string
  Response_Content :: string
  Response_Proxied :: bool

record RecordParam =
  Param_Name :: string
  Param_Content :: string
  Param_Proxied :: bool
  Param_TTL :: nat

datatype RecordBatchParamsPostUnion = ARecordParam RecordParam | AAAARecordParam RecordParam

datatype BatchPutUnionParam =
  BatchPutARecordParam string RecordParam
| BatchPutAAAARecordParam string RecordParam

text \<open>A field set with \<^verbatim>\<open>cloudflare.F\<close> is \<open>Some\<close>; a field left alone is \<open>None\<close>.\<close>

record RecordBatchParams =
  Batch_ZoneID :: string
  Posts :: "RecordBatchParamsPostUnion list option"
  Puts :: "BatchPutUnionParam list option"

datatype Call =
  CallListZones string
| CallListDNSRecords string
| CallBatchDNSRecords RecordBatchParams
| CallDeleteDNSRecord string string
| CallHTTPGet string

text \<open>
  The interface \<^verbatim>\<open>CloudflareClient\<close>. The provider lives in a world \<open>'w\<close> that every
  call may read and change; a call returns its answer and the world after it.
\<close>

record 'w CloudflareClient =
  ListZones :: "string \<Rightarrow> 'w \<Rightarrow> (error + Zone list) \<times> 'w"
  ListDNSRecords :: "string \<Rightarrow> 'w \<Rightarrow> (error + RecordResponse list) \<times> 'w"
  BatchDNSRecords :: "RecordBatchParams \<Rightarrow> 'w \<Rightarrow> error option \<times> 'w"
  DeleteDNSRecord :: "string \<Rightarrow> string \<Rightarrow> 'w \<Rightarrow> error option \<times> 'w"

text \<open>
  What a run leaves behind: the world, the outbound calls issued so far (oldest first) and
  the log lines written so far.
\<close>

record 'w Sys =
  world :: 'w
  calls :: "Call list"
  logs :: "Log list"

definition issue :: "Call \<Rightarrow> 'w \<Rightarrow> 'w Sys \<Rightarrow> 'w Sys" where
  "issue c w' s = s\<lparr>world := w', calls := calls s @ [c]\<rparr>"

definition logline :: "Log \<Rightarrow> 'w Sys \<Rightarrow> 'w Sys" where
  "logline l s = s\<lparr>logs := logs s @ [l]\<rparr>"

section \<open>Package dnsmanager: operations\<close>

definition GetZoneIDByName ::
  "'w CloudflareClient \<Rightarrow> string \<Rightarrow> 'w Sys \<Rightarrow> (string \<times> error option) \<times> 'w Sys" where
  "GetZoneIDByName m zoneName s =
     (case ListZones m zoneName (world s) of (r, w') \<Rightarrow>
        let s' = issue (CallListZones zoneName) w' s in
        (case r of
           Inl err \<Rightarrow> (('''', Some (ErrorfW ''failed to list zones'' err)), s')
         | Inr zones \<Rightarrow>
             (case zones of
                [] \<Rightarrow> (('''', Some (Errorf (''zone '' @ zoneName @ '' not found''))), s')
              | z # _ \<Rightarrow> ((Zone_ID z, None), s'))))"

definition GetDNSRecords ::
  "'w CloudflareClient \<Rightarrow> string \<Rightarrow> 'w Sys \<Rightarrow> (error + RecordResponse list) \<times> 'w Sys" where
  "GetDNSRecords m zoneID s =
     (case ListDNSRecords m zoneID (world s) of (r, w') \<Rightarrow>
        let s' = issue (CallListDNSRecords zoneID) w' s in
        (case r of
           Inl err \<Rightarrow> (Inl (ErrorfW ''failed to list DNS records'' err), s')
         | Inr records \<Rightarrow> (Inr records, s')))"

definition TTL1 :: nat where
  "TTL1 = 1"

definition toDNSARecord :: "DNSRecord \<Rightarrow> string \<Rightarrow> RecordParam" where
  "toDNSARecord record ipv4 =
     \<lparr>Param_Name = Name record, Param_Content = ipv4,
      Param_Proxied = Proxied record, Param_TTL = TTL1\<rparr>"

definition toDNSAAAARecord :: "DNSRecord \<Rightarrow> string \<Rightarrow> RecordParam" where
  "toDNSAAAARecord record ipv6 =
     \<lparr>Param_Name = Name record, Param_Content = ipv6,
      Param_Proxied = Proxied record, Param_TTL = TTL1\<rparr>"

fun prepareBatchCreate ::
  "DNSRecord list \<Rightarrow> string \<Rightarrow> string \<Rightarrow> RecordBatchParamsPostUnion list" where
  "prepareBatchCreate [] ipv4 ipv6 = []"
| "prepareBatchCreate (record # records) ipv4 ipv6 =
     (if Type record = ARecord
        then ARecordParam (toDNSARecord record ipv4) # prepareBatchCreate records ipv4 ipv6
      else if Type record = AAAARecord
        then AAAARecordParam (toDNSAAAARecord record ipv6) # prepareBatchCreate records ipv4 ipv6
      else prepareBatchCreate records ipv4 ipv6)"

fun prepareBatchUpdate ::
  "UpdateDNSRecord list \<Rightarrow> string \<Rightarrow> string \<Rightarrow> BatchPutUnionParam list" where
  "prepareBatchUpdate [] ipv4 ipv6 = []"
| "prepareBatchUpdate (record # records) ipv4 ipv6 =
     (if Type (Record record) = ARecord
        then BatchPutARecordParam (ID record) (toDNSARecord (Record record) ipv4)
               # prepareBatchUpdate records ipv4 ipv6
      else if Type (Record record) = AAAARecord
        then BatchPutAAAARecordParam (ID record) (toDNSAAAARecord (Record record) ipv6)
               # prepareBatchUpdate records ipv4 ipv6
      else prepareBatchUpdate records ipv4 ipv6)"

definition prepareRecordKey :: "DNSRecord \<Rightarrow> string" where
  "prepareRecordKey record =
     (let name = (if Name record \<noteq> ''@'' then Name record @ ''.'' @ Root record
                  else Root record)
      in name @ ''|'' @ Type record)"

text \<open>
  The first loop of \<^verbatim>\<open>EnsureDNSRecords\<close>: the map from \<^verbatim>\<open>Name|Type\<close> to the existing
  record, a later record of the provider's answer overwriting an earlier one.
\<close>

definition existingRecordMap :: "RecordResponse list \<Rightarrow> (string \<rightharpoonup> RecordResponse)" where
  "existingRecordMap existingRecords =
     fold (\<lambda>rec m.
             if Response_Type rec = RecordResponseTypeA \<or> Response_Type rec = RecordResponseTypeAAAA
             then m(Response_Name rec @ ''|'' @ Response_Type rec \<mapsto> rec)
             else m)
          existingRecords Map.empty"

text \<open>The \<^verbatim>\<open>switch\<close> that picks the expected content; no case leaves the zero value.\<close>

definition expectedContent :: "DNSRecord \<Rightarrow> string \<Rightarrow> string \<Rightarrow> string" where
  "expectedContent record ipv4 ipv6 =
     (if Type record = ARecord then ipv4
      else if Type record = AAAARecord then ipv6
      else '''')"

text \<open>
  One turn of the second loop, on the pair \<^verbatim>\<open>(recordsToCreate, recordsToUpdate)\<close>.
\<close>

definition ensureStep ::
  "(string \<rightharpoonup> RecordResponse) \<Rightarrow> string \<Rightarrow> string \<Rightarrow> DNSRecord
     \<Rightarrow> DNSRecord list \<times> UpdateDNSRecord list \<Rightarrow> DNSRecord list \<times> UpdateDNSRecord list" where
  "ensureStep existing ipv4 ipv6 record acc =
     (case acc of (recordsToCreate, recordsToUpdate) \<Rightarrow>
        if Type record = ARecord \<and> ipv4 = '''' then acc
        else if Type record = AAAARecord \<and> ipv6 = '''' then acc
        else
          (case existing (prepareRecordKey record) of
             None \<Rightarrow> (recordsToCreate @ [record], recordsToUpdate)
           | Some existingRec \<Rightarrow>
               if Response_Content existingRec \<noteq> expectedContent record ipv4 ipv6
                    \<or> Response_Proxied existingRec \<noteq> Proxied record
               then (recordsToCreate,
                     recordsToUpdate @ [\<lparr>ID = Response_ID existingRec, Record = record\<rparr>])
               else acc))"

definition planRecords ::
  "RecordResponse list \<Rightarrow> DNSRecord list \<Rightarrow> string \<Rightarrow> string
     \<Rightarrow> DNSRecord list \<times> UpdateDNSRecord list" where
  "planRecords existingRecords records ipv4 ipv6 =
     fold (ensureStep (existingRecordMap existingRecords) ipv4 ipv6) records ([], [])"

definition recordsToCreate ::
  "RecordResponse list \<Rightarrow> DNSRecord list \<Rightarrow> string \<Rightarrow> string \<Rightarrow> DNSRecord list" where
  "recordsToCreate existingRecords records ipv4 ipv6 =
     fst (planRecords existingRecords records ipv4 ipv6)"

definition recordsToUpdate ::
  "RecordResponse list \<Rightarrow> DNSRecord list \<Rightarrow> string \<Rightarrow> string \<Rightarrow> UpdateDNSRecord list" where
  "recordsToUpdate existingRecords records ipv4 ipv6 =
     snd (planRecords existingRecords records ipv4 ipv6)"

definition batchReq ::
  "string \<Rightarrow> DNSRecord list \<Rightarrow> UpdateDNSRecord list \<Rightarrow> string \<Rightarrow> string \<Rightarrow> RecordBatchParams" where
  "batchReq zoneID toCreate toUpdate ipv4 ipv6 =
     \<lparr>Batch_ZoneID = zoneID,
      Posts = (if length toCreate > 0 then Some (prepareBatchCreate toCreate ipv4 ipv6) else None),
      Puts = (if length toUpdate > 0 then Some (prepareBatchUpdate toUpdate ipv4 ipv6) else None)\<rparr>"

definition EnsureDNSRecords ::
  "'w CloudflareClient \<Rightarrow> string \<Rightarrow> DNSRecord list \<Rightarrow> string \<Rightarrow> string \<Rightarrow> 'w Sys
     \<Rightarrow> error option \<times> 'w Sys" where
  "EnsureDNSRecords m zoneID records ipv4 ipv6 s =
     (case GetDNSRecords m zoneID s of
        (Inl err, s1) \<Rightarrow> (Some (ErrorfW ''failed to get existing DNS records'' err), s1)
      | (Inr existingRecords, s1) \<Rightarrow>
          (case planRecords existingRecords records ipv4 ipv6 of (toCreate, toUpdate) \<Rightarrow>
             if length toCreate = 0 \<and> length toUpdate = 0
             then (None, logline (Println ''No DNS records to create or update'') s1)
             else
               let req = batchReq zoneID toCreate toUpdate ipv4 ipv6 in
               (case BatchDNSRecords m req (world s1) of (r, w') \<Rightarrow>
                  let s2 = issue (CallBatchDNSRecords req) w' s1 in
                  (case r of
                     Some err \<Rightarrow>
                       (Some (ErrorfW ''failed to execute batch DNS record update'' err), s2)
                   | None \<Rightarrow> (None, s2)))))"

definition DeleteDNSRecord_m ::
  "'w CloudflareClient \<Rightarrow> string \<Rightarrow> string \<Rightarrow> 'w Sys \<Rightarrow> error option \<times> 'w Sys" where
  "DeleteDNSRecord_m m zoneID recordID s =
     (case DeleteDNSRecord m recordID zoneID (world s) of (r, w') \<Rightarrow>
        let s' = issue (CallDeleteDNSRecord zoneID recordID) w' s in
        (case r of
           Some err \<Rightarrow> (Some (ErrorfW (''failed to delete DNS record '' @ recordID) err), s')
         | None \<Rightarrow> (None, s')))"

section \<open>Package ipfetcher\<close>

definition ipv4URL :: string where
  "ipv4URL = ''https://api.ipify.org''"

definition ipv6URL :: string where
  "ipv6URL = ''https://api6.ipify.org''"

definition StatusOK :: int where
  "StatusOK = 200"

text \<open>
  An HTTP response as \<^verbatim>\<open>fetchIP\<close> reads it: the status code and what
  \<^verbatim>\<open>io.ReadAll(resp.Body)\<close> returns, the bytes read and the error, if any.
\<close>

record Response =
  StatusCode :: int
  Body :: "string \<times> error option"

text \<open>
  The library calls of \<^verbatim>\<open>fetchIP\<close>: \<^verbatim>\<open>http.NewRequestWithContext\<close>, the client's
  \<^verbatim>\<open>Do\<close> and \<^verbatim>\<open>strings.TrimSpace\<close>. They are parameters, so that every result holds
  for the real ones.
\<close>

record 'w IPFetcher =
  NewRequestWithContext :: "string \<Rightarrow> error option"
  Do :: "string \<Rightarrow> 'w \<Rightarrow> (error + Response) \<times> 'w"
  TrimSpace :: "string \<Rightarrow> string"

definition fetchIP ::
  "'w IPFetcher \<Rightarrow> string \<Rightarrow> 'w Sys \<Rightarrow> (string \<times> error option) \<times> 'w Sys" where
  "fetchIP f url s =
     (case NewRequestWithContext f url of
        Some err \<Rightarrow> (('''', Some (ErrorfW ''failed to create request'' err)), s)
      | None \<Rightarrow>
          (case Do f url (world s) of (r, w') \<Rightarrow>
             let s' = issue (CallHTTPGet url) w' s in
             (case r of
                Inl err \<Rightarrow> (('''', Some (ErrorfW ''failed to fetch IP'' err)), s')
              | Inr resp \<Rightarrow>
                  if StatusCode resp \<noteq> StatusOK
                  then (('''', Some (ErrorfD ''unexpected status code: '' (StatusCode resp))), s')
                  else
                    (case Body resp of
                       (body, Some err) \<Rightarrow>
                         (('''', Some (ErrorfW ''failed to read response'' err)), s')
                     | (body, None) \<Rightarrow>
                         let ip = TrimSpace f body in
                         if ip = '''' then (('''', Some (Errorf ''empty IP address received'')), s')
                         else ((ip, None), s')))))"

definition GetIPv4 :: "'w IPFetcher \<Rightarrow> 'w Sys \<Rightarrow> (string \<times> error option) \<times> 'w Sys" where
  "GetIPv4 f s = fetchIP f ipv4URL s"

definition GetIPv6 :: "'w IPFetcher \<Rightarrow> 'w Sys \<Rightarrow> (string \<times> error option) \<times> 'w Sys" where
  "GetIPv6 f s = fetchIP f ipv6URL s"

section \<open>The daemon (package main)\<close>

text \<open>
  The configuration as the daemon reads it. The rates are carried, never computed with.
\<close>

record RecordConfig =
  Config_Name :: string
  Config_Type :: string
  Config_Proxied :: bool

record DomainConfig =
  Config_ZoneName :: string
  Config_Records :: "RecordConfig list"

record Config =
  RefreshRate :: float64
  SyncRate :: float64
  SupportsIPv6 :: bool
  Domains :: "DomainConfig list"

text \<open>
  A ticker is its period and the clock reading, in nanoseconds, it was last armed at, by
  \<^verbatim>\<open>time.NewTicker\<close> or by \<^verbatim>\<open>Reset\<close>: its next tick arrives one period after \<open>armed\<close>
  (\<^verbatim>\<open>Reset\<close> stops the ticker and sets its period; the next tick arrives after the new
  period elapses). Both panic when the duration is not positive. \<^verbatim>\<open>Reset\<close> is a method
  on a pointer, which the watcher leaves nil until \<^verbatim>\<open>Run\<close> creates the ticker: it tests
  the duration first and dereferences the pointer after.
\<close>

record Ticker =
  period :: Duration
  armed :: int

definition nextTick :: "Ticker \<Rightarrow> int" where
  "nextTick t = armed t + period t"

definition NewTicker :: "Duration \<Rightarrow> int \<Rightarrow> Ticker exit" where
  "NewTicker d now =
     (if d \<le> 0 then Panics ''non-positive interval for NewTicker''
      else Return \<lparr>period = d, armed = now\<rparr>)"

definition Reset :: "Duration \<Rightarrow> int \<Rightarrow> Ticker option \<Rightarrow> Ticker exit" where
  "Reset d now t =
     (if d \<le> 0 then Panics ''non-positive interval for Ticker.Reset''
      else (case t of
              None \<Rightarrow> Panics ''invalid memory address or nil pointer dereference''
            | Some tk \<Rightarrow> Return (tk\<lparr>period := d, armed := now\<rparr>)))"

text \<open>
  The mutable fields of \<^verbatim>\<open>IPWatcher\<close>. An \<^verbatim>\<open>atomic.Value\<close> nothing was stored in
  is \<open>None\<close>, and so is a ticker not yet created.
\<close>

record IPWatcher =
  zoneCache :: "string \<rightharpoonup> string"
  currentIPv4 :: "string option"
  currentIPv6 :: "string option"
  refreshTicker :: "Ticker option"
  syncTicker :: "Ticker option"

text \<open>
  What the daemon is built on: the two clients, the clock (in nanoseconds), and what the
  platform gives for the conversion to \<^verbatim>\<open>int64\<close> of a \<^verbatim>\<open>float64\<close> that \<^verbatim>\<open>int64\<close>
  cannot represent.
\<close>

record 'w Env =
  ipFetcher :: "'w IPFetcher"
  dnsManager :: "'w CloudflareClient"
  Now :: "'w \<Rightarrow> int"
  Int64Unrepresentable :: "float64 \<Rightarrow> int"

definition NewIPWatcher :: IPWatcher where
  "NewIPWatcher =
     \<lparr>zoneCache = Map.empty, currentIPv4 = None, currentIPv6 = None,
      refreshTicker = None, syncTicker = None\<rparr>"

text \<open>\<^verbatim>\<open>v.Load().(string)\<close> with the second result dropped: the zero value when empty.\<close>

definition loadString :: "string option \<Rightarrow> string" where
  "loadString v = (case v of None \<Rightarrow> '''' | Some x \<Rightarrow> x)"

definition getZoneID ::
  "'w Env \<Rightarrow> string \<Rightarrow> IPWatcher \<times> 'w Sys
     \<Rightarrow> (string \<times> error option) \<times> IPWatcher \<times> 'w Sys" where
  "getZoneID env zoneName st =
     (case st of (w, s) \<Rightarrow>
        (case zoneCache w zoneName of
           Some zoneID \<Rightarrow> ((zoneID, None), w, s)
         | None \<Rightarrow>
             (case GetZoneIDByName (dnsManager env) zoneName s of
                ((zID, Some err), s') \<Rightarrow> (('''', Some err), w, s')
              | ((zID, None), s') \<Rightarrow>
                  ((zID, None), w\<lparr>zoneCache := (zoneCache w)(zoneName \<mapsto> zID)\<rparr>, s'))))"

definition dnsRecords :: "DomainConfig \<Rightarrow> DNSRecord list" where
  "dnsRecords domain =
     map (\<lambda>record. \<lparr>Root = Config_ZoneName domain, Name = Config_Name record,
                     Type = Config_Type record, Proxied = Config_Proxied record\<rparr>)
         (Config_Records domain)"

text \<open>
  The body of the loop over the domains, on \<^verbatim>\<open>lastErr\<close> and the state. The loops of
  \<^verbatim>\<open>updateAllDNSRecords\<close> and \<^verbatim>\<open>verifyDNSRecords\<close> differ in two format strings only
  (\<open>failFmt\<close>, \<open>okFmt\<close>).
\<close>

definition ensureDomain ::
  "string \<Rightarrow> string \<Rightarrow> 'w Env \<Rightarrow> string \<Rightarrow> string \<Rightarrow> DomainConfig
     \<Rightarrow> error option \<times> IPWatcher \<times> 'w Sys \<Rightarrow> error option \<times> IPWatcher \<times> 'w Sys" where
  "ensureDomain failFmt okFmt env ipv4 ipv6 domain acc =
     (case acc of (lastErr, st) \<Rightarrow>
        (case getZoneID env (Config_ZoneName domain) st of
           ((zoneID, Some err), w, s) \<Rightarrow>
             (Some err, w,
              logline (Printf ''Failed to get zone ID for %s: %v''
                         [S (Config_ZoneName domain), E err]) s)
         | ((zoneID, None), w, s) \<Rightarrow>
             (case EnsureDNSRecords (dnsManager env) zoneID (dnsRecords domain) ipv4 ipv6 s of
                (Some err, s') \<Rightarrow>
                  (Some err, w, logline (Printf failFmt [S (Config_ZoneName domain), E err]) s')
              | (None, s') \<Rightarrow>
                  (lastErr, w, logline (Printf okFmt [S (Config_ZoneName domain)]) s'))))"

definition updateAllDNSRecords ::
  "'w Env \<Rightarrow> Config \<Rightarrow> IPWatcher \<times> 'w Sys \<Rightarrow> error option \<times> IPWatcher \<times> 'w Sys" where
  "updateAllDNSRecords env cfg st =
     (case st of (w, s) \<Rightarrow>
        let ipv4 = loadString (currentIPv4 w); ipv6 = loadString (currentIPv6 w) in
        fold (ensureDomain ''Failed to ensure DNS records for %s: %v''
                ''DNS records for %s updated successfully'' env ipv4 ipv6)
             (Domains cfg) (None, w, s))"

definition verifyDNSRecords ::
  "'w Env \<Rightarrow> Config \<Rightarrow> IPWatcher \<times> 'w Sys \<Rightarrow> error option \<times> IPWatcher \<times> 'w Sys" where
  "verifyDNSRecords env cfg st =
     (case st of (w, s) \<Rightarrow>
        let ipv4 = loadString (currentIPv4 w); ipv6 = loadString (currentIPv6 w) in
        fold (ensureDomain ''Failed to verify/update DNS records for %s: %v''
                ''DNS records for %s are up-to-date'' env ipv4 ipv6)
             (Domains cfg) (None, w, logline (Println ''Verifying DNS records...'') s))"

definition fetchAndUpdateIPs ::
  "'w Env \<Rightarrow> Config \<Rightarrow> IPWatcher \<times> 'w Sys \<Rightarrow> error option \<times> IPWatcher \<times> 'w Sys" where
  "fetchAndUpdateIPs env cfg st =
     (case st of (w, s) \<Rightarrow>
        (case GetIPv4 (ipFetcher env) s of ((ipv4, err4), s1) \<Rightarrow>
           let st1 = (case err4 of
                        Some err \<Rightarrow> (w, logline (Printf ''Failed to fetch IPv4: %v'' [E err]) s1)
                      | None \<Rightarrow> (w\<lparr>currentIPv4 := Some ipv4\<rparr>,
                                 logline (Printf ''Current IPv4: %s'' [S ipv4]) s1));
               st2 = (if SupportsIPv6 cfg
                      then (case st1 of (w1, s1') \<Rightarrow>
                              (case GetIPv6 (ipFetcher env) s1' of ((ipv6, err6), s2) \<Rightarrow>
                                 (case err6 of
                                    Some err \<Rightarrow>
                                      (w1, logline (Printf ''Failed to fetch IPv6: %v'' [E err]) s2)
                                  | None \<Rightarrow>
                                      (w1\<lparr>currentIPv6 := Some ipv6\<rparr>,
                                       logline (Printf ''Current IPv6: %s'' [S ipv6]) s2))))
                      else st1)
           in updateAllDNSRecords env cfg st2))"

text \<open>
  The first half of \<^verbatim>\<open>checkAndUpdateIP\<close>: the two lookups. It returns what each
  lookup returned (for IPv6 the empty string and no error when the lookup is not made) and
  the system after the lookups and their log lines.
\<close>

definition fetchNewIPs ::
  "'w Env \<Rightarrow> Config \<Rightarrow> 'w Sys
     \<Rightarrow> ((string \<times> error option) \<times> (string \<times> error option)) \<times> 'w Sys" where
  "fetchNewIPs env cfg s =
     (case GetIPv4 (ipFetcher env) s of ((newIPv4, err4), s1) \<Rightarrow>
        let s1' = (case err4 of
                     Some err \<Rightarrow> logline (Printf ''Failed to fetch IPv4: %v'' [E err]) s1
                   | None \<Rightarrow> s1)
        in
        if SupportsIPv6 cfg
        then (case GetIPv6 (ipFetcher env) s1' of ((newIPv6, err6), s2) \<Rightarrow>
                (((newIPv4, err4), (newIPv6, err6)),
                 (case err6 of
                    Some err \<Rightarrow> logline (Printf ''Failed to fetch IPv6: %v'' [E err]) s2
                  | None \<Rightarrow> s2)))
        else (((newIPv4, err4), ('''', None)), s1'))"

text \<open>
  The two intervals of \<^verbatim>\<open>Run\<close>, \<^verbatim>\<open>time.Duration(float64(time.Second) / RefreshRate)\<close>
  and \<^verbatim>\<open>time.Duration(float64(time.Minute) / SyncRate)\<close>; \<^verbatim>\<open>checkAndUpdateIP\<close> computes
  the second again for the reset.
\<close>

definition refreshInterval :: "'w Env \<Rightarrow> Config \<Rightarrow> Duration" where
  "refreshInterval env cfg =
     int64_of_float64 (Int64Unrepresentable env)
       (fdiv (float64_of_int64 Second) (RefreshRate cfg))"

definition syncInterval :: "'w Env \<Rightarrow> Config \<Rightarrow> Duration" where
  "syncInterval env cfg =
     int64_of_float64 (Int64Unrepresentable env)
       (fdiv (float64_of_int64 Minute) (SyncRate cfg))"

text \<open>
  \<^verbatim>\<open>checkAndUpdateIP\<close> panics when the interval it resets the ticker to is not positive
  or the ticker is nil, after it stored the new values and before any reconciliation.
\<close>

definition checkAndUpdateIP ::
  "'w Env \<Rightarrow> Config \<Rightarrow> IPWatcher \<times> 'w Sys \<Rightarrow> error option exit \<times> IPWatcher \<times> 'w Sys" where
  "checkAndUpdateIP env cfg st =
     (case st of (w, s) \<Rightarrow>
        let oldIPv4 = loadString (currentIPv4 w); oldIPv6 = loadString (currentIPv6 w) in
        (case fetchNewIPs env cfg s of (((newIPv4, err4), (newIPv6, err6)), s2) \<Rightarrow>
           let ipv4Changed = (newIPv4 \<noteq> oldIPv4 \<and> newIPv4 \<noteq> '''');
               ipv6Changed = (newIPv6 \<noteq> oldIPv6 \<and> newIPv6 \<noteq> '''');
               st4 = (if ipv4Changed
                      then (w\<lparr>currentIPv4 := Some newIPv4\<rparr>,
                            logline (Printf ''IPv4 changed: %s -> %s''
                                       [S oldIPv4, S newIPv4]) s2)
                      else (w, s2));
               st6 = (if ipv6Changed
                      then ((fst st4)\<lparr>currentIPv6 := Some newIPv6\<rparr>,
                            logline (Printf ''IPv6 changed: %s -> %s''
                                       [S oldIPv6, S newIPv6]) (snd st4))
                      else st4)
           in
           if ipv4Changed \<or> ipv6Changed
           then (case Reset (syncInterval env cfg) (Now env (world (snd st6)))
                        (syncTicker (fst st6)) of
                   Panics p \<Rightarrow> (Panics p, st6)
                 | Return t' \<Rightarrow>
                     (case updateAllDNSRecords env cfg
                             ((fst st6)\<lparr>syncTicker := Some t'\<rparr>, snd st6) of
                        (r, st') \<Rightarrow> (Return r, st')))
           else (Return None, st6)))"

text \<open>
  \<^verbatim>\<open>Run\<close>: what it does before the loop, and one turn of the loop for the channel that
  \<^verbatim>\<open>select\<close> received from. The start returns the message of the panic when creating a
  ticker panics. A turn returns \<open>Some\<close> when \<^verbatim>\<open>Run\<close> ends, by returning the error of
  the context or by a panic. The loop is driven by what arrives on the three channels, given
  as a list; \<^verbatim>\<open>Run\<close> still waits when the list ends before the context is done.
\<close>

datatype Event = CtxDone error | RefreshTick | SyncTick

definition RunStart ::
  "'w Env \<Rightarrow> Config \<Rightarrow> IPWatcher \<times> 'w Sys \<Rightarrow> string option \<times> IPWatcher \<times> 'w Sys" where
  "RunStart env cfg st =
     (case st of (w, s) \<Rightarrow>
        (case fetchAndUpdateIPs env cfg
                (w, logline (Println ''Starting IP Watcher daemon...'') s) of
           (r, w1, s1) \<Rightarrow>
             let s2 = (case r of
                         Some err \<Rightarrow>
                           logline (Printf ''Warning: Initial IP fetch failed: %v'' [E err]) s1
                       | None \<Rightarrow> s1)
             in
             (case NewTicker (refreshInterval env cfg) (Now env (world s2)) of
                Panics p \<Rightarrow> (Some p, w1, s2)
              | Return rt \<Rightarrow>
                  (case NewTicker (syncInterval env cfg) (Now env (world s2)) of
                     Panics p \<Rightarrow> (Some p, w1\<lparr>refreshTicker := Some rt\<rparr>, s2)
                   | Return syt \<Rightarrow>
                       (None,
                        w1\<lparr>refreshTicker := Some rt, syncTicker := Some syt\<rparr>,
                        logline (Printf ''Sync interval: %v (%.2f times per minute)''
                                   [D (syncInterval env cfg), F (SyncRate cfg)])
                          (logline (Printf ''Refresh interval: %v (%.2f times per second)''
                                      [D (refreshInterval env cfg), F (RefreshRate cfg)])
                             s2))))))"

definition RunTurn ::
  "'w Env \<Rightarrow> Config \<Rightarrow> Event \<Rightarrow> IPWatcher \<times> 'w Sys
     \<Rightarrow> error exit option \<times> IPWatcher \<times> 'w Sys" where
  "RunTurn env cfg ev st =
     (case ev of
        CtxDone ctxErr \<Rightarrow>
          (case st of (w, s) \<Rightarrow>
             (Some (Return ctxErr), w,
              logline (Println ''Shutting down IP Watcher daemon...'') s))
      | RefreshTick \<Rightarrow>
          (case checkAndUpdateIP env cfg st of
             (Panics p, st') \<Rightarrow> (Some (Panics p), st')
           | (Return (Some err), w, s) \<Rightarrow>
               (None, w, logline (Printf ''Error checking IP: %v'' [E err]) s)
           | (Return None, w, s) \<Rightarrow> (None, w, s))
      | SyncTick \<Rightarrow>
          (case verifyDNSRecords env cfg st of
             (Some err, w, s) \<Rightarrow>
               (None, w, logline (Printf ''Error verifying DNS records: %v'' [E err]) s)
           | (None, w, s) \<Rightarrow> (None, w, s)))"

fun RunLoop ::
  "'w Env \<Rightarrow> Config \<Rightarrow> Event list \<Rightarrow> IPWatcher \<times> 'w Sys
     \<Rightarrow> error exit option \<times> IPWatcher \<times> 'w Sys" where
  "RunLoop env cfg [] st = (None, st)"
| "RunLoop env cfg (ev # evs) st =
     (case RunTurn env cfg ev st of
        (Some x, st') \<Rightarrow> (Some x, st')
      | (None, st') \<Rightarrow> RunLoop env cfg evs st')"

definition Run ::
  "'w Env \<Rightarrow> Config \<Rightarrow> Event list \<Rightarrow> IPWatcher \<times> 'w Sys
     \<Rightarrow> error exit option \<times> IPWatcher \<times> 'w Sys" where
  "Run env cfg evs st =
     (case RunStart env cfg st of
        (Some p, st') \<Rightarrow> (Some (Panics p), st')
      | (None, st') \<Rightarrow> RunLoop env cfg evs st')"

section \<open>Vocabulary of the specification\<close>

text \<open>
  The provider's A and AAAA records are the only ones the reconciler looks at; its key for
  an observed record is \<^verbatim>\<open>rec.Name + "|" + rec.Type\<close>.
\<close>

definition supported :: "RecordResponse \<Rightarrow> bool" where
  "supported rec =
     (Response_Type rec = RecordResponseTypeA \<or> Response_Type rec = RecordResponseTypeAAAA)"

definition responseKey :: "RecordResponse \<Rightarrow> string" where
  "responseKey rec = Response_Name rec @ ''|'' @ Response_Type rec"

text \<open>The fully qualified name of a desired record, and what it means to match.\<close>

definition fullName :: "DNSRecord \<Rightarrow> string" where
  "fullName record =
     (if Name record = ''@'' then Root record else Name record @ ''.'' @ Root record)"

definition matches :: "DNSRecord \<Rightarrow> RecordResponse \<Rightarrow> bool" where
  "matches record rec = (Response_Name rec = fullName record \<and> Response_Type rec = Type record)"

text \<open>A desired record is skipped when the address of its family is the empty string.\<close>

definition skipped :: "DNSRecord \<Rightarrow> string \<Rightarrow> string \<Rightarrow> bool" where
  "skipped record ipv4 ipv6 =
     ((Type record = ARecord \<and> ipv4 = '''') \<or> (Type record = AAAARecord \<and> ipv6 = ''''))"

definition differs :: "RecordResponse \<Rightarrow> DNSRecord \<Rightarrow> string \<Rightarrow> string \<Rightarrow> bool" where
  "differs existingRec record ipv4 ipv6 =
     (Response_Content existingRec \<noteq> expectedContent record ipv4 ipv6
        \<or> Response_Proxied existingRec \<noteq> Proxied record)"

text \<open>
  The provider reflects a desired record when it holds a record of that full name and kind
  and every such record has the wanted content and proxied flag. It reflects a desired
  list when it does so for every record of kind A or AAAA that is not skipped.
\<close>

definition published :: "RecordResponse list \<Rightarrow> DNSRecord \<Rightarrow> string \<Rightarrow> bool" where
  "published es record content =
     (list_ex (matches record) es
      \<and> list_all (\<lambda>e. matches record e \<longrightarrow>
                        Response_Content e = content \<and> Response_Proxied e = Proxied record) es)"

definition inSync :: "RecordResponse list \<Rightarrow> DNSRecord list \<Rightarrow> string \<Rightarrow> string \<Rightarrow> bool" where
  "inSync es records ipv4 ipv6 =
     list_all (\<lambda>r. (Type r = ARecord \<or> Type r = AAAARecord)
                    \<and> (skipped r ipv4 ipv6 \<or> published es r (expectedContent r ipv4 ipv6)))
              records"

text \<open>The calls and the log lines a run added.\<close>

definition issued :: "'w Sys \<Rightarrow> 'w Sys \<Rightarrow> Call list" where
  "issued s s' = drop (length (calls s)) (calls s')"

definition logged :: "'w Sys \<Rightarrow> 'w Sys \<Rightarrow> Log list" where
  "logged s s' = drop (length (logs s)) (logs s')"

fun isBatchCall :: "Call \<Rightarrow> bool" where
  "isBatchCall (CallBatchDNSRecords req) = True"
| "isBatchCall c = False"

fun isDeleteCall :: "Call \<Rightarrow> bool" where
  "isDeleteCall (CallDeleteDNSRecord zoneID recordID) = True"
| "isDeleteCall c = False"

text \<open>
  The line a pass over the domains writes for each domain: the zone it names and the
  error it reports, if any.
\<close>

fun domainLine :: "Log \<Rightarrow> bool" where
  "domainLine (Printf f args) = True"
| "domainLine (Println l) = False"

fun lineZone :: "Log \<Rightarrow> string" where
  "lineZone (Printf f (S zone # args)) = zone"
| "lineZone l = ''''"

fun lineError :: "Log \<Rightarrow> error option" where
  "lineError (Printf f [S zone, E err]) = Some err"
| "lineError l = None"

definition lastError :: "Log list \<Rightarrow> error option" where
  "lastError ls =
     (case filter (\<lambda>l. lineError l \<noteq> None) ls of [] \<Rightarrow> None | x # xs \<Rightarrow> lineError (last (x # xs)))"

section \<open>An in-memory provider and lookup service\<close>

text \<open>
  A world to run the operations in: zones, records (each with the ID of its zone), the
  answer of the lookup service for each URL, and a clock that every call advances.
\<close>

record FakeWorld =
  fake_zones :: "Zone list"
  fake_records :: "(string \<times> RecordResponse) list"
  fake_http :: "string \<Rightarrow> error + Response"
  fake_clock :: int

definition fakeTick :: "FakeWorld \<Rightarrow> FakeWorld" where
  "fakeTick w = w\<lparr>fake_clock := fake_clock w + 1\<rparr>"

definition fakeFullName :: "string \<Rightarrow> string \<Rightarrow> string" where
  "fakeFullName zoneName name = (if name = ''@'' then zoneName else name @ ''.'' @ zoneName)"

fun fakePost :: "string \<Rightarrow> RecordBatchParamsPostUnion \<Rightarrow> RecordResponse" where
  "fakePost zoneName (ARecordParam p) =
     \<lparr>Response_ID = ''new-A-'' @ Param_Name p,
      Response_Name = fakeFullName zoneName (Param_Name p),
      Response_Type = ''A'', Response_Content = Param_Content p,
      Response_Proxied = Param_Proxied p\<rparr>"
| "fakePost zoneName (AAAARecordParam p) =
     \<lparr>Response_ID = ''new-AAAA-'' @ Param_Name p,
      Response_Name = fakeFullName zoneName (Param_Name p),
      Response_Type = ''AAAA'', Response_Content = Param_Content p,
      Response_Proxied = Param_Proxied p\<rparr>"

fun fakePut :: "BatchPutUnionParam \<Rightarrow> RecordResponse \<Rightarrow> RecordResponse" where
  "fakePut (BatchPutARecordParam i p) rec =
     (if Response_ID rec = i
      then rec\<lparr>Response_Content := Param_Content p, Response_Proxied := Param_Proxied p\<rparr>
      else rec)"
| "fakePut (BatchPutAAAARecordParam i p) rec =
     (if Response_ID rec = i
      then rec\<lparr>Response_Content := Param_Content p, Response_Proxied := Param_Proxied p\<rparr>
      else rec)"

definition fakeBatch ::
  "string \<Rightarrow> RecordBatchParams \<Rightarrow> (string \<times> RecordResponse) list
     \<Rightarrow> (string \<times> RecordResponse) list" where
  "fakeBatch zoneName req recs =
     map (\<lambda>(z, rec). (z, fold fakePut (case Puts req of None \<Rightarrow> [] | Some us \<Rightarrow> us) rec)) recs
     @ map (\<lambda>p. (Batch_ZoneID req, fakePost zoneName p))
           (case Posts req of None \<Rightarrow> [] | Some ps \<Rightarrow> ps)"

definition fakeCloudflare :: "FakeWorld CloudflareClient" where
  "fakeCloudflare =
     \<lparr>ListZones = (\<lambda>name w.
        (Inr (filter (\<lambda>z. Zone_Name z = name) (fake_zones w)), fakeTick w)),
      ListDNSRecords = (\<lambda>zoneID w.
        (Inr (map snd (filter (\<lambda>p. fst p = zoneID) (fake_records w))), fakeTick w)),
      BatchDNSRecords = (\<lambda>req w.
        (case filter (\<lambda>z. Zone_ID z = Batch_ZoneID req) (fake_zones w) of
           [] \<Rightarrow> (Some (External ''unknown zone''), fakeTick w)
         | z # _ \<Rightarrow>
             (None, fakeTick (w\<lparr>fake_records := fakeBatch (Zone_Name z) req (fake_records w)\<rparr>)))),
      DeleteDNSRecord = (\<lambda>recordID zoneID w.
        (None, fakeTick (w\<lparr>fake_records :=
                             filter (\<lambda>p. Response_ID (snd p) \<noteq> recordID) (fake_records w)\<rparr>)))\<rparr>"

text \<open>\<^verbatim>\<open>strings.TrimSpace\<close> on ASCII text.\<close>

definition asciiSpace :: "char \<Rightarrow> bool" where
  "asciiSpace c = (c \<in> set [CHR '' '', CHR 0x09, CHR 0x0A, CHR 0x0B, CHR 0x0C, CHR 0x0D])"

definition trimASCII :: "string \<Rightarrow> string" where
  "trimASCII s = rev (dropWhile asciiSpace (rev (dropWhile asciiSpace s)))"

definition fakeFetcher :: "FakeWorld IPFetcher" where
  "fakeFetcher =
     \<lparr>NewRequestWithContext = (\<lambda>url. None),
      Do = (\<lambda>url w. (fake_http w url, fakeTick w)),
      TrimSpace = trimASCII\<rparr>"

text \<open>
  The test environment converts what \<^verbatim>\<open>int64\<close> cannot represent to the least
  \<^verbatim>\<open>int64\<close>, as amd64 does.
\<close>

definition fakeEnv :: "FakeWorld Env" where
  "fakeEnv =
     \<lparr>ipFetcher = fakeFetcher, dnsManager = fakeCloudflare, Now = fake_clock,
      Int64Unrepresentable = (\<lambda>f. - 9223372036854775808)\<rparr>"

definition fakeSys :: "FakeWorld \<Rightarrow> FakeWorld Sys" where
  "fakeSys w = \<lparr>world = w, calls = [], logs = []\<rparr>"

text \<open>
  The scenario of the specification: zone \<^verbatim>\<open>example.com\<close> holds an A record for the apex
  with content \<^verbatim>\<open>1.1.1.1\<close> (and a record of another type); the apex and \<^verbatim>\<open>www\<close> are
  desired; the lookup service answers \<^verbatim>\<open>2.2.2.2\<close> for IPv4 and fails for IPv6.
\<close>

definition apexA :: DNSRecord where
  "apexA = \<lparr>Root = ''example.com'', Name = ''@'', Type = ARecord, Proxied = False\<rparr>"

definition wwwA :: DNSRecord where
  "wwwA = \<lparr>Root = ''example.com'', Name = ''www'', Type = ARecord, Proxied = True\<rparr>"

definition wwwAAAA :: DNSRecord where
  "wwwAAAA = \<lparr>Root = ''example.com'', Name = ''www'', Type = AAAARecord, Proxied = True\<rparr>"

definition obsApex :: RecordResponse where
  "obsApex =
     \<lparr>Response_ID = ''rec-1'', Response_Name = ''example.com'', Response_Type = ''A'',
      Response_Content = ''1.1.1.1'', Response_Proxied = False\<rparr>"

definition obsMX :: RecordResponse where
  "obsMX =
     \<lparr>Response_ID = ''rec-2'', Response_Name = ''example.com'', Response_Type = ''MX'',
      Response_Content = ''mail.example.com'', Response_Proxied = False\<rparr>"

definition obsWww :: RecordResponse where
  "obsWww =
     \<lparr>Response_ID = ''rec-3'', Response_Name = ''www.example.com'', Response_Type = ''A'',
      Response_Content = ''2.2.2.2'', Response_Proxied = True\<rparr>"

definition exampleHTTP :: "string \<Rightarrow> error + Response" where
  "exampleHTTP url =
     (if url = ipv4URL then Inr \<lparr>StatusCode = 200, Body = (''2.2.2.2'' @ [CHR 0x0A], None)\<rparr>
      else Inl (External ''no route to host''))"

definition exampleWorld :: FakeWorld where
  "exampleWorld =
     \<lparr>fake_zones = [\<lparr>Zone_ID = ''zone-123'', Zone_Name = ''example.com''\<rparr>],
      fake_records = [(''zone-123'', obsApex), (''zone-123'', obsMX)],
      fake_http = exampleHTTP, fake_clock = 0\<rparr>"

definition exampleConfig :: Config where
  "exampleConfig =
     \<lparr>RefreshRate = Finite 1, SyncRate = Finite 2, SupportsIPv6 = True,
      Domains =
        [\<lparr>Config_ZoneName = ''nosuchzone.com'',
          Config_Records = [\<lparr>Config_Name = ''@'', Config_Type = ''A'', Config_Proxied = False\<rparr>]\<rparr>,
         \<lparr>Config_ZoneName = ''example.com'',
          Config_Records = [\<lparr>Config_Name = ''@'', Config_Type = ''A'', Config_Proxied = False\<rparr>,
                            \<lparr>Config_Name = ''www'', Config_Type = ''A'', Config_Proxied = True\<rparr>]\<rparr>]\<rparr>"

text \<open>
  What the first pass over that scenario sends, and the world after it: the apex updated,
  \<^verbatim>\<open>www\<close> created.
\<close>

definition firstReq :: RecordBatchParams where
  "firstReq =
     \<lparr>Batch_ZoneID = ''zone-123'',
      Posts = Some [ARecordParam \<lparr>Param_Name = ''www'', Param_Content = ''2.2.2.2'',
                                   Param_Proxied = True, Param_TTL = 1\<rparr>],
      Puts = Some [BatchPutARecordParam ''rec-1''
                     \<lparr>Param_Name = ''@'', Param_Content = ''2.2.2.2'',
                      Param_Proxied = False, Param_TTL = 1\<rparr>]\<rparr>"

definition newWww :: RecordResponse where
  "newWww =
     \<lparr>Response_ID = ''new-A-www'', Response_Name = ''www.example.com'', Response_Type = ''A'',
      Response_Content = ''2.2.2.2'', Response_Proxied = True\<rparr>"

definition worldAfter :: FakeWorld where
  "worldAfter =
     \<lparr>fake_zones = [\<lparr>Zone_ID = ''zone-123'', Zone_Name = ''example.com''\<rparr>],
      fake_records = [(''zone-123'', obsApex\<lparr>Response_Content := ''2.2.2.2''\<rparr>),
                      (''zone-123'', obsMX), (''zone-123'', newWww)],
      fake_http = exampleHTTP, fake_clock = 2\<rparr>"

text \<open>
  The change test of \<^verbatim>\<open>checkAndUpdateIP\<close> for one family, on the value just fetched and
  the stored one, and the value stored after it.
\<close>

definition ipChanged :: "string \<Rightarrow> string option \<Rightarrow> bool" where
  "ipChanged new cur = (new \<noteq> loadString cur \<and> new \<noteq> '''')"

definition stored :: "string \<Rightarrow> string option \<Rightarrow> string option" where
  "stored new cur = (if ipChanged new cur then Some new else cur)"

definition changeLines :: "string \<Rightarrow> string \<Rightarrow> IPWatcher \<Rightarrow> Log list" where
  "changeLines new4 new6 w =
     (if ipChanged new4 (currentIPv4 w)
      then [Printf ''IPv4 changed: %s -> %s'' [S (loadString (currentIPv4 w)), S new4]] else [])
     @ (if ipChanged new6 (currentIPv6 w)
        then [Printf ''IPv6 changed: %s -> %s'' [S (loadString (currentIPv6 w)), S new6]] else [])"

text \<open>
  A watcher that runs, with \<^verbatim>\<open>1.1.1.1\<close> as its stored IPv4 address, and the system after
  the two lookups of a poll in the example world.
\<close>

definition exampleWatcher :: IPWatcher where
  "exampleWatcher =
     \<lparr>zoneCache = Map.empty, currentIPv4 = Some ''1.1.1.1'', currentIPv6 = None,
      refreshTicker = Some \<lparr>period = 1000000000, armed = 0\<rparr>,
      syncTicker = Some \<lparr>period = 30000000000, armed = 0\<rparr>\<rparr>"

definition noRoute :: error where
  "noRoute = ErrorfW ''failed to fetch IP'' (External ''no route to host'')"

definition exampleFetched :: "FakeWorld Sys" where
  "exampleFetched =
     \<lparr>world = exampleWorld\<lparr>fake_clock := 2\<rparr>,
      calls = [CallHTTPGet ipv4URL, CallHTTPGet ipv6URL],
      logs = [Printf ''Failed to fetch IPv6: %v'' [E noRoute]]\<rparr>"

definition zoneMissing :: error where
  "zoneMissing = Errorf ''zone nosuchzone.com not found''"

text \<open>
  A pass over the domains in the words of the specification. To attempt a domain is to
  resolve its zone and, when that succeeds, to reconcile its records with the two
  addresses. A sweep attempts every domain of the list in order, each from the state the
  one before left, writes one line for each outcome and keeps all outcomes. The error it
  surfaces is that of the last outcome that failed.
\<close>

datatype Outcome = ZoneFailed error | ReconcileFailed error | Reconciled

definition attempt ::
  "'w Env \<Rightarrow> string \<Rightarrow> string \<Rightarrow> DomainConfig \<Rightarrow> IPWatcher \<times> 'w Sys
     \<Rightarrow> Outcome \<times> IPWatcher \<times> 'w Sys" where
  "attempt env ipv4 ipv6 domain st =
     (case getZoneID env (Config_ZoneName domain) st of
        ((zoneID, Some err), st') \<Rightarrow> (ZoneFailed err, st')
      | ((zoneID, None), w, s) \<Rightarrow>
          (case EnsureDNSRecords (dnsManager env) zoneID (dnsRecords domain) ipv4 ipv6 s of
             (Some err, s') \<Rightarrow> (ReconcileFailed err, w, s')
           | (None, s') \<Rightarrow> (Reconciled, w, s')))"

fun outcomeError :: "Outcome \<Rightarrow> error option" where
  "outcomeError (ZoneFailed err) = Some err"
| "outcomeError (ReconcileFailed err) = Some err"
| "outcomeError Reconciled = None"

fun outcomeLine :: "string \<Rightarrow> string \<Rightarrow> string \<Rightarrow> Outcome \<Rightarrow> Log" where
  "outcomeLine failFmt okFmt zone (ZoneFailed err) =
     Printf ''Failed to get zone ID for %s: %v'' [S zone, E err]"
| "outcomeLine failFmt okFmt zone (ReconcileFailed err) = Printf failFmt [S zone, E err]"
| "outcomeLine failFmt okFmt zone Reconciled = Printf okFmt [S zone]"

fun sweep ::
  "string \<Rightarrow> string \<Rightarrow> 'w Env \<Rightarrow> string \<Rightarrow> string \<Rightarrow> DomainConfig list
     \<Rightarrow> IPWatcher \<times> 'w Sys \<Rightarrow> Outcome list \<times> IPWatcher \<times> 'w Sys" where
  "sweep failFmt okFmt env ipv4 ipv6 [] st = ([], st)"
| "sweep failFmt okFmt env ipv4 ipv6 (domain # domains) st =
     (case attempt env ipv4 ipv6 domain st of
        (out, w, s) \<Rightarrow>
          (case sweep failFmt okFmt env ipv4 ipv6 domains
                  (w, logline (outcomeLine failFmt okFmt (Config_ZoneName domain) out) s) of
             (outs, st') \<Rightarrow> (out # outs, st')))"

fun lastFailure :: "Outcome list \<Rightarrow> error option" where
  "lastFailure [] = None"
| "lastFailure (out # outs) =
     (case lastFailure outs of None \<Rightarrow> outcomeError out | Some err \<Rightarrow> Some err)"

text \<open>
  The system after the two lookups of a poll, from what \<^verbatim>\<open>GetIPv4\<close> and \<^verbatim>\<open>GetIPv6\<close>
  returned: a failed lookup is logged; the IPv6 lookup is made only when IPv6 is supported,
  and the new IPv6 value is the empty string when it is not made.
\<close>

definition noteError :: "string \<Rightarrow> error option \<Rightarrow> 'w Sys \<Rightarrow> 'w Sys" where
  "noteError fmt err s = (case err of Some e \<Rightarrow> logline (Printf fmt [E e]) s | None \<Rightarrow> s)"

definition polled :: "Config \<Rightarrow> error option \<Rightarrow> 'w Sys \<Rightarrow> error option \<Rightarrow> 'w Sys \<Rightarrow> 'w Sys" where
  "polled cfg err4 s1 err6 s2 =
     (if SupportsIPv6 cfg then noteError ''Failed to fetch IPv6: %v'' err6 s2
      else noteError ''Failed to fetch IPv4: %v'' err4 s1)"

definition fetched6 :: "Config \<Rightarrow> string \<Rightarrow> string" where
  "fetched6 cfg got6 = (if SupportsIPv6 cfg then got6 else '''')"

text \<open>
  A dual-stack variant of the scenario: the lookup service answers for both families, and
  the zone also holds an AAAA record for \<^verbatim>\<open>www\<close>.
\<close>

definition obsWww6 :: RecordResponse where
  "obsWww6 =
     \<lparr>Response_ID = ''rec-6'', Response_Name = ''www.example.com'', Response_Type = ''AAAA'',
      Response_Content = ''2001:db8::1'', Response_Proxied = True\<rparr>"

definition dualHTTP :: "string \<Rightarrow> error + Response" where
  "dualHTTP url =
     (if url = ipv4URL then Inr \<lparr>StatusCode = 200, Body = (''2.2.2.2'', None)\<rparr>
      else if url = ipv6URL then Inr \<lparr>StatusCode = 200, Body = (''2001:db8::2'', None)\<rparr>
      else Inl (External ''no route to host''))"

definition dualWorld :: FakeWorld where
  "dualWorld = exampleWorld\<lparr>fake_http := dualHTTP\<rparr>"

definition dualFetched :: "FakeWorld Sys" where
  "dualFetched =
     \<lparr>world = dualWorld\<lparr>fake_clock := 2\<rparr>,
      calls = [CallHTTPGet ipv4URL, CallHTTPGet ipv6URL], logs = []\<rparr>"

definition dualWatcher :: IPWatcher where
  "dualWatcher =
     exampleWatcher\<lparr>currentIPv4 := Some ''2.2.2.2'', currentIPv6 := Some ''2001:db8::1''\<rparr>"


text \<open>
  The system after the IPv4 lookup and after both lookups of a poll, in a world of the
  examples when no lookup is logged.
\<close>

definition afterIPv4 :: "FakeWorld \<Rightarrow> FakeWorld Sys" where
  "afterIPv4 w = \<lparr>world = w\<lparr>fake_clock := 1\<rparr>, calls = [CallHTTPGet ipv4URL], logs = []\<rparr>"

definition afterIPv6 :: "FakeWorld \<Rightarrow> FakeWorld Sys" where
  "afterIPv6 w =
     \<lparr>world = w\<lparr>fake_clock := 2\<rparr>, calls = [CallHTTPGet ipv4URL, CallHTTPGet ipv6URL],
      logs = []\<rparr>"

text \<open>
  A configuration that passes validation (both rates are positive) and asks for
  \<open>10 ^ 11\<close> verifications a minute: the verify interval is below a nanosecond.
\<close>

definition hastyConfig :: Config where
  "hastyConfig = exampleConfig\<lparr>SyncRate := Finite 100000000000\<rparr>"
section \<open>The reconciler\<close>

lemma fold_existing:
  "fold (\<lambda>rec m.
             if Response_Type rec = RecordResponseTypeA \<or> Response_Type rec = RecordResponseTypeAAAA
             then m(Response_Name rec @ ''|'' @ Response_Type rec \<mapsto> rec)
             else m) es m0 k =
   (case filter (\<lambda>e. supported e \<and> responseKey e = k) es of
      [] \<Rightarrow> m0 k | x # xs \<Rightarrow> Some (last (x # xs)))"
proof (induction es arbitrary: m0)
  case Nil
  show ?case by simp
next
  case (Cons e es)
  show ?case
    by (simp add: Cons.IH supported_def responseKey_def split: list.splits)
qed

lemma existingRecordMap_eq:
  "existingRecordMap es k =
   (case filter (\<lambda>e. supported e \<and> responseKey e = k) es of
      [] \<Rightarrow> None | x # xs \<Rightarrow> Some (last (x # xs)))"
  unfolding existingRecordMap_def by (simp add: fold_existing)

lemma key_suffix_A:
  "f @ ''|'' @ t = g @ ''|A'' \<Longrightarrow> t = ''A'' \<or> t = ''AAAA'' \<Longrightarrow> t = ''A'' \<and> f = g"
  by auto

lemma key_suffix_AAAA:
  "f @ ''|'' @ t = g @ ''|AAAA'' \<Longrightarrow> t = ''A'' \<or> t = ''AAAA'' \<Longrightarrow> t = ''AAAA'' \<and> f = g"
  by auto

lemma prepareRecordKey_eq: "prepareRecordKey r = fullName r @ ''|'' @ Type r"
  by (simp add: prepareRecordKey_def fullName_def)

lemma key_matches:
  assumes "Type r = ARecord \<or> Type r = AAAARecord"
  shows "(supported e \<and> responseKey e = prepareRecordKey r) = matches r e"
  using assms
  by (auto simp: supported_def responseKey_def prepareRecordKey_eq matches_def ARecord_def
        AAAARecord_def RecordResponseTypeA_def RecordResponseTypeAAAA_def)

lemma existingRecordMap_matches:
  assumes "Type r = ARecord \<or> Type r = AAAARecord"
  shows "existingRecordMap es (prepareRecordKey r) =
         (case filter (matches r) es of [] \<Rightarrow> None | x # xs \<Rightarrow> Some (last (x # xs)))"
  by (simp add: existingRecordMap_eq key_matches [OF assms])

text \<open>
  Claim C4. The reconciliation key of a desired record is \<^verbatim>\<open>root|kind\<close> when its name is
  \<^verbatim>\<open>@\<close> and \<^verbatim>\<open>name.root|kind\<close> otherwise. Consequently, for a desired record of kind A
  or AAAA, an observed A or AAAA record has that key exactly when its full name is the root
  (name \<^verbatim>\<open>@\<close>) or \<^verbatim>\<open>name.root\<close> (any other name) and its kind is the desired one; and
  looking the key up in the map of existing records finds the last observed record of that
  full name and kind, or nothing when there is none.
\<close>
theorem prepareRecordKey_matching:
  "prepareRecordKey r =
     (if Name r = ''@'' then Root r @ ''|'' @ Type r
      else Name r @ ''.'' @ Root r @ ''|'' @ Type r)
   \<and> (Type r = ARecord \<or> Type r = AAAARecord \<longrightarrow>
        (\<forall>e. (supported e \<and> responseKey e = prepareRecordKey r)
                = (Response_Name e = (if Name r = ''@'' then Root r else Name r @ ''.'' @ Root r)
                   \<and> Response_Type e = Type r))
        \<and> existingRecordMap es (prepareRecordKey r) =
            (case filter (\<lambda>e. Response_Name e =
                                 (if Name r = ''@'' then Root r else Name r @ ''.'' @ Root r)
                               \<and> Response_Type e = Type r) es of
               [] \<Rightarrow> None | x # xs \<Rightarrow> Some (last (x # xs))))"
proof -
  have k: "prepareRecordKey r =
     (if Name r = ''@'' then Root r @ ''|'' @ Type r
      else Name r @ ''.'' @ Root r @ ''|'' @ Type r)"
    by (simp add: prepareRecordKey_def)
  have m: "matches r = (\<lambda>e. Response_Name e =
                                 (if Name r = ''@'' then Root r else Name r @ ''.'' @ Root r)
                               \<and> Response_Type e = Type r)"
    by (rule ext) (simp add: matches_def fullName_def)
  show ?thesis
    using k key_matches [of r] existingRecordMap_matches [of r es] unfolding m by blast
qed

lemma ensureStep_eq:
  "ensureStep M ipv4 ipv6 r (c, u) =
   (c @ (if \<not> skipped r ipv4 ipv6 \<and> M (prepareRecordKey r) = None then [r] else []),
    u @ (if \<not> skipped r ipv4 ipv6 \<and>
             (case M (prepareRecordKey r) of None \<Rightarrow> False
              | Some e \<Rightarrow> differs e r ipv4 ipv6)
         then [\<lparr>ID = Response_ID (the (M (prepareRecordKey r))), Record = r\<rparr>] else []))"
  by (simp add: ensureStep_def skipped_def differs_def split: option.splits)

lemma fold_ensureStep:
  "fold (ensureStep M ipv4 ipv6) rs (c, u) =
   (c @ filter (\<lambda>r. \<not> skipped r ipv4 ipv6 \<and> M (prepareRecordKey r) = None) rs,
    u @ map (\<lambda>r. \<lparr>ID = Response_ID (the (M (prepareRecordKey r))), Record = r\<rparr>)
          (filter (\<lambda>r. \<not> skipped r ipv4 ipv6 \<and>
                     (case M (prepareRecordKey r) of None \<Rightarrow> False
                      | Some e \<Rightarrow> differs e r ipv4 ipv6)) rs))"
proof (induction rs arbitrary: c u)
  case Nil
  show ?case by simp
next
  case (Cons r rs)
  show ?case
    by (simp only: fold_Cons o_apply ensureStep_eq Cons.IH) simp
qed

lemma recordsToCreate_eq:
  "recordsToCreate es rs ipv4 ipv6 =
   filter (\<lambda>r. \<not> skipped r ipv4 ipv6 \<and> existingRecordMap es (prepareRecordKey r) = None) rs"
  by (simp add: recordsToCreate_def planRecords_def fold_ensureStep)

lemma recordsToUpdate_eq:
  "recordsToUpdate es rs ipv4 ipv6 =
   map (\<lambda>r. \<lparr>ID = Response_ID (the (existingRecordMap es (prepareRecordKey r))), Record = r\<rparr>)
       (filter (\<lambda>r. \<not> skipped r ipv4 ipv6 \<and>
                  (case existingRecordMap es (prepareRecordKey r) of None \<Rightarrow> False
                   | Some e \<Rightarrow> differs e r ipv4 ipv6)) rs)"
  by (simp add: recordsToUpdate_def planRecords_def fold_ensureStep)

lemma planRecords_eq:
  "planRecords es rs ipv4 ipv6 = (recordsToCreate es rs ipv4 ipv6, recordsToUpdate es rs ipv4 ipv6)"
  by (simp add: recordsToCreate_def recordsToUpdate_def)

lemma issued_issue [simp]: "issued s (issue c w' s) = [c]"
  by (simp add: issued_def issue_def)

lemma issued_issue2 [simp]: "issued s (issue c2 w2 (issue c1 w1 s)) = [c1, c2]"
  by (simp add: issued_def issue_def)

lemma issued_logline [simp]: "issued s (logline l s') = issued s s'"
  by (simp add: issued_def logline_def)

lemma GetDNSRecords_ok:
  "ListDNSRecords m z (world s) = (Inr es, w1) \<Longrightarrow>
   GetDNSRecords m z s = (Inr es, issue (CallListDNSRecords z) w1 s)"
  by (simp add: GetDNSRecords_def)

lemma GetDNSRecords_fail:
  "ListDNSRecords m z (world s) = (Inl err, w1) \<Longrightarrow>
   GetDNSRecords m z s =
     (Inl (ErrorfW ''failed to list DNS records'' err), issue (CallListDNSRecords z) w1 s)"
  by (simp add: GetDNSRecords_def)

lemma world_issue [simp]: "world (issue c w' s) = w'"
  by (simp add: issue_def)

lemma world_logline [simp]: "world (logline l s) = world s"
  by (simp add: logline_def)

lemma EnsureDNSRecords_fail:
  "ListDNSRecords m z (world s) = (Inl err, w1) \<Longrightarrow>
   EnsureDNSRecords m z rs ipv4 ipv6 s =
     (Some (ErrorfW ''failed to get existing DNS records''
              (ErrorfW ''failed to list DNS records'' err)),
      issue (CallListDNSRecords z) w1 s)"
  by (simp add: EnsureDNSRecords_def GetDNSRecords_fail)

lemma EnsureDNSRecords_noop:
  "ListDNSRecords m z (world s) = (Inr es, w1) \<Longrightarrow>
   recordsToCreate es rs ipv4 ipv6 = [] \<Longrightarrow> recordsToUpdate es rs ipv4 ipv6 = [] \<Longrightarrow>
   EnsureDNSRecords m z rs ipv4 ipv6 s =
     (None, logline (Println ''No DNS records to create or update'')
              (issue (CallListDNSRecords z) w1 s))"
  by (simp add: EnsureDNSRecords_def GetDNSRecords_ok planRecords_eq)

lemma EnsureDNSRecords_batch:
  "ListDNSRecords m z (world s) = (Inr es, w1) \<Longrightarrow>
   recordsToCreate es rs ipv4 ipv6 \<noteq> [] \<or> recordsToUpdate es rs ipv4 ipv6 \<noteq> [] \<Longrightarrow>
   BatchDNSRecords m (batchReq z (recordsToCreate es rs ipv4 ipv6)
                        (recordsToUpdate es rs ipv4 ipv6) ipv4 ipv6) w1 = (r, w2) \<Longrightarrow>
   EnsureDNSRecords m z rs ipv4 ipv6 s =
     (map_option (ErrorfW ''failed to execute batch DNS record update'') r,
      issue (CallBatchDNSRecords (batchReq z (recordsToCreate es rs ipv4 ipv6)
                                    (recordsToUpdate es rs ipv4 ipv6) ipv4 ipv6)) w2
        (issue (CallListDNSRecords z) w1 s))"
  by (auto simp: EnsureDNSRecords_def GetDNSRecords_ok planRecords_eq Let_def split: option.splits)

lemma EnsureDNSRecords_issued:
  "ListDNSRecords m z (world s) = (Inr es, w1) \<Longrightarrow>
   issued s (snd (EnsureDNSRecords m z rs ipv4 ipv6 s)) =
     CallListDNSRecords z #
       (if recordsToCreate es rs ipv4 ipv6 = [] \<and> recordsToUpdate es rs ipv4 ipv6 = [] then []
        else [CallBatchDNSRecords (batchReq z (recordsToCreate es rs ipv4 ipv6)
                                     (recordsToUpdate es rs ipv4 ipv6) ipv4 ipv6)])"
proof (cases "recordsToCreate es rs ipv4 ipv6 = [] \<and> recordsToUpdate es rs ipv4 ipv6 = []")
  case True
  assume l: "ListDNSRecords m z (world s) = (Inr es, w1)"
  show ?thesis using True by (simp add: EnsureDNSRecords_noop [OF l])
next
  case False
  assume l: "ListDNSRecords m z (world s) = (Inr es, w1)"
  obtain r w2 where b: "BatchDNSRecords m (batchReq z (recordsToCreate es rs ipv4 ipv6)
                        (recordsToUpdate es rs ipv4 ipv6) ipv4 ipv6) w1 = (r, w2)"
    by (cases "BatchDNSRecords m (batchReq z (recordsToCreate es rs ipv4 ipv6)
                        (recordsToUpdate es rs ipv4 ipv6) ipv4 ipv6) w1") auto
  from False have ne: "recordsToCreate es rs ipv4 ipv6 \<noteq> [] \<or> recordsToUpdate es rs ipv4 ipv6 \<noteq> []"
    by simp
  show ?thesis using False by (simp add: EnsureDNSRecords_batch [OF l ne b])
qed

lemma recordsToUpdate_mem:
  "(\<lparr>ID = i, Record = r\<rparr> \<in> set (recordsToUpdate es rs ipv4 ipv6)) =
   (r \<in> set rs \<and> \<not> skipped r ipv4 ipv6 \<and>
    (case existingRecordMap es (prepareRecordKey r) of None \<Rightarrow> False
     | Some e \<Rightarrow> differs e r ipv4 ipv6 \<and> i = Response_ID e))"
  by (auto simp: recordsToUpdate_eq image_iff split: option.splits)

lemma recordsToUpdate_elem:
  "u \<in> set (recordsToUpdate es rs ipv4 ipv6) \<Longrightarrow>
   Record u \<in> set rs \<and> \<not> skipped (Record u) ipv4 ipv6 \<and>
   (\<exists>e. existingRecordMap es (prepareRecordKey (Record u)) = Some e
        \<and> differs e (Record u) ipv4 ipv6 \<and> ID u = Response_ID e)"
  by (auto simp: recordsToUpdate_eq image_iff split: option.splits)

lemma types_distinct [simp]: "ARecord \<noteq> AAAARecord" "AAAARecord \<noteq> ARecord"
  by (simp_all add: ARecord_def AAAARecord_def)

text \<open>
  Claim C1. Let a desired record be in the list, not skipped for want of an address, and
  let its key find the existing record \<open>e\<close>. Then it is put in the update batch, with the
  provider ID of \<open>e\<close>, if and only if the content of \<open>e\<close> differs from the IPv4 address when
  the record is of kind A, from the IPv6 address when it is of kind AAAA, or the proxied
  flag of \<open>e\<close> differs from the desired one; whenever it is in the update batch it carries
  that ID; it is never in the create batch; and these two batches are what
  \<^verbatim>\<open>EnsureDNSRecords\<close> sends, in one batch call, or not at all when both are empty.
\<close>
theorem EnsureDNSRecords_minimal_diff:
  assumes "r \<in> set rs"
    and "\<not> (Type r = ARecord \<and> ipv4 = '''')" and "\<not> (Type r = AAAARecord \<and> ipv6 = '''')"
    and "existingRecordMap es (prepareRecordKey r) = Some e"
  shows "(Type r = ARecord \<longrightarrow>
            (\<lparr>ID = Response_ID e, Record = r\<rparr> \<in> set (recordsToUpdate es rs ipv4 ipv6))
              = (Response_Content e \<noteq> ipv4 \<or> Response_Proxied e \<noteq> Proxied r))
         \<and> (Type r = AAAARecord \<longrightarrow>
            (\<lparr>ID = Response_ID e, Record = r\<rparr> \<in> set (recordsToUpdate es rs ipv4 ipv6))
              = (Response_Content e \<noteq> ipv6 \<or> Response_Proxied e \<noteq> Proxied r))
         \<and> (\<forall>u \<in> set (recordsToUpdate es rs ipv4 ipv6). Record u = r \<longrightarrow> ID u = Response_ID e)
         \<and> r \<notin> set (recordsToCreate es rs ipv4 ipv6)
         \<and> (ListDNSRecords m z (world s) = (Inr es, w1) \<longrightarrow>
              issued s (snd (EnsureDNSRecords m z rs ipv4 ipv6 s)) =
                CallListDNSRecords z #
                  (if recordsToCreate es rs ipv4 ipv6 = [] \<and> recordsToUpdate es rs ipv4 ipv6 = []
                   then []
                   else [CallBatchDNSRecords
                           (batchReq z (recordsToCreate es rs ipv4 ipv6)
                              (recordsToUpdate es rs ipv4 ipv6) ipv4 ipv6)]))"
proof -
  have sk: "\<not> skipped r ipv4 ipv6" using assms(2,3) by (simp add: skipped_def)
  have a: "(\<lparr>ID = Response_ID e, Record = r\<rparr> \<in> set (recordsToUpdate es rs ipv4 ipv6))
           = (Response_Content e \<noteq> expectedContent r ipv4 ipv6 \<or> Response_Proxied e \<noteq> Proxied r)"
    using assms(1,4) sk by (simp add: recordsToUpdate_mem differs_def)
  have a4: "Type r = ARecord \<longrightarrow>
            (\<lparr>ID = Response_ID e, Record = r\<rparr> \<in> set (recordsToUpdate es rs ipv4 ipv6))
              = (Response_Content e \<noteq> ipv4 \<or> Response_Proxied e \<noteq> Proxied r)"
    unfolding a by (simp add: expectedContent_def)
  have a6: "Type r = AAAARecord \<longrightarrow>
            (\<lparr>ID = Response_ID e, Record = r\<rparr> \<in> set (recordsToUpdate es rs ipv4 ipv6))
              = (Response_Content e \<noteq> ipv6 \<or> Response_Proxied e \<noteq> Proxied r)"
    unfolding a by (simp add: expectedContent_def)
  have b: "\<forall>u \<in> set (recordsToUpdate es rs ipv4 ipv6). Record u = r \<longrightarrow> ID u = Response_ID e"
    using assms(4) by (auto dest: recordsToUpdate_elem)
  have c: "r \<notin> set (recordsToCreate es rs ipv4 ipv6)"
    using assms(4) by (simp add: recordsToCreate_eq)
  show ?thesis using a4 a6 b c EnsureDNSRecords_issued [of m z s es w1 rs ipv4 ipv6] by blast
qed

lemma prepareBatchCreate_A:
  "ARecordParam p \<in> set (prepareBatchCreate c ipv4 ipv6) \<Longrightarrow>
   \<exists>r \<in> set c. Type r = ARecord \<and> p = toDNSARecord r ipv4"
  by (induction c) (auto split: if_splits)

lemma prepareBatchCreate_AAAA:
  "AAAARecordParam p \<in> set (prepareBatchCreate c ipv4 ipv6) \<Longrightarrow>
   \<exists>r \<in> set c. Type r = AAAARecord \<and> p = toDNSAAAARecord r ipv6"
  by (induction c) (auto split: if_splits)

lemma prepareBatchUpdate_A:
  "BatchPutARecordParam i p \<in> set (prepareBatchUpdate u ipv4 ipv6) \<Longrightarrow>
   \<exists>x \<in> set u. Type (Record x) = ARecord \<and> i = ID x \<and> p = toDNSARecord (Record x) ipv4"
  by (induction u) (auto split: if_splits)

lemma prepareBatchUpdate_AAAA:
  "BatchPutAAAARecordParam i p \<in> set (prepareBatchUpdate u ipv4 ipv6) \<Longrightarrow>
   \<exists>x \<in> set u. Type (Record x) = AAAARecord \<and> i = ID x \<and> p = toDNSAAAARecord (Record x) ipv6"
  by (induction u) (auto split: if_splits)

lemma recordsToCreate_elem:
  "r \<in> set (recordsToCreate es rs ipv4 ipv6) \<Longrightarrow>
   r \<in> set rs \<and> \<not> skipped r ipv4 ipv6 \<and> existingRecordMap es (prepareRecordKey r) = None"
  by (simp add: recordsToCreate_eq)

lemma recordsToCreate_filter:
  assumes "\<And>r. r \<in> set rs \<Longrightarrow> \<not> Q r \<Longrightarrow> skipped r ipv4 ipv6"
  shows "recordsToCreate es (filter Q rs) ipv4 ipv6 = recordsToCreate es rs ipv4 ipv6"
  unfolding recordsToCreate_eq filter_filter
  by (rule filter_cong) (use assms in auto)

lemma recordsToUpdate_filter:
  assumes "\<And>r. r \<in> set rs \<Longrightarrow> \<not> Q r \<Longrightarrow> skipped r ipv4 ipv6"
  shows "recordsToUpdate es (filter Q rs) ipv4 ipv6 = recordsToUpdate es rs ipv4 ipv6"
proof -
  have "filter (\<lambda>r. \<not> skipped r ipv4 ipv6 \<and>
                  (case existingRecordMap es (prepareRecordKey r) of None \<Rightarrow> False
                   | Some e \<Rightarrow> differs e r ipv4 ipv6)) (filter Q rs)
        = filter (\<lambda>r. \<not> skipped r ipv4 ipv6 \<and>
                  (case existingRecordMap es (prepareRecordKey r) of None \<Rightarrow> False
                   | Some e \<Rightarrow> differs e r ipv4 ipv6)) rs"
    unfolding filter_filter by (rule filter_cong) (use assms in auto)
  then show ?thesis by (simp add: recordsToUpdate_eq)
qed

lemma EnsureDNSRecords_cong:
  assumes "\<And>es. recordsToCreate es rs' ipv4 ipv6 = recordsToCreate es rs ipv4 ipv6"
    and "\<And>es. recordsToUpdate es rs' ipv4 ipv6 = recordsToUpdate es rs ipv4 ipv6"
  shows "EnsureDNSRecords m z rs' ipv4 ipv6 s = EnsureDNSRecords m z rs ipv4 ipv6 s"
proof -
  have "\<And>es. planRecords es rs' ipv4 ipv6 = planRecords es rs ipv4 ipv6"
    by (simp add: planRecords_eq assms)
  then show ?thesis
    by (simp add: EnsureDNSRecords_def split: prod.splits sum.splits)
qed

text \<open>
  Claim C3. When the IPv6 address is the empty string, no AAAA record is in the create or
  the update batch, nor among the posts and puts built from them, and
  \<^verbatim>\<open>EnsureDNSRecords\<close> does exactly what it does on the desired list without its AAAA
  records, so skipping raises no error. The same holds for A records when the IPv4 address
  is the empty string.
\<close>
theorem EnsureDNSRecords_skips_missing_address:
  "(ipv6 = '''' \<longrightarrow>
      (\<forall>r \<in> set (recordsToCreate es rs ipv4 ipv6). Type r \<noteq> AAAARecord)
    \<and> (\<forall>u \<in> set (recordsToUpdate es rs ipv4 ipv6). Type (Record u) \<noteq> AAAARecord)
    \<and> (\<forall>p. AAAARecordParam p \<notin> set (prepareBatchCreate (recordsToCreate es rs ipv4 ipv6) ipv4 ipv6))
    \<and> (\<forall>i p. BatchPutAAAARecordParam i p
                \<notin> set (prepareBatchUpdate (recordsToUpdate es rs ipv4 ipv6) ipv4 ipv6))
    \<and> EnsureDNSRecords m z rs ipv4 ipv6 s
        = EnsureDNSRecords m z (filter (\<lambda>r. Type r \<noteq> AAAARecord) rs) ipv4 ipv6 s)
   \<and> (ipv4 = '''' \<longrightarrow>
      (\<forall>r \<in> set (recordsToCreate es rs ipv4 ipv6). Type r \<noteq> ARecord)
    \<and> (\<forall>u \<in> set (recordsToUpdate es rs ipv4 ipv6). Type (Record u) \<noteq> ARecord)
    \<and> (\<forall>p. ARecordParam p \<notin> set (prepareBatchCreate (recordsToCreate es rs ipv4 ipv6) ipv4 ipv6))
    \<and> (\<forall>i p. BatchPutARecordParam i p
                \<notin> set (prepareBatchUpdate (recordsToUpdate es rs ipv4 ipv6) ipv4 ipv6))
    \<and> EnsureDNSRecords m z rs ipv4 ipv6 s
        = EnsureDNSRecords m z (filter (\<lambda>r. Type r \<noteq> ARecord) rs) ipv4 ipv6 s)"
proof (intro conjI impI)
  assume e: "ipv6 = ''''"
  show c: "\<forall>r \<in> set (recordsToCreate es rs ipv4 ipv6). Type r \<noteq> AAAARecord"
    using e by (auto dest!: recordsToCreate_elem simp: skipped_def)
  show u: "\<forall>u \<in> set (recordsToUpdate es rs ipv4 ipv6). Type (Record u) \<noteq> AAAARecord"
    using e by (auto dest!: recordsToUpdate_elem simp: skipped_def)
  show "\<forall>p. AAAARecordParam p \<notin> set (prepareBatchCreate (recordsToCreate es rs ipv4 ipv6) ipv4 ipv6)"
    using c by (blast dest: prepareBatchCreate_AAAA)
  show "\<forall>i p. BatchPutAAAARecordParam i p
                \<notin> set (prepareBatchUpdate (recordsToUpdate es rs ipv4 ipv6) ipv4 ipv6)"
    using u by (blast dest: prepareBatchUpdate_AAAA)
  have sk: "\<And>r. \<not> Type r \<noteq> AAAARecord \<Longrightarrow> skipped r ipv4 ipv6"
    using e by (simp add: skipped_def)
  show "EnsureDNSRecords m z rs ipv4 ipv6 s
        = EnsureDNSRecords m z (filter (\<lambda>r. Type r \<noteq> AAAARecord) rs) ipv4 ipv6 s"
    by (rule EnsureDNSRecords_cong [symmetric])
       (rule recordsToCreate_filter recordsToUpdate_filter, erule sk)+
next
  assume e: "ipv4 = ''''"
  show c: "\<forall>r \<in> set (recordsToCreate es rs ipv4 ipv6). Type r \<noteq> ARecord"
    using e by (auto dest!: recordsToCreate_elem simp: skipped_def)
  show u: "\<forall>u \<in> set (recordsToUpdate es rs ipv4 ipv6). Type (Record u) \<noteq> ARecord"
    using e by (auto dest!: recordsToUpdate_elem simp: skipped_def)
  show "\<forall>p. ARecordParam p \<notin> set (prepareBatchCreate (recordsToCreate es rs ipv4 ipv6) ipv4 ipv6)"
    using c by (blast dest: prepareBatchCreate_A)
  show "\<forall>i p. BatchPutARecordParam i p
                \<notin> set (prepareBatchUpdate (recordsToUpdate es rs ipv4 ipv6) ipv4 ipv6)"
    using u by (blast dest: prepareBatchUpdate_A)
  have sk: "\<And>r. \<not> Type r \<noteq> ARecord \<Longrightarrow> skipped r ipv4 ipv6"
    using e by (simp add: skipped_def)
  show "EnsureDNSRecords m z rs ipv4 ipv6 s
        = EnsureDNSRecords m z (filter (\<lambda>r. Type r \<noteq> ARecord) rs) ipv4 ipv6 s"
    by (rule EnsureDNSRecords_cong [symmetric])
       (rule recordsToCreate_filter recordsToUpdate_filter, erule sk)+
qed

lemma inSync_no_create:
  assumes "inSync es rs ipv4 ipv6"
  shows "recordsToCreate es rs ipv4 ipv6 = []"
proof -
  have "\<And>r. r \<in> set rs \<Longrightarrow> \<not> skipped r ipv4 ipv6 \<Longrightarrow>
          existingRecordMap es (prepareRecordKey r) \<noteq> None"
  proof -
    fix r assume r: "r \<in> set rs" and ns: "\<not> skipped r ipv4 ipv6"
    from assms r have t: "Type r = ARecord \<or> Type r = AAAARecord"
      and p: "published es r (expectedContent r ipv4 ipv6)"
      using ns by (auto simp: inSync_def list_all_iff)
    from p have "filter (matches r) es \<noteq> []"
      by (auto simp: published_def list_ex_iff filter_empty_conv)
    then show "existingRecordMap es (prepareRecordKey r) \<noteq> None"
      by (simp add: existingRecordMap_matches [OF t] split: list.splits)
  qed
  then show ?thesis by (auto simp: recordsToCreate_eq filter_empty_conv)
qed

lemma inSync_no_update:
  assumes "inSync es rs ipv4 ipv6"
  shows "recordsToUpdate es rs ipv4 ipv6 = []"
proof -
  have "\<And>r e. r \<in> set rs \<Longrightarrow> \<not> skipped r ipv4 ipv6 \<Longrightarrow>
          existingRecordMap es (prepareRecordKey r) = Some e \<Longrightarrow> \<not> differs e r ipv4 ipv6"
  proof -
    fix r e assume r: "r \<in> set rs" and ns: "\<not> skipped r ipv4 ipv6"
      and m: "existingRecordMap es (prepareRecordKey r) = Some e"
    from assms r have t: "Type r = ARecord \<or> Type r = AAAARecord"
      and p: "published es r (expectedContent r ipv4 ipv6)"
      using ns by (auto simp: inSync_def list_all_iff)
    from m obtain x xs where f: "filter (matches r) es = x # xs" and e: "e = last (x # xs)"
      by (auto simp: existingRecordMap_matches [OF t] split: list.splits)
    have "e \<in> set (filter (matches r) es)"
      unfolding f e by (rule last_in_set) simp
    then have "e \<in> set es" "matches r e" by auto
    with p show "\<not> differs e r ipv4 ipv6"
      by (auto simp: published_def list_all_iff differs_def)
  qed
  then show ?thesis
    by (auto simp: recordsToUpdate_eq filter_empty_conv split: option.splits)
qed

text \<open>
  Claim C2. If the records the provider lists already reflect the desired list for the
  given addresses, both batches are empty and \<^verbatim>\<open>EnsureDNSRecords\<close> succeeds having issued
  the list call only: no batch write, and the provider is left as the list call left it.
\<close>
theorem EnsureDNSRecords_idempotent:
  assumes "ListDNSRecords m z (world s) = (Inr es, w1)"
    and "inSync es rs ipv4 ipv6"
  shows "recordsToCreate es rs ipv4 ipv6 = []
         \<and> recordsToUpdate es rs ipv4 ipv6 = []
         \<and> fst (EnsureDNSRecords m z rs ipv4 ipv6 s) = None
         \<and> issued s (snd (EnsureDNSRecords m z rs ipv4 ipv6 s)) = [CallListDNSRecords z]
         \<and> world (snd (EnsureDNSRecords m z rs ipv4 ipv6 s)) = w1"
  using EnsureDNSRecords_noop [OF assms(1) inSync_no_create [OF assms(2)]
          inSync_no_update [OF assms(2)]]
        inSync_no_create [OF assms(2)] inSync_no_update [OF assms(2)]
  by simp

lemma existingRecordMap_Some:
  assumes "existingRecordMap es k = Some e"
  shows "e \<in> set es \<and> supported e \<and> responseKey e = k"
proof -
  from assms obtain x xs
    where f: "filter (\<lambda>e. supported e \<and> responseKey e = k) es = x # xs"
      and e: "e = last (x # xs)"
    by (auto simp: existingRecordMap_eq split: list.splits)
  have "e \<in> set (filter (\<lambda>e. supported e \<and> responseKey e = k) es)"
    unfolding f e by (rule last_in_set) simp
  then show ?thesis by simp
qed

lemma batch_posts:
  assumes "p \<in> set (prepareBatchCreate (recordsToCreate es rs ipv4 ipv6) ipv4 ipv6)"
  shows "\<exists>r \<in> set rs.
           (Type r = ARecord \<and> p = ARecordParam (toDNSARecord r ipv4))
           \<or> (Type r = AAAARecord \<and> p = AAAARecordParam (toDNSAAAARecord r ipv6))"
proof (cases p)
  case (ARecordParam x)
  with assms obtain r where "r \<in> set (recordsToCreate es rs ipv4 ipv6)"
    "Type r = ARecord" "x = toDNSARecord r ipv4"
    by (blast dest: prepareBatchCreate_A)
  with ARecordParam show ?thesis by (auto dest: recordsToCreate_elem)
next
  case (AAAARecordParam x)
  with assms obtain r where "r \<in> set (recordsToCreate es rs ipv4 ipv6)"
    "Type r = AAAARecord" "x = toDNSAAAARecord r ipv6"
    by (blast dest: prepareBatchCreate_AAAA)
  with AAAARecordParam show ?thesis by (auto dest: recordsToCreate_elem)
qed

lemma batch_puts:
  assumes "u \<in> set (prepareBatchUpdate (recordsToUpdate es rs ipv4 ipv6) ipv4 ipv6)"
  shows "\<exists>r \<in> set rs. \<exists>e \<in> set es. supported e \<and>
           ((Type r = ARecord \<and> u = BatchPutARecordParam (Response_ID e) (toDNSARecord r ipv4))
            \<or> (Type r = AAAARecord
                \<and> u = BatchPutAAAARecordParam (Response_ID e) (toDNSAAAARecord r ipv6)))"
proof (cases u)
  case (BatchPutARecordParam i p)
  with assms obtain x where x: "x \<in> set (recordsToUpdate es rs ipv4 ipv6)"
    "Type (Record x) = ARecord" "i = ID x" "p = toDNSARecord (Record x) ipv4"
    by (blast dest: prepareBatchUpdate_A)
  from recordsToUpdate_elem [OF x(1)] obtain e where
    "Record x \<in> set rs" "existingRecordMap es (prepareRecordKey (Record x)) = Some e"
    "ID x = Response_ID e" by blast
  with x BatchPutARecordParam show ?thesis
    by (blast dest: existingRecordMap_Some)
next
  case (BatchPutAAAARecordParam i p)
  with assms obtain x where x: "x \<in> set (recordsToUpdate es rs ipv4 ipv6)"
    "Type (Record x) = AAAARecord" "i = ID x" "p = toDNSAAAARecord (Record x) ipv6"
    by (blast dest: prepareBatchUpdate_AAAA)
  from recordsToUpdate_elem [OF x(1)] obtain e where
    "Record x \<in> set rs" "existingRecordMap es (prepareRecordKey (Record x)) = Some e"
    "ID x = Response_ID e" by blast
  with x BatchPutAAAARecordParam show ?thesis
    by (blast dest: existingRecordMap_Some)
qed

lemma batchReq_posts:
  "Posts (batchReq z c u ipv4 ipv6) = Some ps \<Longrightarrow> ps = prepareBatchCreate c ipv4 ipv6"
  by (simp add: batchReq_def split: if_splits)

lemma batchReq_puts:
  "Puts (batchReq z c u ipv4 ipv6) = Some us \<Longrightarrow> us = prepareBatchUpdate u ipv4 ipv6"
  by (simp add: batchReq_def split: if_splits)

text \<open>
  Claim C5. A call of \<^verbatim>\<open>EnsureDNSRecords\<close> issues at most one batch call and no delete
  call. When the list call succeeds and both batches are empty, it returns success having
  issued the list call only. Every post of a batch it sends is an A or AAAA parameter of a
  desired record of that kind, and every put is one too and carries the ID of an observed
  record of kind A or AAAA.
\<close>
theorem EnsureDNSRecords_one_batch:
  "length (filter isBatchCall (issued s (snd (EnsureDNSRecords m z rs ipv4 ipv6 s)))) \<le> 1
   \<and> filter isDeleteCall (issued s (snd (EnsureDNSRecords m z rs ipv4 ipv6 s))) = []
   \<and> (ListDNSRecords m z (world s) = (Inr es, w1) \<longrightarrow>
        recordsToCreate es rs ipv4 ipv6 = [] \<longrightarrow> recordsToUpdate es rs ipv4 ipv6 = [] \<longrightarrow>
          fst (EnsureDNSRecords m z rs ipv4 ipv6 s) = None
          \<and> issued s (snd (EnsureDNSRecords m z rs ipv4 ipv6 s)) = [CallListDNSRecords z])
   \<and> (ListDNSRecords m z (world s) = (Inr es, w1) \<longrightarrow>
        CallBatchDNSRecords req \<in> set (issued s (snd (EnsureDNSRecords m z rs ipv4 ipv6 s))) \<longrightarrow>
          (\<forall>ps. Posts req = Some ps \<longrightarrow>
             (\<forall>p \<in> set ps. \<exists>r \<in> set rs.
                (Type r = ARecord \<and> p = ARecordParam (toDNSARecord r ipv4))
                \<or> (Type r = AAAARecord \<and> p = AAAARecordParam (toDNSAAAARecord r ipv6))))
          \<and> (\<forall>us. Puts req = Some us \<longrightarrow>
             (\<forall>u \<in> set us. \<exists>r \<in> set rs. \<exists>e \<in> set es. supported e \<and>
                ((Type r = ARecord \<and> u = BatchPutARecordParam (Response_ID e) (toDNSARecord r ipv4))
                 \<or> (Type r = AAAARecord
                     \<and> u = BatchPutAAAARecordParam (Response_ID e) (toDNSAAAARecord r ipv6))))))"
proof (cases "ListDNSRecords m z (world s)")
  case (Pair r0 w0)
  show ?thesis
  proof (cases r0)
    case (Inl err)
    with Pair have l: "ListDNSRecords m z (world s) = (Inl err, w0)" by simp
    show ?thesis by (simp add: EnsureDNSRecords_fail [OF l] l)
  next
    case (Inr es0)
    with Pair have l: "ListDNSRecords m z (world s) = (Inr es0, w0)" by simp
    note i = EnsureDNSRecords_issued [OF l, of rs ipv4 ipv6]
    have one: "length (filter isBatchCall (issued s (snd (EnsureDNSRecords m z rs ipv4 ipv6 s)))) \<le> 1"
      and del: "filter isDeleteCall (issued s (snd (EnsureDNSRecords m z rs ipv4 ipv6 s))) = []"
      by (simp_all add: i)
    have noop: "recordsToCreate es0 rs ipv4 ipv6 = [] \<Longrightarrow> recordsToUpdate es0 rs ipv4 ipv6 = [] \<Longrightarrow>
          fst (EnsureDNSRecords m z rs ipv4 ipv6 s) = None
          \<and> issued s (snd (EnsureDNSRecords m z rs ipv4 ipv6 s)) = [CallListDNSRecords z]"
      by (simp add: EnsureDNSRecords_noop [OF l])
    have req: "CallBatchDNSRecords req \<in> set (issued s (snd (EnsureDNSRecords m z rs ipv4 ipv6 s)))
        \<Longrightarrow> req = batchReq z (recordsToCreate es0 rs ipv4 ipv6)
                      (recordsToUpdate es0 rs ipv4 ipv6) ipv4 ipv6"
      by (simp add: i split: if_splits)
    show ?thesis
      using one del noop req l
      by (auto dest!: batchReq_posts batchReq_puts batch_posts batch_puts)
  qed
qed


section \<open>Zone resolution\<close>

lemma GetZoneIDByName_cases:
  "ListZones m zn (world s) = (r, w') \<Longrightarrow>
   GetZoneIDByName m zn s =
     ((case r of
         Inl err \<Rightarrow> ('''', Some (ErrorfW ''failed to list zones'' err))
       | Inr [] \<Rightarrow> ('''', Some (Errorf (''zone '' @ zn @ '' not found'')))
       | Inr (z # zs) \<Rightarrow> (Zone_ID z, None)),
      issue (CallListZones zn) w' s)"
  by (simp add: GetZoneIDByName_def split: sum.splits list.splits)

lemma GetZoneIDByName_issued: "issued s (snd (GetZoneIDByName m zn s)) = [CallListZones zn]"
  by (cases "ListZones m zn (world s)") (simp add: GetZoneIDByName_cases)

lemma GetZoneIDByName_logs: "logs (snd (GetZoneIDByName m zn s)) = logs s"
  by (cases "ListZones m zn (world s)") (simp add: GetZoneIDByName_cases issue_def)

lemma GetZoneIDByName_error_empty:
  "snd (fst (GetZoneIDByName m zn s)) \<noteq> None \<Longrightarrow> fst (fst (GetZoneIDByName m zn s)) = ''''"
  by (cases "ListZones m zn (world s)")
     (auto simp: GetZoneIDByName_cases split: sum.splits list.splits)

lemma getZoneID_hit:
  "zoneCache w zn = Some zid \<Longrightarrow> getZoneID env zn (w, s) = ((zid, None), w, s)"
  by (simp add: getZoneID_def)

lemma getZoneID_miss:
  "zoneCache w zn = None \<Longrightarrow>
   getZoneID env zn (w, s) =
     (case GetZoneIDByName (dnsManager env) zn s of
        ((zid, Some err), s') \<Rightarrow> (('''', Some err), w, s')
      | ((zid, None), s') \<Rightarrow> ((zid, None), w\<lparr>zoneCache := (zoneCache w)(zn \<mapsto> zid)\<rparr>, s'))"
  by (simp add: getZoneID_def)

text \<open>
  Claim C6. \<^verbatim>\<open>GetZoneIDByName\<close> issues one list call for the name; it returns the error
  \<^verbatim>\<open>zone <name> not found\<close> exactly when that call answers the empty list, the ID of the
  first zone when it answers a non-empty list, and the wrapped error of the call when it
  fails. \<^verbatim>\<open>getZoneID\<close> on a cached name returns the cached ID with no call and no change
  of state; on a name not cached it makes that lookup, stores the ID it resolved under the
  name, and stores nothing when the lookup fails.
\<close>

theorem getZoneID_resolution:
  "(fst (GetZoneIDByName m zn s) = ('''', Some (Errorf (''zone '' @ zn @ '' not found''))))
     = (fst (ListZones m zn (world s)) = Inr [])
   \<and> (\<forall>z zs. fst (ListZones m zn (world s)) = Inr (z # zs) \<longrightarrow>
         fst (GetZoneIDByName m zn s) = (Zone_ID z, None))
   \<and> (\<forall>err. fst (ListZones m zn (world s)) = Inl err \<longrightarrow>
         fst (GetZoneIDByName m zn s) = ('''', Some (ErrorfW ''failed to list zones'' err)))
   \<and> issued s (snd (GetZoneIDByName m zn s)) = [CallListZones zn]
   \<and> (\<forall>zid. zoneCache w zn = Some zid \<longrightarrow> getZoneID env zn (w, s) = ((zid, None), w, s))
   \<and> (zoneCache w zn = None \<longrightarrow>
        issued s (snd (snd (getZoneID env zn (w, s)))) = [CallListZones zn]
        \<and> fst (getZoneID env zn (w, s)) = fst (GetZoneIDByName (dnsManager env) zn s)
        \<and> zoneCache (fst (snd (getZoneID env zn (w, s)))) =
            (case fst (GetZoneIDByName (dnsManager env) zn s) of
               (zid, None) \<Rightarrow> (zoneCache w)(zn \<mapsto> zid)
             | (zid, Some err) \<Rightarrow> zoneCache w))"
proof -
  obtain r w' where l: "ListZones m zn (world s) = (r, w')"
    by (cases "ListZones m zn (world s)") auto
  have a: "(fst (GetZoneIDByName m zn s) = ('''', Some (Errorf (''zone '' @ zn @ '' not found''))))
     = (fst (ListZones m zn (world s)) = Inr [])"
    by (simp add: GetZoneIDByName_cases [OF l] l split: sum.splits list.splits)
  have b: "\<forall>z zs. fst (ListZones m zn (world s)) = Inr (z # zs) \<longrightarrow>
         fst (GetZoneIDByName m zn s) = (Zone_ID z, None)"
    by (simp add: GetZoneIDByName_cases [OF l] l)
  have c: "\<forall>err. fst (ListZones m zn (world s)) = Inl err \<longrightarrow>
         fst (GetZoneIDByName m zn s) = ('''', Some (ErrorfW ''failed to list zones'' err))"
    by (simp add: GetZoneIDByName_cases [OF l] l)
  have d: "\<forall>zid. zoneCache w zn = Some zid \<longrightarrow> getZoneID env zn (w, s) = ((zid, None), w, s)"
    by (simp add: getZoneID_hit)
  have e: "zoneCache w zn = None \<longrightarrow>
        issued s (snd (snd (getZoneID env zn (w, s)))) = [CallListZones zn]
        \<and> fst (getZoneID env zn (w, s)) = fst (GetZoneIDByName (dnsManager env) zn s)
        \<and> zoneCache (fst (snd (getZoneID env zn (w, s)))) =
            (case fst (GetZoneIDByName (dnsManager env) zn s) of
               (zid, None) \<Rightarrow> (zoneCache w)(zn \<mapsto> zid)
             | (zid, Some err) \<Rightarrow> zoneCache w)"
  proof
    assume n: "zoneCache w zn = None"
    obtain zid e s' where g: "GetZoneIDByName (dnsManager env) zn s = ((zid, e), s')"
      by (cases "GetZoneIDByName (dnsManager env) zn s") auto
    have i: "issued s s' = [CallListZones zn]"
      using GetZoneIDByName_issued [of s "dnsManager env" zn] g by simp
    have z: "e \<noteq> None \<Longrightarrow> zid = ''''"
      using GetZoneIDByName_error_empty [of "dnsManager env" zn s] g by simp
    show "issued s (snd (snd (getZoneID env zn (w, s)))) = [CallListZones zn]
        \<and> fst (getZoneID env zn (w, s)) = fst (GetZoneIDByName (dnsManager env) zn s)
        \<and> zoneCache (fst (snd (getZoneID env zn (w, s)))) =
            (case fst (GetZoneIDByName (dnsManager env) zn s) of
               (zid, None) \<Rightarrow> (zoneCache w)(zn \<mapsto> zid)
             | (zid, Some err) \<Rightarrow> zoneCache w)"
      using i z by (cases e) (simp_all add: getZoneID_miss [OF n] g)
  qed
  show ?thesis using a b c d e GetZoneIDByName_issued [of s m zn] by blast
qed

section \<open>The IP lookup\<close>

lemma fetchIP_result:
  "fst (fetchIP f url s) =
     (case NewRequestWithContext f url of
        Some err \<Rightarrow> ('''', Some (ErrorfW ''failed to create request'' err))
      | None \<Rightarrow>
          (case fst (Do f url (world s)) of
             Inl err \<Rightarrow> ('''', Some (ErrorfW ''failed to fetch IP'' err))
           | Inr resp \<Rightarrow>
               if StatusCode resp \<noteq> StatusOK
               then ('''', Some (ErrorfD ''unexpected status code: '' (StatusCode resp)))
               else
                 (case snd (Body resp) of
                    Some err \<Rightarrow> ('''', Some (ErrorfW ''failed to read response'' err))
                  | None \<Rightarrow>
                      if TrimSpace f (fst (Body resp)) = ''''
                      then ('''', Some (Errorf ''empty IP address received''))
                      else (TrimSpace f (fst (Body resp)), None))))"
  by (cases "Do f url (world s)")
     (simp add: fetchIP_def Let_def split: option.splits sum.splits prod.splits)

lemma fetchIP_not_empty: "fst (fetchIP f url s) \<noteq> ('''', None)"
  by (auto simp: fetchIP_result split: option.splits sum.splits)

lemma fetchIP_error_empty:
  "snd (fst (fetchIP f url s)) \<noteq> None \<Longrightarrow> fst (fst (fetchIP f url s)) = ''''"
  by (auto simp: fetchIP_result split: option.splits sum.splits if_splits)

lemma fetchIP_logs: "logs (snd (fetchIP f url s)) = logs s"
  by (cases "Do f url (world s)")
     (simp add: fetchIP_def Let_def issue_def split: option.splits sum.splits prod.splits)

text \<open>
  Claim C10. \<^verbatim>\<open>fetchIP\<close>, and so \<^verbatim>\<open>GetIPv4\<close> and \<^verbatim>\<open>GetIPv6\<close>, never return the empty
  string with a nil error, and return the empty string with every error. With a request
  made and answered: a status other than 200 is an error; status 200 and a failed read of
  the body is an error; status 200 and a body that trims to the empty string is an error;
  status 200 and any other body returns the trimmed body and no error.
\<close>

theorem fetchIP_empty_means_error:
  "fst (fetchIP f url s) \<noteq> ('''', None)
   \<and> fst (GetIPv4 f s) \<noteq> ('''', None)
   \<and> fst (GetIPv6 f s) \<noteq> ('''', None)
   \<and> (snd (fst (fetchIP f url s)) \<noteq> None \<longrightarrow> fst (fst (fetchIP f url s)) = '''')
   \<and> (NewRequestWithContext f url = None \<longrightarrow> fst (Do f url (world s)) = Inr resp \<longrightarrow>
        (StatusCode resp \<noteq> StatusOK \<longrightarrow>
           fst (fetchIP f url s)
             = ('''', Some (ErrorfD ''unexpected status code: '' (StatusCode resp))))
        \<and> (StatusCode resp = StatusOK \<longrightarrow>
             (\<forall>err. snd (Body resp) = Some err \<longrightarrow>
                fst (fetchIP f url s) = ('''', Some (ErrorfW ''failed to read response'' err)))
             \<and> (snd (Body resp) = None \<longrightarrow> TrimSpace f (fst (Body resp)) = '''' \<longrightarrow>
                  fst (fetchIP f url s) = ('''', Some (Errorf ''empty IP address received'')))
             \<and> (snd (Body resp) = None \<longrightarrow> TrimSpace f (fst (Body resp)) \<noteq> '''' \<longrightarrow>
                  fst (fetchIP f url s) = (TrimSpace f (fst (Body resp)), None))))"
  using fetchIP_not_empty [of f url s] fetchIP_not_empty [of f ipv4URL s]
    fetchIP_not_empty [of f ipv6URL s] fetchIP_error_empty [of f url s]
  by (simp add: GetIPv4_def GetIPv6_def) (simp add: fetchIP_result)


section \<open>Passes over the domains\<close>

lemma logs_issue [simp]: "logs (issue c w' s) = logs s"
  by (simp add: issue_def)

lemma logs_logline [simp]: "logs (logline l s) = logs s @ [l]"
  by (simp add: logline_def)

lemma calls_logline [simp]: "calls (logline l s) = calls s"
  by (simp add: logline_def)

lemma EnsureDNSRecords_logs:
  "\<exists>ls. logs (snd (EnsureDNSRecords m z rs ipv4 ipv6 s)) = logs s @ ls \<and> filter domainLine ls = []"
proof (cases "ListDNSRecords m z (world s)")
  case (Pair r w1)
  show ?thesis
  proof (cases r)
    case (Inl err)
    with Pair have "ListDNSRecords m z (world s) = (Inl err, w1)" by simp
    then show ?thesis by (simp add: EnsureDNSRecords_fail)
  next
    case (Inr es)
    with Pair have l: "ListDNSRecords m z (world s) = (Inr es, w1)" by simp
    show ?thesis
    proof (cases "recordsToCreate es rs ipv4 ipv6 = [] \<and> recordsToUpdate es rs ipv4 ipv6 = []")
      case True
      then show ?thesis by (simp add: EnsureDNSRecords_noop [OF l])
    next
      case False
      then have ne: "recordsToCreate es rs ipv4 ipv6 \<noteq> [] \<or> recordsToUpdate es rs ipv4 ipv6 \<noteq> []"
        by simp
      obtain r2 w2 where b: "BatchDNSRecords m (batchReq z (recordsToCreate es rs ipv4 ipv6)
                        (recordsToUpdate es rs ipv4 ipv6) ipv4 ipv6) w1 = (r2, w2)"
        by (cases "BatchDNSRecords m (batchReq z (recordsToCreate es rs ipv4 ipv6)
                        (recordsToUpdate es rs ipv4 ipv6) ipv4 ipv6) w1") auto
      show ?thesis by (simp add: EnsureDNSRecords_batch [OF l ne b])
    qed
  qed
qed

lemma getZoneID_frame:
  assumes "getZoneID env zn (w, s) = (r, w', s')"
  shows "currentIPv4 w' = currentIPv4 w \<and> currentIPv6 w' = currentIPv6 w
         \<and> refreshTicker w' = refreshTicker w \<and> syncTicker w' = syncTicker w
         \<and> logs s' = logs s"
proof (cases "zoneCache w zn")
  case (Some zid)
  with assms show ?thesis by (simp add: getZoneID_hit)
next
  case None
  obtain zid e s1 where g: "GetZoneIDByName (dnsManager env) zn s = ((zid, e), s1)"
    by (cases "GetZoneIDByName (dnsManager env) zn s") auto
  have "logs s1 = logs s" using GetZoneIDByName_logs [of "dnsManager env" zn s] g by simp
  with assms show ?thesis
    by (cases e) (auto simp: getZoneID_miss [OF None] g)
qed

lemma ensureDomain_step:
  assumes "ensureDomain failFmt okFmt env ipv4 ipv6 d (e, w, s) = (e', w', s')"
  shows "\<exists>ls x. logs s' = logs s @ ls \<and> filter domainLine ls = [x]
           \<and> lineZone x = Config_ZoneName d
           \<and> e' = (case lineError x of None \<Rightarrow> e | Some err \<Rightarrow> Some err)
           \<and> currentIPv4 w' = currentIPv4 w \<and> currentIPv6 w' = currentIPv6 w
           \<and> refreshTicker w' = refreshTicker w \<and> syncTicker w' = syncTicker w"
proof -
  obtain zid ze w1 s1 where g: "getZoneID env (Config_ZoneName d) (w, s) = ((zid, ze), w1, s1)"
    by (cases "getZoneID env (Config_ZoneName d) (w, s)") auto
  note fr = getZoneID_frame [OF g]
  show ?thesis
  proof (cases ze)
    case (Some err)
    with assms g fr show ?thesis
      by (auto simp: ensureDomain_def)
  next
    case None
    obtain r s2 where en:
      "EnsureDNSRecords (dnsManager env) zid (dnsRecords d) ipv4 ipv6 s1 = (r, s2)"
      by (cases "EnsureDNSRecords (dnsManager env) zid (dnsRecords d) ipv4 ipv6 s1") auto
    from EnsureDNSRecords_logs [of "dnsManager env" zid "dnsRecords d" ipv4 ipv6 s1] en
    obtain ls where ls: "logs s2 = logs s1 @ ls" "filter domainLine ls = []" by auto
    from assms g None en fr ls show ?thesis
      by (cases r) (auto simp: ensureDomain_def)
  qed
qed

lemma lastError_Nil [simp]: "lastError [] = None"
  by (simp add: lastError_def)

lemma lastError_single [simp]: "lastError [x] = lineError x"
  by (simp add: lastError_def)

lemma lastError_None: "(lastError ys = None) = (filter (\<lambda>l. lineError l \<noteq> None) ys = [])"
proof (cases "filter (\<lambda>l. lineError l \<noteq> None) ys")
  case Nil
  then show ?thesis by (simp add: lastError_def)
next
  case (Cons x xs)
  have "last (x # xs) \<in> set (filter (\<lambda>l. lineError l \<noteq> None) ys)"
    unfolding Cons by (rule last_in_set) simp
  then have "lineError (last (x # xs)) \<noteq> None" by simp
  with Cons show ?thesis by (simp add: lastError_def)
qed

lemma lastError_last:
  "filter (\<lambda>l. lineError l \<noteq> None) ys \<noteq> [] \<Longrightarrow>
   lastError ys = lineError (last (filter (\<lambda>l. lineError l \<noteq> None) ys))"
  by (cases "filter (\<lambda>l. lineError l \<noteq> None) ys") (simp_all add: lastError_def)

lemma lastError_append:
  "lastError (xs @ ys) = (case lastError ys of None \<Rightarrow> lastError xs | Some e \<Rightarrow> Some e)"
proof (cases "filter (\<lambda>l. lineError l \<noteq> None) ys = []")
  case True
  then have "lastError ys = None" by (simp add: lastError_None)
  with True show ?thesis by (simp add: lastError_def)
next
  case False
  then have n: "lastError ys \<noteq> None" by (simp add: lastError_None)
  from False have "filter (\<lambda>l. lineError l \<noteq> None) (xs @ ys) \<noteq> []" by simp
  then have "lastError (xs @ ys)
      = lineError (last (filter (\<lambda>l. lineError l \<noteq> None) (xs @ ys)))"
    by (rule lastError_last)
  also have "\<dots> = lineError (last (filter (\<lambda>l. lineError l \<noteq> None) ys))"
    using False by (simp del: not_None_eq)
  also have "\<dots> = lastError ys" using False by (simp add: lastError_last del: not_None_eq)
  finally show ?thesis using n by (auto split: option.splits)
qed

lemma fold_ensureDomain:
  assumes "fold (ensureDomain failFmt okFmt env ipv4 ipv6) ds (e, w, s) = (e', w', s')"
  shows "\<exists>ls. logs s' = logs s @ ls
           \<and> map lineZone (filter domainLine ls) = map Config_ZoneName ds
           \<and> e' = (case lastError (filter domainLine ls) of None \<Rightarrow> e | Some err \<Rightarrow> Some err)
           \<and> currentIPv4 w' = currentIPv4 w \<and> currentIPv6 w' = currentIPv6 w
           \<and> refreshTicker w' = refreshTicker w \<and> syncTicker w' = syncTicker w"
  using assms
proof (induction ds arbitrary: e w s)
  case Nil
  then show ?case by simp
next
  case (Cons d ds)
  obtain e1 w1 s1 where st: "ensureDomain failFmt okFmt env ipv4 ipv6 d (e, w, s) = (e1, w1, s1)"
    by (cases "ensureDomain failFmt okFmt env ipv4 ipv6 d (e, w, s)") auto
  from ensureDomain_step [OF st] obtain l1 x where
    a: "logs s1 = logs s @ l1" "filter domainLine l1 = [x]" "lineZone x = Config_ZoneName d"
       "e1 = (case lineError x of None \<Rightarrow> e | Some err \<Rightarrow> Some err)"
       "currentIPv4 w1 = currentIPv4 w" "currentIPv6 w1 = currentIPv6 w"
       "refreshTicker w1 = refreshTicker w" "syncTicker w1 = syncTicker w"
    by blast
  from Cons.prems st
  have "fold (ensureDomain failFmt okFmt env ipv4 ipv6) ds (e1, w1, s1) = (e', w', s')" by simp
  from Cons.IH [OF this] obtain l2 where
    b: "logs s' = logs s1 @ l2"
       "map lineZone (filter domainLine l2) = map Config_ZoneName ds"
       "e' = (case lastError (filter domainLine l2) of None \<Rightarrow> e1 | Some err \<Rightarrow> Some err)"
       "currentIPv4 w' = currentIPv4 w1" "currentIPv6 w' = currentIPv6 w1"
       "refreshTicker w' = refreshTicker w1" "syncTicker w' = syncTicker w1"
    by blast
  have "lastError (filter domainLine (l1 @ l2)) = lastError ([x] @ filter domainLine l2)"
    using a(2) by simp
  then have le: "(case lastError (filter domainLine (l1 @ l2)) of None \<Rightarrow> e | Some err \<Rightarrow> Some err) = e'"
    unfolding lastError_append using a(4) b(3) by (auto split: option.splits)
  show ?case
    apply (rule exI [of _ "l1 @ l2"])
    using a b le by simp
qed

lemma logged_append: "logs s' = logs s @ ls \<Longrightarrow> logged s s' = ls"
  by (simp add: logged_def)

lemma updateAllDNSRecords_run:
  assumes "updateAllDNSRecords env cfg (w, s) = (e', w', s')"
  shows "map lineZone (filter domainLine (logged s s')) = map Config_ZoneName (Domains cfg)
         \<and> e' = lastError (filter domainLine (logged s s'))
         \<and> currentIPv4 w' = currentIPv4 w \<and> currentIPv6 w' = currentIPv6 w
         \<and> refreshTicker w' = refreshTicker w \<and> syncTicker w' = syncTicker w"
proof -
  from assms fold_ensureDomain [of "''Failed to ensure DNS records for %s: %v''"
      "''DNS records for %s updated successfully''" env "loadString (currentIPv4 w)"
      "loadString (currentIPv6 w)" "Domains cfg" None w s e' w' s']
  obtain ls where "logs s' = logs s @ ls"
    "map lineZone (filter domainLine ls) = map Config_ZoneName (Domains cfg)"
    "e' = (case lastError (filter domainLine ls) of None \<Rightarrow> None | Some err \<Rightarrow> Some err)"
    "currentIPv4 w' = currentIPv4 w" "currentIPv6 w' = currentIPv6 w"
    "refreshTicker w' = refreshTicker w" "syncTicker w' = syncTicker w"
    by (auto simp: updateAllDNSRecords_def)
  then show ?thesis by (auto simp: logged_append split: option.splits)
qed

lemma verifyDNSRecords_run:
  assumes "verifyDNSRecords env cfg (w, s) = (e', w', s')"
  shows "map lineZone (filter domainLine (logged s s')) = map Config_ZoneName (Domains cfg)
         \<and> e' = lastError (filter domainLine (logged s s'))
         \<and> currentIPv4 w' = currentIPv4 w \<and> currentIPv6 w' = currentIPv6 w
         \<and> refreshTicker w' = refreshTicker w \<and> syncTicker w' = syncTicker w"
proof -
  from assms fold_ensureDomain [of "''Failed to verify/update DNS records for %s: %v''"
      "''DNS records for %s are up-to-date''" env "loadString (currentIPv4 w)"
      "loadString (currentIPv6 w)" "Domains cfg" None w
      "logline (Println ''Verifying DNS records...'') s" e' w' s']
  obtain ls where "logs s' = logs s @ Println ''Verifying DNS records...'' # ls"
    "map lineZone (filter domainLine ls) = map Config_ZoneName (Domains cfg)"
    "e' = (case lastError (filter domainLine ls) of None \<Rightarrow> None | Some err \<Rightarrow> Some err)"
    "currentIPv4 w' = currentIPv4 w" "currentIPv6 w' = currentIPv6 w"
    "refreshTicker w' = refreshTicker w" "syncTicker w' = syncTicker w"
    by (auto simp: verifyDNSRecords_def)
  then show ?thesis by (auto simp: logged_append split: option.splits)
qed

lemma ensureDomain_attempt:
  "ensureDomain failFmt okFmt env ipv4 ipv6 d (e, st) =
     (case attempt env ipv4 ipv6 d st of
        (out, w, s) \<Rightarrow>
          ((case outcomeError out of None \<Rightarrow> e | Some err \<Rightarrow> Some err), w,
           logline (outcomeLine failFmt okFmt (Config_ZoneName d) out) s))"
  by (simp add: ensureDomain_def attempt_def split: prod.splits option.splits)

lemma fold_sweep:
  "fold (ensureDomain failFmt okFmt env ipv4 ipv6) ds (e, st) =
     ((case lastFailure (fst (sweep failFmt okFmt env ipv4 ipv6 ds st)) of
         None \<Rightarrow> e | Some err \<Rightarrow> Some err),
      snd (sweep failFmt okFmt env ipv4 ipv6 ds st))"
proof (induction ds arbitrary: e st)
  case Nil
  show ?case by simp
next
  case (Cons d ds)
  obtain out w s where a: "attempt env ipv4 ipv6 d st = (out, w, s)"
    by (cases "attempt env ipv4 ipv6 d st") auto
  obtain outs st' where b:
    "sweep failFmt okFmt env ipv4 ipv6 ds
       (w, logline (outcomeLine failFmt okFmt (Config_ZoneName d) out) s) = (outs, st')"
    by (cases "sweep failFmt okFmt env ipv4 ipv6 ds
       (w, logline (outcomeLine failFmt okFmt (Config_ZoneName d) out) s)") auto
  show ?case
    by (simp add: ensureDomain_attempt a b Cons.IH split: option.splits)
qed

lemma sweep_length: "length (fst (sweep failFmt okFmt env ipv4 ipv6 ds st)) = length ds"
proof (induction ds arbitrary: st)
  case Nil
  show ?case by simp
next
  case (Cons d ds)
  obtain out w s where a: "attempt env ipv4 ipv6 d st = (out, w, s)"
    by (cases "attempt env ipv4 ipv6 d st") auto
  from Cons.IH [of "(w, logline (outcomeLine failFmt okFmt (Config_ZoneName d) out) s)"]
  show ?case by (auto simp: a split: prod.splits)
qed

lemma sweep_append:
  "sweep failFmt okFmt env ipv4 ipv6 (xs @ ys) st =
     (fst (sweep failFmt okFmt env ipv4 ipv6 xs st)
        @ fst (sweep failFmt okFmt env ipv4 ipv6 ys (snd (sweep failFmt okFmt env ipv4 ipv6 xs st))),
      snd (sweep failFmt okFmt env ipv4 ipv6 ys (snd (sweep failFmt okFmt env ipv4 ipv6 xs st))))"
  by (induction xs arbitrary: st) (auto split: prod.splits)

lemma sweep_nth:
  "fst (sweep failFmt okFmt env ipv4 ipv6 (ds1 @ d # ds2) st) ! length ds1 =
     fst (attempt env ipv4 ipv6 d (snd (sweep failFmt okFmt env ipv4 ipv6 ds1 st)))"
proof -
  have "length (fst (sweep failFmt okFmt env ipv4 ipv6 ds1 st)) = length ds1"
    by (rule sweep_length)
  then show ?thesis
    by (simp add: sweep_append nth_append split: prod.splits)
qed

lemma lastFailure_all_ok: "(\<forall>out \<in> set outs. outcomeError out = None) \<Longrightarrow> lastFailure outs = None"
  by (induction outs) auto

lemma lastFailure_append:
  "lastFailure (xs @ ys) = (case lastFailure ys of None \<Rightarrow> lastFailure xs | Some e \<Rightarrow> Some e)"
  by (induction xs) (auto split: option.splits)

lemma lastFailure_last:
  assumes "outcomeError out \<noteq> None" and "\<forall>x \<in> set outs2. outcomeError x = None"
  shows "lastFailure (outs1 @ out # outs2) = outcomeError out"
  using assms lastFailure_all_ok [of outs2]
  by (auto simp: lastFailure_append split: option.splits)

text \<open>
  Claim C7. A pass of \<^verbatim>\<open>updateAllDNSRecords\<close> or of \<^verbatim>\<open>verifyDNSRecords\<close> is a sweep over
  the configured domains with the stored addresses: each domain, in the order of the
  configuration, is attempted (its zone resolved and, if that succeeds, its records
  reconciled) from the state the domains before it left, whatever their outcomes, and its
  outcome is logged. The pass returns the error of the last attempt that failed, at the
  zone lookup or at the reconciliation, and nil when none failed. Its log holds one line
  for each domain, naming its zone, and the error returned is that of the last line that
  carries one.
\<close>
theorem updateAllDNSRecords_best_effort:
  "updateAllDNSRecords env cfg (w, s) =
     (lastFailure
        (fst (sweep ''Failed to ensure DNS records for %s: %v''
                ''DNS records for %s updated successfully'' env
                (loadString (currentIPv4 w)) (loadString (currentIPv6 w)) (Domains cfg) (w, s))),
      snd (sweep ''Failed to ensure DNS records for %s: %v''
             ''DNS records for %s updated successfully'' env
             (loadString (currentIPv4 w)) (loadString (currentIPv6 w)) (Domains cfg) (w, s)))
   \<and> verifyDNSRecords env cfg (w, s) =
     (lastFailure
        (fst (sweep ''Failed to verify/update DNS records for %s: %v''
                ''DNS records for %s are up-to-date'' env
                (loadString (currentIPv4 w)) (loadString (currentIPv6 w)) (Domains cfg)
                (w, logline (Println ''Verifying DNS records...'') s))),
      snd (sweep ''Failed to verify/update DNS records for %s: %v''
             ''DNS records for %s are up-to-date'' env
             (loadString (currentIPv4 w)) (loadString (currentIPv6 w)) (Domains cfg)
             (w, logline (Println ''Verifying DNS records...'') s)))
   \<and> length (fst (sweep failFmt okFmt env ipv4 ipv6 (Domains cfg) st)) = length (Domains cfg)
   \<and> (\<forall>ds1 d ds2. Domains cfg = ds1 @ d # ds2 \<longrightarrow>
         fst (sweep failFmt okFmt env ipv4 ipv6 (Domains cfg) st) ! length ds1 =
           fst (attempt env ipv4 ipv6 d (snd (sweep failFmt okFmt env ipv4 ipv6 ds1 st))))
   \<and> (\<forall>outs1 out outs2. outcomeError out \<noteq> None \<longrightarrow>
         (\<forall>x \<in> set outs2. outcomeError x = None) \<longrightarrow>
         lastFailure (outs1 @ out # outs2) = outcomeError out)
   \<and> (\<forall>outs. (\<forall>x \<in> set outs. outcomeError x = None) \<longrightarrow> lastFailure outs = None)
   \<and> map lineZone (filter domainLine (logged s (snd (snd (updateAllDNSRecords env cfg (w, s))))))
     = map Config_ZoneName (Domains cfg)
   \<and> fst (updateAllDNSRecords env cfg (w, s))
     = lastError (filter domainLine (logged s (snd (snd (updateAllDNSRecords env cfg (w, s))))))
   \<and> map lineZone (filter domainLine (logged s (snd (snd (verifyDNSRecords env cfg (w, s))))))
     = map Config_ZoneName (Domains cfg)
   \<and> fst (verifyDNSRecords env cfg (w, s))
     = lastError (filter domainLine (logged s (snd (snd (verifyDNSRecords env cfg (w, s))))))"
proof -
  have a: "updateAllDNSRecords env cfg (w, s) =
     (lastFailure
        (fst (sweep ''Failed to ensure DNS records for %s: %v''
                ''DNS records for %s updated successfully'' env
                (loadString (currentIPv4 w)) (loadString (currentIPv6 w)) (Domains cfg) (w, s))),
      snd (sweep ''Failed to ensure DNS records for %s: %v''
             ''DNS records for %s updated successfully'' env
             (loadString (currentIPv4 w)) (loadString (currentIPv6 w)) (Domains cfg) (w, s)))"
    by (auto simp: updateAllDNSRecords_def fold_sweep Let_def split: option.splits)
  have b: "verifyDNSRecords env cfg (w, s) =
     (lastFailure
        (fst (sweep ''Failed to verify/update DNS records for %s: %v''
                ''DNS records for %s are up-to-date'' env
                (loadString (currentIPv4 w)) (loadString (currentIPv6 w)) (Domains cfg)
                (w, logline (Println ''Verifying DNS records...'') s))),
      snd (sweep ''Failed to verify/update DNS records for %s: %v''
             ''DNS records for %s are up-to-date'' env
             (loadString (currentIPv4 w)) (loadString (currentIPv6 w)) (Domains cfg)
             (w, logline (Println ''Verifying DNS records...'') s)))"
    by (auto simp: verifyDNSRecords_def fold_sweep Let_def split: option.splits)
  have c: "length (fst (sweep failFmt okFmt env ipv4 ipv6 (Domains cfg) st)) = length (Domains cfg)"
    by (rule sweep_length)
  have d: "\<forall>ds1 d ds2. Domains cfg = ds1 @ d # ds2 \<longrightarrow>
         fst (sweep failFmt okFmt env ipv4 ipv6 (Domains cfg) st) ! length ds1 =
           fst (attempt env ipv4 ipv6 d (snd (sweep failFmt okFmt env ipv4 ipv6 ds1 st)))"
    by (simp add: sweep_nth)
  have e: "\<forall>outs1 out outs2. outcomeError out \<noteq> None \<longrightarrow>
         (\<forall>x \<in> set outs2. outcomeError x = None) \<longrightarrow>
         lastFailure (outs1 @ out # outs2) = outcomeError out"
    using lastFailure_last by blast
  have f: "\<forall>outs. (\<forall>x \<in> set outs. outcomeError x = None) \<longrightarrow> lastFailure outs = None"
    using lastFailure_all_ok by blast
  obtain e1 w1 s1 where u: "updateAllDNSRecords env cfg (w, s) = (e1, w1, s1)"
    by (cases "updateAllDNSRecords env cfg (w, s)") auto
  obtain e2 w2 s2 where v: "verifyDNSRecords env cfg (w, s) = (e2, w2, s2)"
    by (cases "verifyDNSRecords env cfg (w, s)") auto
  have g: "map lineZone (filter domainLine (logged s (snd (snd (updateAllDNSRecords env cfg (w, s))))))
     = map Config_ZoneName (Domains cfg)"
    "fst (updateAllDNSRecords env cfg (w, s))
     = lastError (filter domainLine (logged s (snd (snd (updateAllDNSRecords env cfg (w, s))))))"
    "map lineZone (filter domainLine (logged s (snd (snd (verifyDNSRecords env cfg (w, s))))))
     = map Config_ZoneName (Domains cfg)"
    "fst (verifyDNSRecords env cfg (w, s))
     = lastError (filter domainLine (logged s (snd (snd (verifyDNSRecords env cfg (w, s))))))"
    using updateAllDNSRecords_run [OF u] verifyDNSRecords_run [OF v]
    by (simp_all add: u v)
  from a b c d e f g show ?thesis by blast
qed


section \<open>The intervals of the tickers\<close>

lemma roundHalfEven_int [simp]: "y \<in> \<int> \<Longrightarrow> of_int (roundHalfEven y) = y"
  by (auto simp: roundHalfEven_def Let_def elim!: Ints_cases)

lemma roundHalfEven_bounds:
  "of_int (roundHalfEven y) \<le> y + 1 / 2" "y - 1 / 2 \<le> of_int (roundHalfEven y)"
  unfolding roundHalfEven_def Let_def by (auto split: if_splits) linarith+

lemma round64_exact:
  assumes "x \<in> \<int>" and "\<bar>x\<bar> < 2 ^ 53"
  shows "round64 x = Finite x"
proof (cases "x = 0")
  case True
  then show ?thesis by (simp add: round64_def)
next
  case False
  with assms(1) have one: "1 \<le> \<bar>x\<bar>"
    by (auto elim!: Ints_cases)
  have lo: "0 \<le> \<lfloor>log 2 \<bar>x\<bar>\<rfloor>"
    using one by simp
  have "\<bar>x\<bar> < 2 powr 53" using assms(2) by simp
  then have "log 2 \<bar>x\<bar> < 53"
    using one by (subst log_less_iff) auto
  then have hi: "\<lfloor>log 2 \<bar>x\<bar>\<rfloor> \<le> 52" by linarith
  define k where "k = nat (52 - \<lfloor>log 2 \<bar>x\<bar>\<rfloor>)"
  have e: "max (\<lfloor>log 2 \<bar>x\<bar>\<rfloor> - 52) (- 1074) = - int k"
    using lo hi by (simp add: k_def)
  have p: "(2::real) powi (- int k) = 1 / 2 ^ k"
    by (simp add: power_int_minus_divide)
  have i: "x * 2 ^ k \<in> \<int>" using assms(1) by simp
  have v: "of_int (roundHalfEven (x / 2 powi (- int k))) * 2 powi (- int k) = x"
    using i by (simp add: p)
  have b: "\<bar>x\<bar> < 2 ^ 1024"
    using assms(2) by (rule less_trans) simp
  show ?thesis
    using False b by (simp add: round64_def Let_def e v del: power_int_minus)
       (auto simp: abs_if split: if_splits)
qed

lemma round64_small:
  assumes "0 < x" and "x \<le> 3 / 4"
  shows "\<exists>v. round64 x = Finite v \<and> 0 \<le> v \<and> v < 1"
proof -
  have "log 2 \<bar>x\<bar> < 0" using assms by simp
  then have f: "\<lfloor>log 2 \<bar>x\<bar>\<rfloor> \<le> - 1" by linarith
  define e where "e = max (\<lfloor>log 2 \<bar>x\<bar>\<rfloor> - 52) (- 1074)"
  have e53: "e \<le> - 53" using f by (simp add: e_def)
  have pe: "0 < (2::real) powi e" by simp
  have "(2::real) powi e \<le> 2 powi (- 53)"
    using e53 by (intro power_int_increasing) auto
  then have ps: "(2::real) powi e \<le> 1 / 2 ^ 53"
    by (simp add: power_int_minus_divide)
  define n where "n = roundHalfEven (x / 2 powi e)"
  define v where "v = of_int n * (2::real) powi e"
  have "0 < x / 2 powi e" using assms(1) pe by simp
  then have "- 1 / 2 < (of_int n :: real)"
    using roundHalfEven_bounds(2) [of "x / 2 powi e"] by (simp add: n_def)
  then have "0 \<le> n" by linarith
  then have v0: "0 \<le> v" using pe by (simp add: v_def)
  have "of_int n \<le> x / 2 powi e + 1 / 2"
    using roundHalfEven_bounds(1) [of "x / 2 powi e"] by (simp add: n_def)
  then have "of_int n * 2 powi e \<le> (x / 2 powi e + 1 / 2) * 2 powi e"
    using pe by (intro mult_right_mono) auto
  also have "\<dots> = x + 2 powi e / 2"
    using pe by (simp add: field_simps)
  finally have "v \<le> x + 2 powi e / 2" by (simp add: v_def)
  with ps assms(2) have v1: "v < 1" by simp
  have r: "round64 x =
             (if 2 ^ 1024 \<le> v then PosInf
              else if v \<le> - (2 ^ 1024) then NegInf
              else if v = 0 \<and> x < 0 then NegZero
              else Finite v)"
    unfolding round64_def Let_def v_def n_def e_def using assms(1) by simp
  have big: "(1::real) \<le> 2 ^ 1024" by (rule one_le_power) simp
  have "\<not> 2 ^ 1024 \<le> v" "\<not> v \<le> - (2 ^ 1024)" "\<not> (v = 0 \<and> x < 0)"
    using v0 v1 big assms(1) by linarith+
  with r have "round64 x = Finite v" by (simp only: if_False)
  with v0 v1 show ?thesis by blast
qed


lemma truncZero_of_int [simp]: "truncZero (of_int q) = q"
  by (simp add: truncZero_def)

lemma truncZero_small: "0 \<le> v \<Longrightarrow> v < 1 \<Longrightarrow> truncZero v = 0"
  by (simp add: truncZero_def floor_eq_iff)

lemma fdiv_Finite:
  "x \<noteq> 0 \<Longrightarrow> y \<noteq> 0 \<Longrightarrow> fdiv (Finite x) (Finite y) = round64 (x / y)"
  by (simp add: fdiv_def isZero_def isInf_def)

lemma float64_of_int64_exact:
  assumes "\<bar>n\<bar> < 2 ^ 53"
  shows "float64_of_int64 n = Finite (of_int n)"
proof -
  have "real_of_int \<bar>n\<bar> < 2 ^ 53"
    using assms by (simp only: of_int_less_numeral_power_cancel_iff)
  then have "\<bar>real_of_int n\<bar> < 2 ^ 53" by simp
  then show ?thesis
    unfolding float64_of_int64_def by (intro round64_exact) auto
qed

text \<open>
  A duration below \<open>2 ^ 53\<close> nanoseconds divided by a rate: when the quotient is a whole
  number below \<open>2 ^ 53\<close> the interval is that number; when the quotient is at most three
  quarters of a nanosecond the interval is zero.
\<close>

lemma interval_exact:
  assumes "0 < d" and "d < 2 ^ 53" and "x \<noteq> 0" and "real_of_int d / x = of_int q"
    and "\<bar>q\<bar> < 2 ^ 53"
  shows "int64_of_float64 impl (fdiv (float64_of_int64 d) (Finite x)) = q"
proof -
  have a: "float64_of_int64 d = Finite (of_int d)"
    using assms(1,2) by (intro float64_of_int64_exact) simp
  have "real_of_int \<bar>q\<bar> < 2 ^ 53"
    using assms(5) by (simp only: of_int_less_numeral_power_cancel_iff)
  then have "\<bar>real_of_int q\<bar> < 2 ^ 53" by simp
  then have r: "round64 (of_int q) = Finite (of_int q)"
    by (intro round64_exact) auto
  have f: "fdiv (Finite (of_int d)) (Finite x) = Finite (of_int q)"
    using assms(1,3) by (simp add: fdiv_Finite assms(4) r)
  have "- (2 ^ 63) \<le> q" "q < 2 ^ 63" using assms(5) by auto
  then show ?thesis
    by (simp add: a f int64_of_float64_def)
qed

lemma interval_zero:
  assumes "0 < d" and "d < 2 ^ 53" and "0 < x" and "real_of_int d / x \<le> 3 / 4"
  shows "int64_of_float64 impl (fdiv (float64_of_int64 d) (Finite x)) = 0"
proof -
  have a: "float64_of_int64 d = Finite (of_int d)"
    using assms(1,2) by (intro float64_of_int64_exact) simp
  have "0 < real_of_int d / x" using assms(1,3) by simp
  from round64_small [OF this assms(4)]
  obtain v where v: "round64 (real_of_int d / x) = Finite v" "0 \<le> v" "v < 1" by blast
  have f: "fdiv (Finite (of_int d)) (Finite x) = Finite v"
    using assms(1,3) by (simp add: fdiv_Finite v(1))
  show ?thesis
    by (simp add: a f int64_of_float64_def truncZero_small [OF v(2,3)])
qed

text \<open>
  A rate of \<open>8 * 10 ^ 10\<close> verifications a minute or more, which the validation of the
  configuration accepts, gives a verify interval of zero.
\<close>

lemma syncInterval_hasty:
  assumes "SyncRate cfg = Finite x" and "80000000000 \<le> x"
  shows "syncInterval env cfg = 0"
proof -
  have "real_of_int 60000000000 / x \<le> 3 / 4"
    using assms(2) by (simp add: field_simps)
  then have "int64_of_float64 (Int64Unrepresentable env)
               (fdiv (float64_of_int64 60000000000) (Finite x)) = 0"
    using assms(2) by (intro interval_zero) simp_all
  then show ?thesis
    by (simp add: syncInterval_def assms(1) Minute_def Second_def)
qed

section \<open>The IP monitor and the verify ticker\<close>

lemma GetIP_error_empty:
  "GetIPv4 f s = ((ip, Some err), s') \<Longrightarrow> ip = ''''"
  "GetIPv6 f s = ((ip, Some err), s') \<Longrightarrow> ip = ''''"
  using fetchIP_error_empty [of f ipv4URL s] fetchIP_error_empty [of f ipv6URL s]
  by (simp_all add: GetIPv4_def GetIPv6_def)

lemma fetchNewIPs_eq:
  assumes "GetIPv4 (ipFetcher env) s = ((got4, err4), s1)"
    and "GetIPv6 (ipFetcher env) (noteError ''Failed to fetch IPv4: %v'' err4 s1)
           = ((got6, err6), s2)"
  shows "fetchNewIPs env cfg s =
           (((got4, err4), (fetched6 cfg got6, if SupportsIPv6 cfg then err6 else None)),
            polled cfg err4 s1 err6 s2)"
proof -
  have g6: "GetIPv6 (ipFetcher env)
              (case err4 of None \<Rightarrow> s1
               | Some err \<Rightarrow> logline (Printf ''Failed to fetch IPv4: %v'' [E err]) s1)
            = ((got6, err6), s2)"
    using assms(2) by (simp add: noteError_def)
  show ?thesis
    by (simp add: fetchNewIPs_def assms(1) g6 Let_def fetched6_def polled_def noteError_def)
qed

lemma fetched_error_empty:
  assumes "GetIPv4 (ipFetcher env) s = ((got4, err4), s1)"
    and "GetIPv6 (ipFetcher env) s1' = ((got6, err6), s2)"
  shows "(err4 \<noteq> None \<longrightarrow> got4 = '''') \<and> (err6 \<noteq> None \<longrightarrow> got6 = '''')"
  using assms GetIP_error_empty by auto

lemma stored_load: "loadString cur \<noteq> '''' \<Longrightarrow> loadString (stored new cur) \<noteq> ''''"
  by (simp add: stored_def ipChanged_def loadString_def)

lemma stored_empty [simp]: "stored '''' cur = cur"
  by (simp add: stored_def ipChanged_def)

lemma Reset_ok: "0 < d \<Longrightarrow> Reset d now (Some t) = Return \<lparr>period = d, armed = now\<rparr>"
  by (cases t) (simp add: Reset_def)

lemma Reset_panics: "t = None \<or> d \<le> 0 \<Longrightarrow> \<exists>p. Reset d now t = Panics p"
  by (auto simp: Reset_def)

lemma checkAndUpdateIP_unchanged:
  assumes "fetchNewIPs env cfg s = (((new4, err4), (new6, err6)), s2)"
    and "\<not> ipChanged new4 (currentIPv4 w)" and "\<not> ipChanged new6 (currentIPv6 w)"
  shows "checkAndUpdateIP env cfg (w, s) = (Return None, w, s2)"
  using assms by (auto simp: checkAndUpdateIP_def ipChanged_def Let_def)

lemma checkAndUpdateIP_stores:
  assumes "fetchNewIPs env cfg s = (((new4, err4), (new6, err6)), s2)"
    and "ipChanged new4 (currentIPv4 w) \<or> ipChanged new6 (currentIPv6 w)"
  shows "checkAndUpdateIP env cfg (w, s) =
         (case Reset (syncInterval env cfg) (Now env (world s2)) (syncTicker w) of
            Panics p \<Rightarrow>
              (Panics p,
               w\<lparr>currentIPv4 := stored new4 (currentIPv4 w),
                 currentIPv6 := stored new6 (currentIPv6 w)\<rparr>,
               s2\<lparr>logs := logs s2 @ changeLines new4 new6 w\<rparr>)
          | Return t' \<Rightarrow>
              (case updateAllDNSRecords env cfg
                      (w\<lparr>currentIPv4 := stored new4 (currentIPv4 w),
                         currentIPv6 := stored new6 (currentIPv6 w),
                         syncTicker := Some t'\<rparr>,
                       s2\<lparr>logs := logs s2 @ changeLines new4 new6 w\<rparr>) of
                 (r, st') \<Rightarrow> (Return r, st')))"
  using assms
  by (auto simp: checkAndUpdateIP_def ipChanged_def stored_def changeLines_def Let_def
        logline_def split: option.splits exit.splits)

lemma checkAndUpdateIP_changed:
  assumes "fetchNewIPs env cfg s = (((new4, err4), (new6, err6)), s2)"
    and "ipChanged new4 (currentIPv4 w) \<or> ipChanged new6 (currentIPv6 w)"
    and "syncTicker w = Some t" and "0 < syncInterval env cfg"
  shows "checkAndUpdateIP env cfg (w, s) =
         (case updateAllDNSRecords env cfg
                 (w\<lparr>currentIPv4 := stored new4 (currentIPv4 w),
                    currentIPv6 := stored new6 (currentIPv6 w),
                    syncTicker :=
                      Some \<lparr>period = syncInterval env cfg, armed = Now env (world s2)\<rparr>\<rparr>,
                  s2\<lparr>logs := logs s2 @ changeLines new4 new6 w\<rparr>) of
            (r, st') \<Rightarrow> (Return r, st'))"
  by (simp add: checkAndUpdateIP_stores [OF assms(1,2)] assms(3) Reset_ok [OF assms(4)])

lemma checkAndUpdateIP_panics:
  assumes "fetchNewIPs env cfg s = (((new4, err4), (new6, err6)), s2)"
    and "ipChanged new4 (currentIPv4 w) \<or> ipChanged new6 (currentIPv6 w)"
    and "syncTicker w = None \<or> syncInterval env cfg \<le> 0"
  shows "\<exists>p. checkAndUpdateIP env cfg (w, s) =
           (Panics p,
            w\<lparr>currentIPv4 := stored new4 (currentIPv4 w),
              currentIPv6 := stored new6 (currentIPv6 w)\<rparr>,
            s2\<lparr>logs := logs s2 @ changeLines new4 new6 w\<rparr>)"
proof -
  from Reset_panics [OF assms(3)]
  obtain p where "Reset (syncInterval env cfg) (Now env (world s2)) (syncTicker w) = Panics p"
    by blast
  then show ?thesis by (simp add: checkAndUpdateIP_stores [OF assms(1,2)])
qed

lemma checkAndUpdateIP_addresses:
  assumes "fetchNewIPs env cfg s = (((new4, err4), (new6, err6)), s2)"
  shows "currentIPv4 (fst (snd (checkAndUpdateIP env cfg (w, s)))) = stored new4 (currentIPv4 w)
         \<and> currentIPv6 (fst (snd (checkAndUpdateIP env cfg (w, s)))) = stored new6 (currentIPv6 w)"
proof (cases "ipChanged new4 (currentIPv4 w) \<or> ipChanged new6 (currentIPv6 w)")
  case False
  then show ?thesis
    using checkAndUpdateIP_unchanged [OF assms, of w] by (simp add: stored_def)
next
  case True
  show ?thesis
  proof (cases "syncTicker w = None \<or> syncInterval env cfg \<le> 0")
    case True
    from checkAndUpdateIP_panics [OF assms \<open>ipChanged new4 (currentIPv4 w) \<or> ipChanged new6 (currentIPv6 w)\<close> True]
    show ?thesis by auto
  next
    case False
    then obtain t where t: "syncTicker w = Some t" and d: "0 < syncInterval env cfg" by auto
    note eq = checkAndUpdateIP_changed [OF assms True t d]
    obtain e' w' s' where u: "updateAllDNSRecords env cfg
                 (w\<lparr>currentIPv4 := stored new4 (currentIPv4 w),
                    currentIPv6 := stored new6 (currentIPv6 w),
                    syncTicker :=
                      Some \<lparr>period = syncInterval env cfg, armed = Now env (world s2)\<rparr>\<rparr>,
                  s2\<lparr>logs := logs s2 @ changeLines new4 new6 w\<rparr>) = (e', w', s')"
      by (cases "updateAllDNSRecords env cfg
                 (w\<lparr>currentIPv4 := stored new4 (currentIPv4 w),
                    currentIPv6 := stored new6 (currentIPv6 w),
                    syncTicker :=
                      Some \<lparr>period = syncInterval env cfg, armed = Now env (world s2)\<rparr>\<rparr>,
                  s2\<lparr>logs := logs s2 @ changeLines new4 new6 w\<rparr>)") auto
    from updateAllDNSRecords_run [OF u] show ?thesis
      by (simp add: eq u)
  qed
qed

lemma checkAndUpdateIP_ticker:
  assumes "fetchNewIPs env cfg s = (((new4, err4), (new6, err6)), s2)"
    and "ipChanged new4 (currentIPv4 w) \<or> ipChanged new6 (currentIPv6 w)"
    and "syncTicker w = Some t" and "0 < syncInterval env cfg"
  shows "syncTicker (fst (snd (checkAndUpdateIP env cfg (w, s)))) =
           Some \<lparr>period = syncInterval env cfg, armed = Now env (world s2)\<rparr>
         \<and> (\<exists>r. fst (checkAndUpdateIP env cfg (w, s)) = Return r)"
proof -
  note eq = checkAndUpdateIP_changed [OF assms]
  obtain e' w' s' where u: "updateAllDNSRecords env cfg
                 (w\<lparr>currentIPv4 := stored new4 (currentIPv4 w),
                    currentIPv6 := stored new6 (currentIPv6 w),
                    syncTicker :=
                      Some \<lparr>period = syncInterval env cfg, armed = Now env (world s2)\<rparr>\<rparr>,
                  s2\<lparr>logs := logs s2 @ changeLines new4 new6 w\<rparr>) = (e', w', s')"
    by (cases "updateAllDNSRecords env cfg
                 (w\<lparr>currentIPv4 := stored new4 (currentIPv4 w),
                    currentIPv6 := stored new6 (currentIPv6 w),
                    syncTicker :=
                      Some \<lparr>period = syncInterval env cfg, armed = Now env (world s2)\<rparr>\<rparr>,
                  s2\<lparr>logs := logs s2 @ changeLines new4 new6 w\<rparr>)") auto
  from updateAllDNSRecords_run [OF u] show ?thesis
    by (simp add: eq u)
qed

lemma RunTurn_RefreshTick_watcher:
  "fst (snd (RunTurn env cfg RefreshTick st)) = fst (snd (checkAndUpdateIP env cfg st))"
  by (cases "checkAndUpdateIP env cfg st")
     (auto simp: RunTurn_def split: option.splits exit.splits)

lemma RunTurn_SyncTick_ticker:
  "syncTicker (fst (snd (RunTurn env cfg SyncTick (w, s)))) = syncTicker w
   \<and> fst (RunTurn env cfg SyncTick (w, s)) = None"
proof -
  obtain e' w' s' where v: "verifyDNSRecords env cfg (w, s) = (e', w', s')"
    by (cases "verifyDNSRecords env cfg (w, s)") auto
  have k: "syncTicker w' = syncTicker w"
    using verifyDNSRecords_run [OF v] by simp
  show ?thesis
    by (cases e') (simp_all add: RunTurn_def v k)
qed

lemma NewTicker_cases:
  "NewTicker d now =
     (if 0 < d then Return \<lparr>period = d, armed = now\<rparr>
      else Panics ''non-positive interval for NewTicker'')"
  by (simp add: NewTicker_def)

lemma RunStart_panics:
  "(fst (RunStart env cfg st) = None)
     = (0 < refreshInterval env cfg \<and> 0 < syncInterval env cfg)"
  by (cases st)
     (auto simp: RunStart_def NewTicker_cases Let_def split: prod.splits option.splits)

lemma RunStart_ticker:
  "fst (RunStart env cfg st) = None \<Longrightarrow>
   syncTicker (fst (snd (RunStart env cfg st))) =
     Some \<lparr>period = syncInterval env cfg,
           armed = Now env (world (snd (snd (RunStart env cfg st))))\<rparr>"
  by (cases st)
     (auto simp: RunStart_def NewTicker_cases Let_def
        split: prod.splits option.splits if_splits)

lemma RunTurn_keeps_ticker:
  assumes "syncTicker w = Some t" and "0 < syncInterval env cfg"
  shows "(\<exists>t'. syncTicker (fst (snd (RunTurn env cfg ev (w, s)))) = Some t')
         \<and> (\<forall>p. fst (RunTurn env cfg ev (w, s)) \<noteq> Some (Panics p))"
proof (cases ev)
  case (CtxDone e)
  with assms show ?thesis by (simp add: RunTurn_def)
next
  case SyncTick
  with assms RunTurn_SyncTick_ticker [of env cfg w s] show ?thesis by simp
next
  case RefreshTick
  obtain n4 e4 n6 e6 s2 where f: "fetchNewIPs env cfg s = (((n4, e4), (n6, e6)), s2)"
    by (cases "fetchNewIPs env cfg s") auto
  show ?thesis
  proof (cases "ipChanged n4 (currentIPv4 w) \<or> ipChanged n6 (currentIPv6 w)")
    case False
    with checkAndUpdateIP_unchanged [OF f, of w] assms RefreshTick show ?thesis
      by (simp add: RunTurn_def)
  next
    case True
    from checkAndUpdateIP_ticker [OF f True assms]
    obtain r where
      a: "syncTicker (fst (snd (checkAndUpdateIP env cfg (w, s)))) =
            Some \<lparr>period = syncInterval env cfg, armed = Now env (world s2)\<rparr>"
      and b: "fst (checkAndUpdateIP env cfg (w, s)) = Return r"
      by blast
    have c: "syncTicker (fst (snd (RunTurn env cfg RefreshTick (w, s)))) =
            Some \<lparr>period = syncInterval env cfg, armed = Now env (world s2)\<rparr>"
      unfolding RunTurn_RefreshTick_watcher by (rule a)
    have d: "\<forall>p. fst (RunTurn env cfg RefreshTick (w, s)) \<noteq> Some (Panics p)"
      using b by (cases "checkAndUpdateIP env cfg (w, s)")
                 (auto simp: RunTurn_def split: option.splits)
    from c d RefreshTick show ?thesis by simp
  qed
qed

lemma RunLoop_no_panic:
  assumes "syncTicker w = Some t" and "0 < syncInterval env cfg"
  shows "fst (RunLoop env cfg evs (w, s)) \<noteq> Some (Panics p)"
  using assms(1)
proof (induction evs arbitrary: w s t)
  case Nil
  show ?case by simp
next
  case (Cons ev evs)
  obtain x w' s' where r: "RunTurn env cfg ev (w, s) = (x, w', s')"
    by (cases "RunTurn env cfg ev (w, s)") auto
  from RunTurn_keeps_ticker [OF Cons.prems assms(2), of ev s] r
  obtain t' where k: "syncTicker w' = Some t'" and n: "x \<noteq> Some (Panics p)"
    by auto
  show ?case
  proof (cases x)
    case None
    with Cons.IH [OF k, of s'] r show ?thesis by simp
  next
    case (Some y)
    with n r show ?thesis by simp
  qed
qed

lemma Run_no_panic:
  assumes "fst (RunStart env cfg st) = None"
  shows "fst (Run env cfg evs st) \<noteq> Some (Panics p)"
proof -
  obtain w0 s0 where r: "RunStart env cfg st = (None, w0, s0)"
    using assms by (cases "RunStart env cfg st") auto
  from RunStart_ticker [OF assms] r
  have t: "syncTicker w0 = Some \<lparr>period = syncInterval env cfg, armed = Now env (world s0)\<rparr>"
    by simp
  from RunStart_panics [of env cfg st] assms have d: "0 < syncInterval env cfg" by simp
  from RunLoop_no_panic [OF t d, of evs s0 p] show ?thesis
    by (simp add: Run_def r)
qed

text \<open>
  Claim C8. Let \<^verbatim>\<open>GetIPv4\<close> return \<open>got4\<close> and, on the system after it, \<^verbatim>\<open>GetIPv6\<close> return
  \<open>got6\<close>. After \<^verbatim>\<open>checkAndUpdateIP\<close> the stored IPv4 value is \<open>got4\<close> when that is
  non-empty and differs from the stored one, and the stored one otherwise; the same holds
  for IPv6 and \<open>got6\<close> when IPv6 is supported, and the stored IPv6 value is kept when it is
  not. So a failed lookup, which returns the empty string, leaves the stored value as it
  was, and a stored value that is set is never cleared. When neither family changed, nothing
  is stored or logged and no reconciliation is made. When one did, a change line is logged
  for each changed family and only for it, and the pass over the domains runs from the
  state in which the new values are already stored; if resetting the verify ticker panics
  (no ticker, or an interval that is not positive), the new values are stored all the same
  and no pass is made.
\<close>
theorem checkAndUpdateIP_keeps_known_addresses:
  assumes "GetIPv4 (ipFetcher env) s = ((got4, err4), s1)"
    and "GetIPv6 (ipFetcher env) (noteError ''Failed to fetch IPv4: %v'' err4 s1)
           = ((got6, err6), s2)"
  shows "currentIPv4 (fst (snd (checkAndUpdateIP env cfg (w, s)))) =
           (if got4 \<noteq> '''' \<and> got4 \<noteq> loadString (currentIPv4 w) then Some got4
            else currentIPv4 w)
     \<and> currentIPv6 (fst (snd (checkAndUpdateIP env cfg (w, s)))) =
           (if SupportsIPv6 cfg \<and> got6 \<noteq> '''' \<and> got6 \<noteq> loadString (currentIPv6 w)
            then Some got6 else currentIPv6 w)
     \<and> (err4 \<noteq> None \<longrightarrow>
          currentIPv4 (fst (snd (checkAndUpdateIP env cfg (w, s)))) = currentIPv4 w)
     \<and> (err6 \<noteq> None \<longrightarrow>
          currentIPv6 (fst (snd (checkAndUpdateIP env cfg (w, s)))) = currentIPv6 w)
     \<and> (loadString (currentIPv4 w) \<noteq> '''' \<longrightarrow>
          loadString (currentIPv4 (fst (snd (checkAndUpdateIP env cfg (w, s))))) \<noteq> '''')
     \<and> (loadString (currentIPv6 w) \<noteq> '''' \<longrightarrow>
          loadString (currentIPv6 (fst (snd (checkAndUpdateIP env cfg (w, s))))) \<noteq> '''')
     \<and> (\<not> ipChanged got4 (currentIPv4 w) \<longrightarrow>
          \<not> ipChanged (fetched6 cfg got6) (currentIPv6 w) \<longrightarrow>
          checkAndUpdateIP env cfg (w, s) = (Return None, w, polled cfg err4 s1 err6 s2))
     \<and> (ipChanged got4 (currentIPv4 w) \<or> ipChanged (fetched6 cfg got6) (currentIPv6 w) \<longrightarrow>
          (\<forall>t. syncTicker w = Some t \<longrightarrow> 0 < syncInterval env cfg \<longrightarrow>
             checkAndUpdateIP env cfg (w, s) =
               (case updateAllDNSRecords env cfg
                       (w\<lparr>currentIPv4 := stored got4 (currentIPv4 w),
                          currentIPv6 := stored (fetched6 cfg got6) (currentIPv6 w),
                          syncTicker :=
                            Some \<lparr>period = syncInterval env cfg,
                                  armed = Now env (world (polled cfg err4 s1 err6 s2))\<rparr>\<rparr>,
                        (polled cfg err4 s1 err6 s2)
                          \<lparr>logs := logs (polled cfg err4 s1 err6 s2)
                                     @ changeLines got4 (fetched6 cfg got6) w\<rparr>) of
                  (r, st') \<Rightarrow> (Return r, st')))
          \<and> (syncTicker w = None \<or> syncInterval env cfg \<le> 0 \<longrightarrow>
               (\<exists>p. checkAndUpdateIP env cfg (w, s) =
                  (Panics p,
                   w\<lparr>currentIPv4 := stored got4 (currentIPv4 w),
                     currentIPv6 := stored (fetched6 cfg got6) (currentIPv6 w)\<rparr>,
                   (polled cfg err4 s1 err6 s2)
                     \<lparr>logs := logs (polled cfg err4 s1 err6 s2)
                                @ changeLines got4 (fetched6 cfg got6) w\<rparr>))))"
proof -
  note f = fetchNewIPs_eq [OF assms, of cfg]
  note a = checkAndUpdateIP_addresses [OF f, of w]
  note e = fetched_error_empty [OF assms]
  have a4: "currentIPv4 (fst (snd (checkAndUpdateIP env cfg (w, s)))) =
           (if got4 \<noteq> '''' \<and> got4 \<noteq> loadString (currentIPv4 w) then Some got4
            else currentIPv4 w)"
    using a by (auto simp: stored_def ipChanged_def)
  have a6: "currentIPv6 (fst (snd (checkAndUpdateIP env cfg (w, s)))) =
           (if SupportsIPv6 cfg \<and> got6 \<noteq> '''' \<and> got6 \<noteq> loadString (currentIPv6 w)
            then Some got6 else currentIPv6 w)"
    using a by (auto simp: stored_def ipChanged_def fetched6_def)
  have c4: "err4 \<noteq> None \<longrightarrow>
          currentIPv4 (fst (snd (checkAndUpdateIP env cfg (w, s)))) = currentIPv4 w"
    and c6: "err6 \<noteq> None \<longrightarrow>
          currentIPv6 (fst (snd (checkAndUpdateIP env cfg (w, s)))) = currentIPv6 w"
    using a4 a6 e by auto
  have l4: "loadString (currentIPv4 w) \<noteq> '''' \<longrightarrow>
          loadString (currentIPv4 (fst (snd (checkAndUpdateIP env cfg (w, s))))) \<noteq> ''''"
    and l6: "loadString (currentIPv6 w) \<noteq> '''' \<longrightarrow>
          loadString (currentIPv6 (fst (snd (checkAndUpdateIP env cfg (w, s))))) \<noteq> ''''"
    using a by (simp_all add: stored_load)
  have u: "\<not> ipChanged got4 (currentIPv4 w) \<longrightarrow>
          \<not> ipChanged (fetched6 cfg got6) (currentIPv6 w) \<longrightarrow>
          checkAndUpdateIP env cfg (w, s) = (Return None, w, polled cfg err4 s1 err6 s2)"
    using checkAndUpdateIP_unchanged [OF f, of w] by blast
  have ch: "ipChanged got4 (currentIPv4 w) \<or> ipChanged (fetched6 cfg got6) (currentIPv6 w) \<longrightarrow>
          (\<forall>t. syncTicker w = Some t \<longrightarrow> 0 < syncInterval env cfg \<longrightarrow>
             checkAndUpdateIP env cfg (w, s) =
               (case updateAllDNSRecords env cfg
                       (w\<lparr>currentIPv4 := stored got4 (currentIPv4 w),
                          currentIPv6 := stored (fetched6 cfg got6) (currentIPv6 w),
                          syncTicker :=
                            Some \<lparr>period = syncInterval env cfg,
                                  armed = Now env (world (polled cfg err4 s1 err6 s2))\<rparr>\<rparr>,
                        (polled cfg err4 s1 err6 s2)
                          \<lparr>logs := logs (polled cfg err4 s1 err6 s2)
                                     @ changeLines got4 (fetched6 cfg got6) w\<rparr>) of
                  (r, st') \<Rightarrow> (Return r, st')))
          \<and> (syncTicker w = None \<or> syncInterval env cfg \<le> 0 \<longrightarrow>
               (\<exists>p. checkAndUpdateIP env cfg (w, s) =
                  (Panics p,
                   w\<lparr>currentIPv4 := stored got4 (currentIPv4 w),
                     currentIPv6 := stored (fetched6 cfg got6) (currentIPv6 w)\<rparr>,
                   (polled cfg err4 s1 err6 s2)
                     \<lparr>logs := logs (polled cfg err4 s1 err6 s2)
                                @ changeLines got4 (fetched6 cfg got6) w\<rparr>)))"
    using checkAndUpdateIP_changed [OF f, of w] checkAndUpdateIP_panics [OF f, of w]
    by blast
  show ?thesis using a4 a6 c4 c6 l4 l6 u ch by blast
qed

text \<open>
  Claim C9. Let a refresh turn fetch \<open>got4\<close> and \<open>got6\<close>. When a family changed and the
  turn starts the reconciliation (the verify ticker exists and the verify period
  \<^verbatim>\<open>time.Minute / SyncRate\<close> is positive), it leaves the verify ticker armed at the clock
  reading taken right after the lookups, before the reconciliation, with that period: its
  next tick is a full verify period after that moment. When a family changed and the reset
  panics, the turn panics: no reconciliation is started. When no family changed, the
  verify ticker is as it was, and a verify turn leaves it as it was too. \<^verbatim>\<open>Run\<close> creates
  the verify ticker with the same period, or panics when an interval is not positive, and
  once it has created its tickers no turn panics.
\<close>
theorem checkAndUpdateIP_resets_verify_ticker:
  assumes "GetIPv4 (ipFetcher env) s = ((got4, err4), s1)"
    and "GetIPv6 (ipFetcher env) (noteError ''Failed to fetch IPv4: %v'' err4 s1)
           = ((got6, err6), s2)"
  shows "(ipChanged got4 (currentIPv4 w) \<or> ipChanged (fetched6 cfg got6) (currentIPv6 w) \<longrightarrow>
            (\<forall>t. syncTicker w = Some t \<longrightarrow> 0 < syncInterval env cfg \<longrightarrow>
               syncTicker (fst (snd (RunTurn env cfg RefreshTick (w, s)))) =
                 Some \<lparr>period = syncInterval env cfg,
                       armed = Now env (world (polled cfg err4 s1 err6 s2))\<rparr>
               \<and> nextTick (the (syncTicker (fst (snd (RunTurn env cfg RefreshTick (w, s)))))) =
                   Now env (world (polled cfg err4 s1 err6 s2)) + syncInterval env cfg
               \<and> (\<exists>r. fst (checkAndUpdateIP env cfg (w, s)) = Return r))
            \<and> (syncTicker w = None \<or> syncInterval env cfg \<le> 0 \<longrightarrow>
                 (\<exists>p. fst (checkAndUpdateIP env cfg (w, s)) = Panics p)
                 \<and> calls (snd (snd (checkAndUpdateIP env cfg (w, s))))
                     = calls (polled cfg err4 s1 err6 s2)))
         \<and> (\<not> ipChanged got4 (currentIPv4 w) \<longrightarrow>
              \<not> ipChanged (fetched6 cfg got6) (currentIPv6 w) \<longrightarrow>
              syncTicker (fst (snd (RunTurn env cfg RefreshTick (w, s)))) = syncTicker w
              \<and> fst (checkAndUpdateIP env cfg (w, s)) = Return None)
         \<and> syncTicker (fst (snd (RunTurn env cfg RefreshTick (w, s))))
             = syncTicker (fst (snd (checkAndUpdateIP env cfg (w, s))))
         \<and> syncTicker (fst (snd (RunTurn env cfg SyncTick (w, s)))) = syncTicker w
         \<and> (fst (RunStart env cfg st0) = None)
             = (0 < refreshInterval env cfg \<and> 0 < syncInterval env cfg)
         \<and> (fst (RunStart env cfg st0) = None \<longrightarrow>
              syncTicker (fst (snd (RunStart env cfg st0))) =
                Some \<lparr>period = syncInterval env cfg,
                      armed = Now env (world (snd (snd (RunStart env cfg st0))))\<rparr>
              \<and> (\<forall>evs p. fst (Run env cfg evs st0) \<noteq> Some (Panics p)))"
proof -
  note f = fetchNewIPs_eq [OF assms, of cfg]
  have w: "fst (snd (RunTurn env cfg RefreshTick (w, s)))
             = fst (snd (checkAndUpdateIP env cfg (w, s)))"
    by (rule RunTurn_RefreshTick_watcher)
  have a: "ipChanged got4 (currentIPv4 w) \<or> ipChanged (fetched6 cfg got6) (currentIPv6 w) \<longrightarrow>
            (\<forall>t. syncTicker w = Some t \<longrightarrow> 0 < syncInterval env cfg \<longrightarrow>
               syncTicker (fst (snd (RunTurn env cfg RefreshTick (w, s)))) =
                 Some \<lparr>period = syncInterval env cfg,
                       armed = Now env (world (polled cfg err4 s1 err6 s2))\<rparr>
               \<and> nextTick (the (syncTicker (fst (snd (RunTurn env cfg RefreshTick (w, s)))))) =
                   Now env (world (polled cfg err4 s1 err6 s2)) + syncInterval env cfg
               \<and> (\<exists>r. fst (checkAndUpdateIP env cfg (w, s)) = Return r))"
    unfolding w using checkAndUpdateIP_ticker [OF f, of w]
    by (auto simp: nextTick_def)
  have b: "ipChanged got4 (currentIPv4 w) \<or> ipChanged (fetched6 cfg got6) (currentIPv6 w) \<longrightarrow>
            (syncTicker w = None \<or> syncInterval env cfg \<le> 0 \<longrightarrow>
                 (\<exists>p. fst (checkAndUpdateIP env cfg (w, s)) = Panics p)
                 \<and> calls (snd (snd (checkAndUpdateIP env cfg (w, s))))
                     = calls (polled cfg err4 s1 err6 s2))"
    using checkAndUpdateIP_panics [OF f, of w] by auto
  have c: "\<not> ipChanged got4 (currentIPv4 w) \<longrightarrow>
              \<not> ipChanged (fetched6 cfg got6) (currentIPv6 w) \<longrightarrow>
              syncTicker (fst (snd (RunTurn env cfg RefreshTick (w, s)))) = syncTicker w
              \<and> fst (checkAndUpdateIP env cfg (w, s)) = Return None"
    unfolding w using checkAndUpdateIP_unchanged [OF f, of w] by auto
  have d: "syncTicker (fst (snd (RunTurn env cfg RefreshTick (w, s))))
             = syncTicker (fst (snd (checkAndUpdateIP env cfg (w, s))))"
    unfolding w by simp
  have e: "syncTicker (fst (snd (RunTurn env cfg SyncTick (w, s)))) = syncTicker w"
    using RunTurn_SyncTick_ticker [of env cfg w s] by simp
  have g: "(fst (RunStart env cfg st0) = None)
             = (0 < refreshInterval env cfg \<and> 0 < syncInterval env cfg)"
    by (rule RunStart_panics)
  have h: "fst (RunStart env cfg st0) = None \<longrightarrow>
              syncTicker (fst (snd (RunStart env cfg st0))) =
                Some \<lparr>period = syncInterval env cfg,
                      armed = Now env (world (snd (snd (RunStart env cfg st0))))\<rparr>
              \<and> (\<forall>evs p. fst (Run env cfg evs st0) \<noteq> Some (Panics p))"
    using RunStart_ticker [of env cfg st0] Run_no_panic [of env cfg st0] by blast
  show ?thesis using a b c d e g h by blast
qed


section \<open>Runs of the scenario\<close>

lemmas example_defs =
  apexA_def wwwA_def wwwAAAA_def obsApex_def obsMX_def obsWww_def exampleHTTP_def
  exampleWorld_def exampleConfig_def fakeSys_def fakeEnv_def fakeFetcher_def fakeCloudflare_def
  fakeBatch_def fakeFullName_def fakeTick_def trimASCII_def asciiSpace_def
  firstReq_def newWww_def worldAfter_def obsWww6_def dualHTTP_def dualWorld_def
  ARecord_def AAAARecord_def RecordResponseTypeA_def RecordResponseTypeAAAA_def
  ipv4URL_def ipv6URL_def StatusOK_def TTL1_def

lemmas run_defs =
  EnsureDNSRecords_def GetDNSRecords_def GetZoneIDByName_def planRecords_def ensureStep_def
  existingRecordMap_def prepareRecordKey_def expectedContent_def batchReq_def
  toDNSARecord_def toDNSAAAARecord_def issue_def logline_def issued_def logged_def
  recordsToCreate_def recordsToUpdate_def

lemma fakeSys_simps [simp]:
  "world (fakeSys w) = w" "calls (fakeSys w) = []" "logs (fakeSys w) = []"
  by (simp_all add: fakeSys_def)

lemma example_first_pass:
  "EnsureDNSRecords fakeCloudflare ''zone-123'' [apexA, wwwA] ''2.2.2.2'' '''' (fakeSys exampleWorld)
   = (None, \<lparr>world = worldAfter,
              calls = [CallListDNSRecords ''zone-123'', CallBatchDNSRecords firstReq],
              logs = []\<rparr>)"
  by (simp add: example_defs run_defs)

lemma example_first_issued:
  "issued (fakeSys exampleWorld)
     (snd (EnsureDNSRecords fakeCloudflare ''zone-123'' [apexA, wwwA] ''2.2.2.2'' ''''
             (fakeSys exampleWorld)))
   = [CallListDNSRecords ''zone-123'', CallBatchDNSRecords firstReq]"
  by (simp add: example_first_pass issued_def)

lemma example_list_before:
  "ListDNSRecords fakeCloudflare ''zone-123'' (world (fakeSys exampleWorld))
   = (Inr [obsApex, obsMX], fakeTick exampleWorld)"
  by (simp add: example_defs)

lemma example_list_after:
  "ListDNSRecords fakeCloudflare ''zone-123'' (world (fakeSys worldAfter))
   = (Inr [obsApex\<lparr>Response_Content := ''2.2.2.2''\<rparr>, obsMX, newWww], fakeTick worldAfter)"
  by (simp add: example_defs)

lemma example_plan_before:
  "recordsToCreate [obsApex, obsMX] [apexA, wwwA] ''2.2.2.2'' '''' = [wwwA]"
  "recordsToUpdate [obsApex, obsMX] [apexA, wwwA] ''2.2.2.2'' '''' = [\<lparr>ID = ''rec-1'', Record = apexA\<rparr>]"
  by (simp_all add: example_defs run_defs)

lemma example_map_apex:
  "existingRecordMap [obsApex, obsMX] (prepareRecordKey apexA) = Some obsApex"
  by (simp add: example_defs run_defs)

theorem prepareRecordKey_matching_witness:
  "(Type wwwA = ARecord \<or> Type wwwA = AAAARecord)
   \<and> prepareRecordKey wwwA = ''www.example.com|A''
   \<and> prepareRecordKey apexA = ''example.com|A''
   \<and> existingRecordMap [obsApex, obsMX, obsWww, obsWww\<lparr>Response_Type := ''AAAA''\<rparr>]
        (prepareRecordKey wwwA) = Some obsWww
   \<and> existingRecordMap [obsApex, obsMX, obsWww, obsWww\<lparr>Response_Type := ''AAAA''\<rparr>]
        (prepareRecordKey apexA) = Some obsApex"
proof -
  have t: "Type wwwA = ARecord \<or> Type wwwA = AAAARecord" "Type apexA = ARecord \<or> Type apexA = AAAARecord"
    by (simp_all add: wwwA_def apexA_def)
  from t prepareRecordKey_matching
         [of wwwA "[obsApex, obsMX, obsWww, obsWww\<lparr>Response_Type := ''AAAA''\<rparr>]"]
       prepareRecordKey_matching
         [of apexA "[obsApex, obsMX, obsWww, obsWww\<lparr>Response_Type := ''AAAA''\<rparr>]"]
  show ?thesis
    by (simp add: example_defs run_defs)
qed

lemma example_map_www6:
  "existingRecordMap [obsApex, obsMX, obsWww6] (prepareRecordKey wwwAAAA) = Some obsWww6"
  "existingRecordMap [obsApex, obsMX, obsWww6] (prepareRecordKey apexA) = Some obsApex"
  by (simp_all add: example_defs run_defs)

theorem EnsureDNSRecords_minimal_diff_witness:
  "existingRecordMap [obsApex, obsMX, obsWww6] (prepareRecordKey wwwAAAA) = Some obsWww6
   \<and> Response_Content obsWww6 = ''2001:db8::1''
   \<and> Response_Proxied obsWww6 = Proxied wwwAAAA
   \<and> \<lparr>ID = ''rec-6'', Record = wwwAAAA\<rparr>
        \<notin> set (recordsToUpdate [obsApex, obsMX, obsWww6] [apexA, wwwAAAA]
                  ''1.1.1.1'' ''2001:db8::1'')
   \<and> wwwAAAA \<notin> set (recordsToCreate [obsApex, obsMX, obsWww6] [apexA, wwwAAAA]
                        ''1.1.1.1'' ''2001:db8::1'')
   \<and> \<lparr>ID = ''rec-6'', Record = wwwAAAA\<rparr>
        \<in> set (recordsToUpdate [obsApex, obsMX, obsWww6] [apexA, wwwAAAA]
                  ''1.1.1.1'' ''2001:db8::2'')
   \<and> \<lparr>ID = ''rec-1'', Record = apexA\<rparr>
        \<notin> set (recordsToUpdate [obsApex, obsMX, obsWww6] [apexA, wwwAAAA]
                  ''1.1.1.1'' ''2001:db8::2'')
   \<and> \<lparr>ID = ''rec-6'', Record = wwwAAAA\<rparr>
        \<notin> set (recordsToUpdate [obsApex, obsMX, obsWww6] [apexA, wwwAAAA]
                  ''2001:db8::2'' ''2001:db8::1'')
   \<and> \<lparr>ID = ''rec-1'', Record = apexA\<rparr>
        \<in> set (recordsToUpdate [obsApex, obsMX] [apexA, wwwA] ''2.2.2.2'' '''')
   \<and> apexA \<notin> set (recordsToCreate [obsApex, obsMX] [apexA, wwwA] ''2.2.2.2'' '''')
   \<and> issued (fakeSys exampleWorld)
        (snd (EnsureDNSRecords fakeCloudflare ''zone-123'' [apexA, wwwA] ''2.2.2.2'' ''''
                (fakeSys exampleWorld)))
      = [CallListDNSRecords ''zone-123'', CallBatchDNSRecords firstReq]"
proof -
  have in6: "wwwAAAA \<in> set [apexA, wwwAAAA]" and inA: "apexA \<in> set [apexA, wwwAAAA]"
    by simp_all
  have t6: "Type wwwAAAA = AAAARecord" "Type wwwAAAA \<noteq> ARecord"
    and tA: "Type apexA = ARecord" "Type apexA \<noteq> AAAARecord"
    by (simp_all add: wwwAAAA_def apexA_def ARecord_def AAAARecord_def)
  have h6: "\<not> (Type wwwAAAA = ARecord \<and> ip = '''')" for ip
    using t6 by simp
  have g6: "\<not> (Type wwwAAAA = AAAARecord \<and> ''2001:db8::1'' = '''')"
    "\<not> (Type wwwAAAA = AAAARecord \<and> ''2001:db8::2'' = '''')"
    by simp_all
  have hA: "\<not> (Type apexA = ARecord \<and> ''1.1.1.1'' = '''')"
    "\<not> (Type apexA = AAAARecord \<and> ''2001:db8::2'' = '''')"
    using tA by simp_all
  note m6 = example_map_www6(1)
  note mA = example_map_www6(2)
  have o6: "Response_Content obsWww6 = ''2001:db8::1''"
    "Response_Proxied obsWww6 = Proxied wwwAAAA" "Response_ID obsWww6 = ''rec-6''"
    by (simp_all add: obsWww6_def wwwAAAA_def)
  have oA: "Response_Content obsApex = ''1.1.1.1''"
    "Response_Proxied obsApex = Proxied apexA" "Response_ID obsApex = ''rec-1''"
    by (simp_all add: obsApex_def apexA_def)
  have same: "\<lparr>ID = ''rec-6'', Record = wwwAAAA\<rparr>
        \<notin> set (recordsToUpdate [obsApex, obsMX, obsWww6] [apexA, wwwAAAA]
                  ''1.1.1.1'' ''2001:db8::1'')
     \<and> wwwAAAA \<notin> set (recordsToCreate [obsApex, obsMX, obsWww6] [apexA, wwwAAAA]
                        ''1.1.1.1'' ''2001:db8::1'')"
    using EnsureDNSRecords_minimal_diff
            [where r = wwwAAAA and rs = "[apexA, wwwAAAA]" and es = "[obsApex, obsMX, obsWww6]"
               and e = obsWww6 and ?ipv4.0 = "''1.1.1.1''" and ?ipv6.0 = "''2001:db8::1''"
               and m = fakeCloudflare and z = "''zone-123''" and s = "fakeSys exampleWorld"
               and ?w1.0 = "fakeTick exampleWorld",
             OF in6 h6 g6(1) m6]
          t6 o6
    by simp
  have moved: "\<lparr>ID = ''rec-6'', Record = wwwAAAA\<rparr>
        \<in> set (recordsToUpdate [obsApex, obsMX, obsWww6] [apexA, wwwAAAA]
                  ''1.1.1.1'' ''2001:db8::2'')"
    using EnsureDNSRecords_minimal_diff
            [where r = wwwAAAA and rs = "[apexA, wwwAAAA]" and es = "[obsApex, obsMX, obsWww6]"
               and e = obsWww6 and ?ipv4.0 = "''1.1.1.1''" and ?ipv6.0 = "''2001:db8::2''"
               and m = fakeCloudflare and z = "''zone-123''" and s = "fakeSys exampleWorld"
               and ?w1.0 = "fakeTick exampleWorld",
             OF in6 h6 g6(2) m6]
          t6 o6
    by simp
  have kept: "\<lparr>ID = ''rec-1'', Record = apexA\<rparr>
        \<notin> set (recordsToUpdate [obsApex, obsMX, obsWww6] [apexA, wwwAAAA]
                  ''1.1.1.1'' ''2001:db8::2'')"
    using EnsureDNSRecords_minimal_diff
            [where r = apexA and rs = "[apexA, wwwAAAA]" and es = "[obsApex, obsMX, obsWww6]"
               and e = obsApex and ?ipv4.0 = "''1.1.1.1''" and ?ipv6.0 = "''2001:db8::2''"
               and m = fakeCloudflare and z = "''zone-123''" and s = "fakeSys exampleWorld"
               and ?w1.0 = "fakeTick exampleWorld",
             OF inA hA mA]
          tA oA
    by simp
  have own: "\<lparr>ID = ''rec-6'', Record = wwwAAAA\<rparr>
        \<notin> set (recordsToUpdate [obsApex, obsMX, obsWww6] [apexA, wwwAAAA]
                  ''2001:db8::2'' ''2001:db8::1'')"
    using EnsureDNSRecords_minimal_diff
            [where r = wwwAAAA and rs = "[apexA, wwwAAAA]" and es = "[obsApex, obsMX, obsWww6]"
               and e = obsWww6 and ?ipv4.0 = "''2001:db8::2''" and ?ipv6.0 = "''2001:db8::1''"
               and m = fakeCloudflare and z = "''zone-123''" and s = "fakeSys exampleWorld"
               and ?w1.0 = "fakeTick exampleWorld",
             OF in6 h6 g6(1) m6]
          t6 o6
    by simp
  have a: "apexA \<in> set [apexA, wwwA]" by simp
  have b: "\<not> (Type apexA = ARecord \<and> ''2.2.2.2'' = '''')" by simp
  have c: "\<not> (Type apexA = AAAARecord \<and> ([]::string) = '''')" by (simp add: example_defs)
  note d = example_map_apex
  have first: "\<lparr>ID = ''rec-1'', Record = apexA\<rparr>
        \<in> set (recordsToUpdate [obsApex, obsMX] [apexA, wwwA] ''2.2.2.2'' '''')
   \<and> apexA \<notin> set (recordsToCreate [obsApex, obsMX] [apexA, wwwA] ''2.2.2.2'' '''')
   \<and> issued (fakeSys exampleWorld)
        (snd (EnsureDNSRecords fakeCloudflare ''zone-123'' [apexA, wwwA] ''2.2.2.2'' ''''
                (fakeSys exampleWorld)))
      = [CallListDNSRecords ''zone-123'', CallBatchDNSRecords firstReq]"
    using EnsureDNSRecords_minimal_diff
            [OF a b c d, where m = fakeCloudflare and z = "''zone-123''"
               and s = "fakeSys exampleWorld" and ?w1.0 = "fakeTick exampleWorld"]
          example_list_before
    by (simp add: example_plan_before example_first_issued)
  from m6 o6(1,2) same moved kept own first show ?thesis by blast
qed

theorem EnsureDNSRecords_idempotent_witness:
  "fst (EnsureDNSRecords fakeCloudflare ''zone-123'' [apexA, wwwA] ''2.2.2.2'' ''''
          (fakeSys exampleWorld)) = None
   \<and> world (snd (EnsureDNSRecords fakeCloudflare ''zone-123'' [apexA, wwwA] ''2.2.2.2'' ''''
                   (fakeSys exampleWorld))) = worldAfter
   \<and> inSync [obsApex\<lparr>Response_Content := ''2.2.2.2''\<rparr>, obsMX, newWww] [apexA, wwwA] ''2.2.2.2'' ''''
   \<and> fst (EnsureDNSRecords fakeCloudflare ''zone-123'' [apexA, wwwA] ''2.2.2.2'' ''''
            (fakeSys worldAfter)) = None
   \<and> issued (fakeSys worldAfter)
        (snd (EnsureDNSRecords fakeCloudflare ''zone-123'' [apexA, wwwA] ''2.2.2.2'' ''''
                (fakeSys worldAfter)))
      = [CallListDNSRecords ''zone-123'']"
proof -
  have i: "inSync [obsApex\<lparr>Response_Content := ''2.2.2.2''\<rparr>, obsMX, newWww] [apexA, wwwA]
             ''2.2.2.2'' ''''"
    by (simp add: inSync_def published_def matches_def fullName_def skipped_def
          expectedContent_def example_defs)
  from EnsureDNSRecords_idempotent [OF example_list_after i] i
  show ?thesis by (simp add: example_first_pass)
qed

theorem EnsureDNSRecords_skips_missing_address_witness:
  "recordsToCreate [obsApex, obsMX] [apexA, wwwAAAA] ''2.2.2.2'' '''' = []
   \<and> recordsToUpdate [obsApex, obsMX] [apexA, wwwAAAA] ''2.2.2.2'' ''''
       = [\<lparr>ID = ''rec-1'', Record = apexA\<rparr>]
   \<and> EnsureDNSRecords fakeCloudflare ''zone-123'' [apexA, wwwAAAA] ''2.2.2.2'' ''''
        (fakeSys exampleWorld)
      = EnsureDNSRecords fakeCloudflare ''zone-123'' [apexA] ''2.2.2.2'' '''' (fakeSys exampleWorld)
   \<and> EnsureDNSRecords fakeCloudflare ''zone-123'' [apexA, wwwAAAA] '''' ''2001:db8::1''
        (fakeSys exampleWorld)
      = EnsureDNSRecords fakeCloudflare ''zone-123'' [wwwAAAA] '''' ''2001:db8::1''
          (fakeSys exampleWorld)
   \<and> recordsToCreate [obsApex, obsMX] [apexA, wwwAAAA] '''' ''2001:db8::1'' = [wwwAAAA]
   \<and> recordsToUpdate [obsApex, obsMX] [apexA, wwwAAAA] '''' ''2001:db8::1'' = []"
proof -
  from EnsureDNSRecords_skips_missing_address
         [where ?ipv6.0 = "''''" and ?ipv4.0 = "''2.2.2.2''" and rs = "[apexA, wwwAAAA]"
            and es = "[obsApex, obsMX]" and m = fakeCloudflare and z = "''zone-123''"
            and s = "fakeSys exampleWorld"]
       EnsureDNSRecords_skips_missing_address
         [where ?ipv4.0 = "''''" and ?ipv6.0 = "''2001:db8::1''" and rs = "[apexA, wwwAAAA]"
            and es = "[obsApex, obsMX]" and m = fakeCloudflare and z = "''zone-123''"
            and s = "fakeSys exampleWorld"]
  have "EnsureDNSRecords fakeCloudflare ''zone-123'' [apexA, wwwAAAA] ''2.2.2.2'' ''''
        (fakeSys exampleWorld)
      = EnsureDNSRecords fakeCloudflare ''zone-123'' [apexA] ''2.2.2.2'' '''' (fakeSys exampleWorld)"
    and "EnsureDNSRecords fakeCloudflare ''zone-123'' [apexA, wwwAAAA] '''' ''2001:db8::1''
        (fakeSys exampleWorld)
      = EnsureDNSRecords fakeCloudflare ''zone-123'' [wwwAAAA] '''' ''2001:db8::1''
          (fakeSys exampleWorld)"
    by (simp_all add: apexA_def wwwAAAA_def ARecord_def AAAARecord_def)
  moreover have "recordsToCreate [obsApex, obsMX] [apexA, wwwAAAA] ''2.2.2.2'' '''' = []"
    and "recordsToUpdate [obsApex, obsMX] [apexA, wwwAAAA] ''2.2.2.2'' ''''
       = [\<lparr>ID = ''rec-1'', Record = apexA\<rparr>]"
    and "recordsToCreate [obsApex, obsMX] [apexA, wwwAAAA] '''' ''2001:db8::1'' = [wwwAAAA]"
    and "recordsToUpdate [obsApex, obsMX] [apexA, wwwAAAA] '''' ''2001:db8::1'' = []"
    by (simp_all add: example_defs run_defs)
  ultimately show ?thesis by blast
qed

theorem EnsureDNSRecords_one_batch_witness:
  "length (filter isBatchCall
      (issued (fakeSys exampleWorld)
         (snd (EnsureDNSRecords fakeCloudflare ''zone-123'' [apexA, wwwA] ''2.2.2.2'' ''''
                 (fakeSys exampleWorld))))) = 1
   \<and> CallBatchDNSRecords firstReq
       \<in> set (issued (fakeSys exampleWorld)
                (snd (EnsureDNSRecords fakeCloudflare ''zone-123'' [apexA, wwwA] ''2.2.2.2'' ''''
                        (fakeSys exampleWorld))))
   \<and> Puts firstReq
       = Some [BatchPutARecordParam (Response_ID obsApex) (toDNSARecord apexA ''2.2.2.2'')]
   \<and> supported obsApex \<and> \<not> supported obsMX
   \<and> recordsToCreate [obsApex\<lparr>Response_Content := ''2.2.2.2''\<rparr>, obsMX, newWww] [apexA, wwwA]
        ''2.2.2.2'' '''' = []
   \<and> recordsToUpdate [obsApex\<lparr>Response_Content := ''2.2.2.2''\<rparr>, obsMX, newWww] [apexA, wwwA]
        ''2.2.2.2'' '''' = []
   \<and> issued (fakeSys worldAfter)
        (snd (EnsureDNSRecords fakeCloudflare ''zone-123'' [apexA, wwwA] ''2.2.2.2'' ''''
                (fakeSys worldAfter)))
      = [CallListDNSRecords ''zone-123'']"
proof -
  have c: "recordsToCreate [obsApex\<lparr>Response_Content := ''2.2.2.2''\<rparr>, obsMX, newWww] [apexA, wwwA]
        ''2.2.2.2'' '''' = []"
    and u: "recordsToUpdate [obsApex\<lparr>Response_Content := ''2.2.2.2''\<rparr>, obsMX, newWww] [apexA, wwwA]
        ''2.2.2.2'' '''' = []"
    by (simp_all add: example_defs run_defs)
  have i: "issued (fakeSys exampleWorld)
         (snd (EnsureDNSRecords fakeCloudflare ''zone-123'' [apexA, wwwA] ''2.2.2.2'' ''''
                 (fakeSys exampleWorld)))
           = [CallListDNSRecords ''zone-123'', CallBatchDNSRecords firstReq]"
    by (rule example_first_issued)
  have p: "Puts firstReq
       = Some [BatchPutARecordParam (Response_ID obsApex) (toDNSARecord apexA ''2.2.2.2'')]"
    "supported obsApex" "\<not> supported obsMX"
    by (simp_all add: example_defs toDNSARecord_def supported_def)
  from EnsureDNSRecords_one_batch
         [where m = fakeCloudflare and z = "''zone-123''" and rs = "[apexA, wwwA]"
            and ?ipv4.0 = "''2.2.2.2''" and ?ipv6.0 = "''''" and s = "fakeSys exampleWorld"
            and es = "[obsApex, obsMX]" and ?w1.0 = "fakeTick exampleWorld" and req = firstReq]
       EnsureDNSRecords_one_batch
         [where m = fakeCloudflare and z = "''zone-123''" and rs = "[apexA, wwwA]"
            and ?ipv4.0 = "''2.2.2.2''" and ?ipv6.0 = "''''" and s = "fakeSys worldAfter"
            and es = "[obsApex\<lparr>Response_Content := ''2.2.2.2''\<rparr>, obsMX, newWww]"
            and ?w1.0 = "fakeTick worldAfter" and req = firstReq]
       example_list_before example_list_after c u i p
  show ?thesis by simp
qed


lemmas watcher_defs =
  exampleWatcher_def noRoute_def exampleFetched_def zoneMissing_def
  fetchIP_def GetIPv4_def GetIPv6_def fetchNewIPs_def getZoneID_def dnsRecords_def
  ensureDomain_def updateAllDNSRecords_def verifyDNSRecords_def loadString_def
  ipChanged_def stored_def changeLines_def

theorem fetchIP_empty_means_error_witness:
  "fst (fetchIP fakeFetcher ipv4URL (fakeSys exampleWorld)) = (''2.2.2.2'', None)
   \<and> fst (fetchIP fakeFetcher ipv6URL (fakeSys exampleWorld)) = ('''', Some noRoute)
   \<and> fst (fetchIP fakeFetcher ipv4URL
            (fakeSys (exampleWorld\<lparr>fake_http :=
               \<lambda>url. Inr \<lparr>StatusCode = 200, Body = ([CHR '' '', CHR 0x0A], None)\<rparr>\<rparr>)))
       = ('''', Some (Errorf ''empty IP address received''))
   \<and> fst (fetchIP fakeFetcher ipv4URL
            (fakeSys (exampleWorld\<lparr>fake_http :=
               \<lambda>url. Inr \<lparr>StatusCode = 503, Body = (''2.2.2.2'', None)\<rparr>\<rparr>)))
       = ('''', Some (ErrorfD ''unexpected status code: '' 503))
   \<and> fst (fetchIP fakeFetcher ipv4URL
            (fakeSys (exampleWorld\<lparr>fake_http :=
               \<lambda>url. Inr \<lparr>StatusCode = 200,
                            Body = (''2.2'', Some (External ''unexpected EOF''))\<rparr>\<rparr>)))
       = ('''', Some (ErrorfW ''failed to read response'' (External ''unexpected EOF'')))"
proof -
  have n: "NewRequestWithContext fakeFetcher ipv4URL = None"
    by (simp add: fakeFetcher_def)
  have d1: "fst (Do fakeFetcher ipv4URL (world (fakeSys exampleWorld)))
              = Inr \<lparr>StatusCode = 200, Body = (''2.2.2.2'' @ [CHR 0x0A], None)\<rparr>"
    by (simp add: example_defs)
  have d2: "fst (Do fakeFetcher ipv4URL (world (fakeSys (exampleWorld\<lparr>fake_http :=
               \<lambda>url. Inr \<lparr>StatusCode = 200, Body = ([CHR '' '', CHR 0x0A], None)\<rparr>\<rparr>))))
              = Inr \<lparr>StatusCode = 200, Body = ([CHR '' '', CHR 0x0A], None)\<rparr>"
    by (simp add: example_defs)
  have d3: "fst (Do fakeFetcher ipv4URL (world (fakeSys (exampleWorld\<lparr>fake_http :=
               \<lambda>url. Inr \<lparr>StatusCode = 503, Body = (''2.2.2.2'', None)\<rparr>\<rparr>))))
              = Inr \<lparr>StatusCode = 503, Body = (''2.2.2.2'', None)\<rparr>"
    by (simp add: example_defs)
  have d4: "fst (Do fakeFetcher ipv4URL (world (fakeSys (exampleWorld\<lparr>fake_http :=
               \<lambda>url. Inr \<lparr>StatusCode = 200,
                            Body = (''2.2'', Some (External ''unexpected EOF''))\<rparr>\<rparr>))))
              = Inr \<lparr>StatusCode = 200, Body = (''2.2'', Some (External ''unexpected EOF''))\<rparr>"
    by (simp add: example_defs)
  have t: "TrimSpace fakeFetcher (''2.2.2.2'' @ [CHR 0x0A]) = ''2.2.2.2''"
    "TrimSpace fakeFetcher [CHR '' '', CHR 0x0A] = ''''"
    by (simp_all add: fakeFetcher_def trimASCII_def asciiSpace_def)
  have v6: "fst (fetchIP fakeFetcher ipv6URL (fakeSys exampleWorld)) = ('''', Some noRoute)"
    by (simp add: example_defs run_defs watcher_defs)
  from fetchIP_empty_means_error [where f = fakeFetcher and url = ipv4URL
         and s = "fakeSys exampleWorld"
         and resp = "\<lparr>StatusCode = 200, Body = (''2.2.2.2'' @ [CHR 0x0A], None)\<rparr>"]
       fetchIP_empty_means_error [where f = fakeFetcher and url = ipv4URL
         and s = "fakeSys (exampleWorld\<lparr>fake_http :=
               \<lambda>url. Inr \<lparr>StatusCode = 200, Body = ([CHR '' '', CHR 0x0A], None)\<rparr>\<rparr>)"
         and resp = "\<lparr>StatusCode = 200, Body = ([CHR '' '', CHR 0x0A], None)\<rparr>"]
       fetchIP_empty_means_error [where f = fakeFetcher and url = ipv4URL
         and s = "fakeSys (exampleWorld\<lparr>fake_http :=
               \<lambda>url. Inr \<lparr>StatusCode = 503, Body = (''2.2.2.2'', None)\<rparr>\<rparr>)"
         and resp = "\<lparr>StatusCode = 503, Body = (''2.2.2.2'', None)\<rparr>"]
       fetchIP_empty_means_error [where f = fakeFetcher and url = ipv4URL
         and s = "fakeSys (exampleWorld\<lparr>fake_http :=
               \<lambda>url. Inr \<lparr>StatusCode = 200,
                            Body = (''2.2'', Some (External ''unexpected EOF''))\<rparr>\<rparr>)"
         and resp = "\<lparr>StatusCode = 200, Body = (''2.2'', Some (External ''unexpected EOF''))\<rparr>"]
       n d1 d2 d3 d4 t v6
  show ?thesis by (simp add: StatusOK_def)
qed

theorem getZoneID_resolution_witness:
  "fst (ListZones fakeCloudflare ''nosuchzone.com'' (world (fakeSys exampleWorld))) = Inr []
   \<and> fst (GetZoneIDByName fakeCloudflare ''nosuchzone.com'' (fakeSys exampleWorld))
       = ('''', Some zoneMissing)
   \<and> fst (GetZoneIDByName fakeCloudflare ''example.com'' (fakeSys exampleWorld))
       = (''zone-123'', None)
   \<and> zoneCache exampleWatcher ''example.com'' = None
   \<and> fst (getZoneID fakeEnv ''example.com'' (exampleWatcher, fakeSys exampleWorld))
       = (''zone-123'', None)
   \<and> zoneCache (fst (snd (getZoneID fakeEnv ''example.com'' (exampleWatcher, fakeSys exampleWorld))))
       = [''example.com'' \<mapsto> ''zone-123'']
   \<and> issued (fakeSys exampleWorld)
        (snd (snd (getZoneID fakeEnv ''example.com'' (exampleWatcher, fakeSys exampleWorld))))
       = [CallListZones ''example.com'']
   \<and> getZoneID fakeEnv ''example.com''
        (exampleWatcher\<lparr>zoneCache := [''example.com'' \<mapsto> ''zone-123'']\<rparr>, fakeSys exampleWorld)
       = ((''zone-123'', None),
          exampleWatcher\<lparr>zoneCache := [''example.com'' \<mapsto> ''zone-123'']\<rparr>, fakeSys exampleWorld)"
proof -
  have l1: "fst (ListZones fakeCloudflare ''nosuchzone.com'' (world (fakeSys exampleWorld))) = Inr []"
    and l2: "fst (ListZones fakeCloudflare ''example.com'' (world (fakeSys exampleWorld)))
         = Inr [\<lparr>Zone_ID = ''zone-123'', Zone_Name = ''example.com''\<rparr>]"
    and l3: "fst (ListZones (dnsManager fakeEnv) ''example.com'' (world (fakeSys exampleWorld)))
         = Inr [\<lparr>Zone_ID = ''zone-123'', Zone_Name = ''example.com''\<rparr>]"
    by (simp_all add: example_defs)
  have c1: "zoneCache exampleWatcher ''example.com'' = None"
    and c2: "zoneCache (exampleWatcher\<lparr>zoneCache := [''example.com'' \<mapsto> ''zone-123'']\<rparr>)
               ''example.com'' = Some ''zone-123''"
    by (simp_all add: exampleWatcher_def)
  have g: "fst (GetZoneIDByName (dnsManager fakeEnv) ''example.com'' (fakeSys exampleWorld))
             = (''zone-123'', None)"
    using getZoneID_resolution [where m = "dnsManager fakeEnv" and zn = "''example.com''"
         and s = "fakeSys exampleWorld"] l3
    by simp
  from getZoneID_resolution [where m = fakeCloudflare and zn = "''nosuchzone.com''"
         and s = "fakeSys exampleWorld"]
       getZoneID_resolution [where m = fakeCloudflare and zn = "''example.com''"
         and s = "fakeSys exampleWorld" and env = fakeEnv and w = exampleWatcher]
       getZoneID_resolution [where m = fakeCloudflare and zn = "''example.com''"
         and s = "fakeSys exampleWorld" and env = fakeEnv
         and w = "exampleWatcher\<lparr>zoneCache := [''example.com'' \<mapsto> ''zone-123'']\<rparr>"]
       l1 l2 c1 c2 g
  show ?thesis by (simp add: zoneMissing_def exampleWatcher_def)
qed

lemma example_pass:
  "updateAllDNSRecords fakeEnv exampleConfig
     (exampleWatcher\<lparr>currentIPv4 := Some ''2.2.2.2''\<rparr>, fakeSys exampleWorld)
   = (Some zoneMissing,
      exampleWatcher\<lparr>currentIPv4 := Some ''2.2.2.2'',
                      zoneCache := [''example.com'' \<mapsto> ''zone-123'']\<rparr>,
      \<lparr>world = worldAfter\<lparr>fake_clock := 4\<rparr>,
       calls = [CallListZones ''nosuchzone.com'', CallListZones ''example.com'',
                CallListDNSRecords ''zone-123'', CallBatchDNSRecords firstReq],
       logs = [Printf ''Failed to get zone ID for %s: %v'' [S ''nosuchzone.com'', E zoneMissing],
               Printf ''DNS records for %s updated successfully'' [S ''example.com'']]\<rparr>)"
  by (simp add: example_defs run_defs watcher_defs Let_def)

lemma example_sweep:
  "fst (sweep ''Failed to ensure DNS records for %s: %v''
          ''DNS records for %s updated successfully'' fakeEnv ''2.2.2.2'' ''''
          (Domains exampleConfig)
          (exampleWatcher\<lparr>currentIPv4 := Some ''2.2.2.2''\<rparr>, fakeSys exampleWorld))
   = [ZoneFailed zoneMissing, Reconciled]"
  by (simp add: attempt_def example_defs run_defs watcher_defs Let_def)

theorem updateAllDNSRecords_best_effort_witness:
  "map Config_ZoneName (Domains exampleConfig) = [''nosuchzone.com'', ''example.com'']
   \<and> fst (sweep ''Failed to ensure DNS records for %s: %v''
            ''DNS records for %s updated successfully'' fakeEnv ''2.2.2.2'' ''''
            (Domains exampleConfig)
            (exampleWatcher\<lparr>currentIPv4 := Some ''2.2.2.2''\<rparr>, fakeSys exampleWorld))
       = [ZoneFailed zoneMissing, Reconciled]
   \<and> fst (attempt fakeEnv ''2.2.2.2'' '''' (Domains exampleConfig ! 1)
            (snd (sweep ''Failed to ensure DNS records for %s: %v''
                    ''DNS records for %s updated successfully'' fakeEnv ''2.2.2.2'' ''''
                    [Domains exampleConfig ! 0]
                    (exampleWatcher\<lparr>currentIPv4 := Some ''2.2.2.2''\<rparr>, fakeSys exampleWorld))))
       = Reconciled
   \<and> lastFailure [ZoneFailed zoneMissing, Reconciled] = Some zoneMissing
   \<and> fst (updateAllDNSRecords fakeEnv exampleConfig
            (exampleWatcher\<lparr>currentIPv4 := Some ''2.2.2.2''\<rparr>, fakeSys exampleWorld))
       = Some zoneMissing
   \<and> logged (fakeSys exampleWorld)
        (snd (snd (updateAllDNSRecords fakeEnv exampleConfig
                     (exampleWatcher\<lparr>currentIPv4 := Some ''2.2.2.2''\<rparr>, fakeSys exampleWorld))))
       = [Printf ''Failed to get zone ID for %s: %v'' [S ''nosuchzone.com'', E zoneMissing],
          Printf ''DNS records for %s updated successfully'' [S ''example.com'']]
   \<and> issued (fakeSys exampleWorld)
        (snd (snd (updateAllDNSRecords fakeEnv exampleConfig
                     (exampleWatcher\<lparr>currentIPv4 := Some ''2.2.2.2''\<rparr>, fakeSys exampleWorld))))
       = [CallListZones ''nosuchzone.com'', CallListZones ''example.com'',
          CallListDNSRecords ''zone-123'', CallBatchDNSRecords firstReq]
   \<and> lastError (filter domainLine
        (logged (fakeSys exampleWorld)
           (snd (snd (updateAllDNSRecords fakeEnv exampleConfig
                        (exampleWatcher\<lparr>currentIPv4 := Some ''2.2.2.2''\<rparr>,
                         fakeSys exampleWorld))))))
       = Some zoneMissing"
proof -
  have d: "map Config_ZoneName (Domains exampleConfig) = [''nosuchzone.com'', ''example.com'']"
    by (simp add: exampleConfig_def)
  have l: "loadString (currentIPv4 (exampleWatcher\<lparr>currentIPv4 := Some ''2.2.2.2''\<rparr>)) = ''2.2.2.2''"
    "loadString (currentIPv6 (exampleWatcher\<lparr>currentIPv4 := Some ''2.2.2.2''\<rparr>)) = ''''"
    "loadString (Some ''2.2.2.2'') = ''2.2.2.2''"
    "loadString (currentIPv6 exampleWatcher) = ''''"
    by (simp_all add: loadString_def exampleWatcher_def)
  note sw = example_sweep
  note inst = updateAllDNSRecords_best_effort
         [where env = fakeEnv and cfg = exampleConfig and s = "fakeSys exampleWorld"
            and w = "exampleWatcher\<lparr>currentIPv4 := Some ''2.2.2.2''\<rparr>"
            and failFmt = "''Failed to ensure DNS records for %s: %v''"
            and okFmt = "''DNS records for %s updated successfully''"
            and ?ipv4.0 = "''2.2.2.2''" and ?ipv6.0 = "''''"
            and st = "(exampleWatcher\<lparr>currentIPv4 := Some ''2.2.2.2''\<rparr>, fakeSys exampleWorld)"]
  note c1 = inst [THEN conjunct1]
  note c4 = inst [THEN conjunct2, THEN conjunct2, THEN conjunct2, THEN conjunct1, rule_format,
                  where ?ds1.0 = "[Domains exampleConfig ! 0]" and d = "Domains exampleConfig ! 1"
                    and ?ds2.0 = "[]"]
  note c5 = inst [THEN conjunct2, THEN conjunct2, THEN conjunct2, THEN conjunct2,
                  THEN conjunct1, rule_format,
                  where out = "ZoneFailed zoneMissing" and ?outs1.0 = "[]"
                    and ?outs2.0 = "[Reconciled]"]
  note c8 = inst [THEN conjunct2, THEN conjunct2, THEN conjunct2, THEN conjunct2,
                  THEN conjunct2, THEN conjunct2, THEN conjunct2, THEN conjunct1]
  have ds: "Domains exampleConfig = [Domains exampleConfig ! 0] @ Domains exampleConfig ! 1 # []"
    by (simp add: exampleConfig_def)
  have "fst (sweep ''Failed to ensure DNS records for %s: %v''
            ''DNS records for %s updated successfully'' fakeEnv ''2.2.2.2'' ''''
            (Domains exampleConfig)
            (exampleWatcher\<lparr>currentIPv4 := Some ''2.2.2.2''\<rparr>, fakeSys exampleWorld))
          ! length [Domains exampleConfig ! 0]
        = fst (attempt fakeEnv ''2.2.2.2'' '''' (Domains exampleConfig ! 1)
            (snd (sweep ''Failed to ensure DNS records for %s: %v''
                    ''DNS records for %s updated successfully'' fakeEnv ''2.2.2.2'' ''''
                    [Domains exampleConfig ! 0]
                    (exampleWatcher\<lparr>currentIPv4 := Some ''2.2.2.2''\<rparr>, fakeSys exampleWorld))))"
    by (rule c4 [OF ds])
  then have at: "fst (attempt fakeEnv ''2.2.2.2'' '''' (Domains exampleConfig ! 1)
            (snd (sweep ''Failed to ensure DNS records for %s: %v''
                    ''DNS records for %s updated successfully'' fakeEnv ''2.2.2.2'' ''''
                    [Domains exampleConfig ! 0]
                    (exampleWatcher\<lparr>currentIPv4 := Some ''2.2.2.2''\<rparr>, fakeSys exampleWorld))))
       = Reconciled"
    by (simp add: sw)
  have "lastFailure ([] @ ZoneFailed zoneMissing # [Reconciled])
          = outcomeError (ZoneFailed zoneMissing)"
    by (rule c5) simp_all
  then have lf: "lastFailure [ZoneFailed zoneMissing, Reconciled] = Some zoneMissing"
    by simp
  from c1 have "fst (updateAllDNSRecords fakeEnv exampleConfig
            (exampleWatcher\<lparr>currentIPv4 := Some ''2.2.2.2''\<rparr>, fakeSys exampleWorld))
       = lastFailure (fst (sweep ''Failed to ensure DNS records for %s: %v''
            ''DNS records for %s updated successfully'' fakeEnv ''2.2.2.2'' ''''
            (Domains exampleConfig)
            (exampleWatcher\<lparr>currentIPv4 := Some ''2.2.2.2''\<rparr>, fakeSys exampleWorld)))"
    by (simp add: l)
  then have r: "fst (updateAllDNSRecords fakeEnv exampleConfig
            (exampleWatcher\<lparr>currentIPv4 := Some ''2.2.2.2''\<rparr>, fakeSys exampleWorld))
       = Some zoneMissing"
    by (simp only: sw lf)
  have lg: "logged (fakeSys exampleWorld)
        (snd (snd (updateAllDNSRecords fakeEnv exampleConfig
                     (exampleWatcher\<lparr>currentIPv4 := Some ''2.2.2.2''\<rparr>, fakeSys exampleWorld))))
       = [Printf ''Failed to get zone ID for %s: %v'' [S ''nosuchzone.com'', E zoneMissing],
          Printf ''DNS records for %s updated successfully'' [S ''example.com'']]"
    and cl: "issued (fakeSys exampleWorld)
        (snd (snd (updateAllDNSRecords fakeEnv exampleConfig
                     (exampleWatcher\<lparr>currentIPv4 := Some ''2.2.2.2''\<rparr>, fakeSys exampleWorld))))
       = [CallListZones ''nosuchzone.com'', CallListZones ''example.com'',
          CallListDNSRecords ''zone-123'', CallBatchDNSRecords firstReq]"
    by (simp_all add: example_pass logged_def issued_def)
  from c8 r have le: "lastError (filter domainLine
        (logged (fakeSys exampleWorld)
           (snd (snd (updateAllDNSRecords fakeEnv exampleConfig
                        (exampleWatcher\<lparr>currentIPv4 := Some ''2.2.2.2''\<rparr>,
                         fakeSys exampleWorld))))))
       = Some zoneMissing"
    by simp
  from d sw at lf r lg cl le show ?thesis by blast
qed

lemma example_lookups:
  "GetIPv4 (ipFetcher fakeEnv) (fakeSys exampleWorld)
     = ((''2.2.2.2'', None), afterIPv4 exampleWorld)"
  "GetIPv6 (ipFetcher fakeEnv)
     (noteError ''Failed to fetch IPv4: %v'' None (afterIPv4 exampleWorld))
     = (('''', Some noRoute), afterIPv6 exampleWorld)"
  "polled exampleConfig None (afterIPv4 exampleWorld) (Some noRoute) (afterIPv6 exampleWorld)
     = exampleFetched"
  "polled hastyConfig None (afterIPv4 exampleWorld) (Some noRoute) (afterIPv6 exampleWorld)
     = exampleFetched"
  by (simp_all add: example_defs run_defs watcher_defs afterIPv4_def afterIPv6_def
        noteError_def polled_def hastyConfig_def)

lemma dual_lookups:
  "GetIPv4 (ipFetcher fakeEnv) (fakeSys dualWorld) = ((''2.2.2.2'', None), afterIPv4 dualWorld)"
  "GetIPv6 (ipFetcher fakeEnv)
     (noteError ''Failed to fetch IPv4: %v'' None (afterIPv4 dualWorld))
     = ((''2001:db8::2'', None), afterIPv6 dualWorld)"
  "polled exampleConfig None (afterIPv4 dualWorld) None (afterIPv6 dualWorld) = dualFetched"
  "polled (exampleConfig\<lparr>SupportsIPv6 := False\<rparr>) None (afterIPv4 dualWorld) None
     (afterIPv6 dualWorld) = afterIPv4 dualWorld"
  by (simp_all add: example_defs run_defs watcher_defs afterIPv4_def afterIPv6_def
        noteError_def polled_def dualFetched_def)

lemma example_intervals:
  "syncInterval fakeEnv exampleConfig = 30000000000"
  "refreshInterval fakeEnv exampleConfig = 1000000000"
  "syncInterval fakeEnv hastyConfig = 0"
  "refreshInterval fakeEnv hastyConfig = 1000000000"
proof -
  have a: "int64_of_float64 impl (fdiv (float64_of_int64 60000000000) (Finite 2)) = 30000000000"
    for impl by (rule interval_exact) simp_all
  have b: "int64_of_float64 impl (fdiv (float64_of_int64 1000000000) (Finite 1)) = 1000000000"
    for impl by (rule interval_exact) simp_all
  have c: "int64_of_float64 impl (fdiv (float64_of_int64 60000000000) (Finite 100000000000)) = 0"
    for impl by (rule interval_zero) simp_all
  show "syncInterval fakeEnv exampleConfig = 30000000000"
    "refreshInterval fakeEnv exampleConfig = 1000000000"
    "syncInterval fakeEnv hastyConfig = 0"
    "refreshInterval fakeEnv hastyConfig = 1000000000"
    by (simp_all add: syncInterval_def refreshInterval_def exampleConfig_def hastyConfig_def
          Minute_def Second_def a b c)
qed

theorem checkAndUpdateIP_keeps_known_addresses_witness:
  "GetIPv4 (ipFetcher fakeEnv) (fakeSys exampleWorld)
     = ((''2.2.2.2'', None), afterIPv4 exampleWorld)
   \<and> GetIPv6 (ipFetcher fakeEnv)
       (noteError ''Failed to fetch IPv4: %v'' None (afterIPv4 exampleWorld))
     = (('''', Some noRoute), afterIPv6 exampleWorld)
   \<and> currentIPv4 exampleWatcher = Some ''1.1.1.1''
   \<and> currentIPv4 (fst (snd (checkAndUpdateIP fakeEnv exampleConfig
                              (exampleWatcher, fakeSys exampleWorld)))) = Some ''2.2.2.2''
   \<and> currentIPv6 (fst (snd (checkAndUpdateIP fakeEnv exampleConfig
                              (exampleWatcher\<lparr>currentIPv6 := Some ''2001:db8::1''\<rparr>,
                               fakeSys exampleWorld)))) = Some ''2001:db8::1''
   \<and> checkAndUpdateIP fakeEnv exampleConfig
        (exampleWatcher\<lparr>currentIPv4 := Some ''2.2.2.2''\<rparr>, fakeSys exampleWorld)
       = (Return None, exampleWatcher\<lparr>currentIPv4 := Some ''2.2.2.2''\<rparr>, exampleFetched)
   \<and> GetIPv6 (ipFetcher fakeEnv)
       (noteError ''Failed to fetch IPv4: %v'' None (afterIPv4 dualWorld))
     = ((''2001:db8::2'', None), afterIPv6 dualWorld)
   \<and> currentIPv6 dualWatcher = Some ''2001:db8::1''
   \<and> currentIPv6 (fst (snd (checkAndUpdateIP fakeEnv exampleConfig
                              (dualWatcher, fakeSys dualWorld)))) = Some ''2001:db8::2''
   \<and> currentIPv4 (fst (snd (checkAndUpdateIP fakeEnv exampleConfig
                              (dualWatcher, fakeSys dualWorld)))) = Some ''2.2.2.2''
   \<and> currentIPv6 (fst (snd (checkAndUpdateIP fakeEnv (exampleConfig\<lparr>SupportsIPv6 := False\<rparr>)
                              (dualWatcher, fakeSys dualWorld)))) = Some ''2001:db8::1''
   \<and> checkAndUpdateIP fakeEnv exampleConfig (dualWatcher, fakeSys dualWorld)
       = (case updateAllDNSRecords fakeEnv exampleConfig
                 (dualWatcher\<lparr>currentIPv6 := Some ''2001:db8::2'',
                              syncTicker := Some \<lparr>period = 30000000000, armed = 2\<rparr>\<rparr>,
                  dualFetched\<lparr>logs :=
                     [Printf ''IPv6 changed: %s -> %s''
                        [S ''2001:db8::1'', S ''2001:db8::2'']]\<rparr>) of
            (r, st') \<Rightarrow> (Return r, st'))
   \<and> snd (checkAndUpdateIP fakeEnv hastyConfig (exampleWatcher, fakeSys exampleWorld))
       = (exampleWatcher\<lparr>currentIPv4 := Some ''2.2.2.2''\<rparr>,
          exampleFetched\<lparr>logs := logs exampleFetched
             @ [Printf ''IPv4 changed: %s -> %s'' [S ''1.1.1.1'', S ''2.2.2.2'']]\<rparr>)"
proof -
  note g = example_lookups(1,2)
  note h = dual_lookups(1,2)
  have c: "currentIPv4 exampleWatcher = Some ''1.1.1.1''"
    and c6: "currentIPv6 dualWatcher = Some ''2001:db8::1''"
    by (simp_all add: exampleWatcher_def dualWatcher_def)
  have ld: "loadString (currentIPv4 exampleWatcher) = ''1.1.1.1''"
    "loadString (currentIPv6 exampleWatcher) = ''''"
    "loadString (currentIPv4 dualWatcher) = ''2.2.2.2''"
    "loadString (currentIPv6 dualWatcher) = ''2001:db8::1''"
    "loadString (Some ''2001:db8::1'') = ''2001:db8::1''"
    "loadString (Some ''2.2.2.2'') = ''2.2.2.2''"
    by (simp_all add: exampleWatcher_def dualWatcher_def loadString_def)
  have sup: "SupportsIPv6 exampleConfig" "SupportsIPv6 hastyConfig"
    by (simp_all add: exampleConfig_def hastyConfig_def)
  have a1: "currentIPv4 (fst (snd (checkAndUpdateIP fakeEnv exampleConfig
                              (exampleWatcher, fakeSys exampleWorld)))) = Some ''2.2.2.2''"
    using checkAndUpdateIP_keeps_known_addresses
            [OF g, where cfg = exampleConfig and w = exampleWatcher, THEN conjunct1]
    by (simp add: ld)
  have e: "Some noRoute \<noteq> None" by simp
  have a2: "currentIPv6 (fst (snd (checkAndUpdateIP fakeEnv exampleConfig
                              (exampleWatcher\<lparr>currentIPv6 := Some ''2001:db8::1''\<rparr>,
                               fakeSys exampleWorld)))) = Some ''2001:db8::1''"
    using checkAndUpdateIP_keeps_known_addresses
            [OF g, where cfg = exampleConfig
               and w = "exampleWatcher\<lparr>currentIPv6 := Some ''2001:db8::1''\<rparr>", THEN conjunct2, THEN conjunct2, THEN conjunct2, THEN conjunct1] e
    by simp
  have n: "\<not> ipChanged ''2.2.2.2'' (currentIPv4 (exampleWatcher\<lparr>currentIPv4 := Some ''2.2.2.2''\<rparr>))"
    "\<not> ipChanged (fetched6 exampleConfig '''')
          (currentIPv6 (exampleWatcher\<lparr>currentIPv4 := Some ''2.2.2.2''\<rparr>))"
    by (simp_all add: ipChanged_def fetched6_def loadString_def)
  have a3: "checkAndUpdateIP fakeEnv exampleConfig
        (exampleWatcher\<lparr>currentIPv4 := Some ''2.2.2.2''\<rparr>, fakeSys exampleWorld)
       = (Return None, exampleWatcher\<lparr>currentIPv4 := Some ''2.2.2.2''\<rparr>, exampleFetched)"
    using checkAndUpdateIP_keeps_known_addresses
            [OF g, where cfg = exampleConfig
               and w = "exampleWatcher\<lparr>currentIPv4 := Some ''2.2.2.2''\<rparr>", THEN conjunct2, THEN conjunct2, THEN conjunct2, THEN conjunct2, THEN conjunct2, THEN conjunct2, THEN conjunct1,
             THEN mp, OF n(1), THEN mp, OF n(2)]
    by (simp only: example_lookups(3))
  have b1: "currentIPv6 (fst (snd (checkAndUpdateIP fakeEnv exampleConfig
                              (dualWatcher, fakeSys dualWorld)))) = Some ''2001:db8::2''"
    using checkAndUpdateIP_keeps_known_addresses
            [OF h, where cfg = exampleConfig and w = dualWatcher, THEN conjunct2, THEN conjunct1]
    by (simp add: ld sup)
  have b2: "currentIPv4 (fst (snd (checkAndUpdateIP fakeEnv exampleConfig
                              (dualWatcher, fakeSys dualWorld)))) = Some ''2.2.2.2''"
    using checkAndUpdateIP_keeps_known_addresses
            [OF h, where cfg = exampleConfig and w = dualWatcher, THEN conjunct1]
    by (simp add: ld dualWatcher_def)
  have b3: "currentIPv6 (fst (snd (checkAndUpdateIP fakeEnv (exampleConfig\<lparr>SupportsIPv6 := False\<rparr>)
                              (dualWatcher, fakeSys dualWorld)))) = Some ''2001:db8::1''"
    using checkAndUpdateIP_keeps_known_addresses
            [OF h, where cfg = "exampleConfig\<lparr>SupportsIPv6 := False\<rparr>" and w = dualWatcher, THEN conjunct2, THEN conjunct1]
    by (simp add: c6)
  have i6: "ipChanged ''2.2.2.2'' (currentIPv4 dualWatcher)
              \<or> ipChanged (fetched6 exampleConfig ''2001:db8::2'') (currentIPv6 dualWatcher)"
    by (simp add: ipChanged_def fetched6_def ld sup)
  have t: "syncTicker dualWatcher = Some \<lparr>period = 30000000000, armed = 0\<rparr>"
    "syncTicker exampleWatcher = Some \<lparr>period = 30000000000, armed = 0\<rparr>"
    by (simp_all add: dualWatcher_def exampleWatcher_def)
  have p: "0 < syncInterval fakeEnv exampleConfig" by (simp add: example_intervals)
  have now: "Now fakeEnv (world dualFetched) = 2" "Now fakeEnv (world exampleFetched) = 2"
    by (simp_all add: fakeEnv_def dualFetched_def exampleFetched_def)
  have st: "dualWatcher\<lparr>currentIPv4 := stored ''2.2.2.2'' (currentIPv4 dualWatcher),
               currentIPv6 := stored (fetched6 exampleConfig ''2001:db8::2'') (currentIPv6 dualWatcher),
               syncTicker := Some \<lparr>period = syncInterval fakeEnv exampleConfig,
                                    armed = Now fakeEnv (world dualFetched)\<rparr>\<rparr>
            = dualWatcher\<lparr>currentIPv6 := Some ''2001:db8::2'',
                          syncTicker := Some \<lparr>period = 30000000000, armed = 2\<rparr>\<rparr>"
    by (simp add: stored_def ipChanged_def fetched6_def ld sup example_intervals now)
  have lg: "dualFetched\<lparr>logs := logs dualFetched
                 @ changeLines ''2.2.2.2'' (fetched6 exampleConfig ''2001:db8::2'') dualWatcher\<rparr>
            = dualFetched\<lparr>logs := [Printf ''IPv6 changed: %s -> %s''
                                      [S ''2001:db8::1'', S ''2001:db8::2'']]\<rparr>"
    by (simp add: changeLines_def ipChanged_def fetched6_def ld sup dualFetched_def)
  have b4: "checkAndUpdateIP fakeEnv exampleConfig (dualWatcher, fakeSys dualWorld)
       = (case updateAllDNSRecords fakeEnv exampleConfig
                 (dualWatcher\<lparr>currentIPv6 := Some ''2001:db8::2'',
                              syncTicker := Some \<lparr>period = 30000000000, armed = 2\<rparr>\<rparr>,
                  dualFetched\<lparr>logs :=
                     [Printf ''IPv6 changed: %s -> %s''
                        [S ''2001:db8::1'', S ''2001:db8::2'']]\<rparr>) of
            (r, st') \<Rightarrow> (Return r, st'))"
    using checkAndUpdateIP_keeps_known_addresses
            [OF h, where cfg = exampleConfig and w = dualWatcher, THEN conjunct2, THEN conjunct2, THEN conjunct2, THEN conjunct2, THEN conjunct2, THEN conjunct2, THEN conjunct2,
             THEN mp, OF i6, THEN conjunct1, rule_format, OF t(1) p]
    by (simp only: dual_lookups(3) st lg)
  have i4: "ipChanged ''2.2.2.2'' (currentIPv4 exampleWatcher)
              \<or> ipChanged (fetched6 hastyConfig '''') (currentIPv6 exampleWatcher)"
    by (simp add: ipChanged_def ld)
  have z: "syncTicker exampleWatcher = None \<or> syncInterval fakeEnv hastyConfig \<le> 0"
    by (simp add: example_intervals)
  have sv: "exampleWatcher\<lparr>currentIPv4 := stored ''2.2.2.2'' (currentIPv4 exampleWatcher),
               currentIPv6 := stored (fetched6 hastyConfig '''') (currentIPv6 exampleWatcher)\<rparr>
            = exampleWatcher\<lparr>currentIPv4 := Some ''2.2.2.2''\<rparr>"
    by (simp add: stored_def ipChanged_def fetched6_def sup exampleWatcher_def loadString_def)
  have lv: "changeLines ''2.2.2.2'' (fetched6 hastyConfig '''') exampleWatcher
            = [Printf ''IPv4 changed: %s -> %s'' [S ''1.1.1.1'', S ''2.2.2.2'']]"
    by (simp add: changeLines_def ipChanged_def fetched6_def ld sup)
  have "\<exists>p. checkAndUpdateIP fakeEnv hastyConfig (exampleWatcher, fakeSys exampleWorld)
       = (Panics p, exampleWatcher\<lparr>currentIPv4 := Some ''2.2.2.2''\<rparr>,
          exampleFetched\<lparr>logs := logs exampleFetched
             @ [Printf ''IPv4 changed: %s -> %s'' [S ''1.1.1.1'', S ''2.2.2.2'']]\<rparr>)"
    using checkAndUpdateIP_keeps_known_addresses
            [OF g, where cfg = hastyConfig and w = exampleWatcher, THEN conjunct2, THEN conjunct2, THEN conjunct2, THEN conjunct2, THEN conjunct2, THEN conjunct2, THEN conjunct2,
             THEN mp, OF i4, THEN conjunct2, THEN mp, OF z]
    by (simp only: example_lookups(4) sv lv)
  then have a4: "snd (checkAndUpdateIP fakeEnv hastyConfig (exampleWatcher, fakeSys exampleWorld))
       = (exampleWatcher\<lparr>currentIPv4 := Some ''2.2.2.2''\<rparr>,
          exampleFetched\<lparr>logs := logs exampleFetched
             @ [Printf ''IPv4 changed: %s -> %s'' [S ''1.1.1.1'', S ''2.2.2.2'']]\<rparr>)"
    by auto
  from g c a1 a2 a3 h(2) c6 b1 b2 b3 b4 a4 show ?thesis by blast
qed

theorem checkAndUpdateIP_resets_verify_ticker_witness:
  "syncTicker exampleWatcher = Some \<lparr>period = 30000000000, armed = 0\<rparr>
   \<and> syncInterval fakeEnv exampleConfig = 30000000000
   \<and> Now fakeEnv (world exampleFetched) = 2
   \<and> syncTicker (fst (snd (RunTurn fakeEnv exampleConfig RefreshTick
                             (exampleWatcher, fakeSys exampleWorld))))
       = Some \<lparr>period = 30000000000, armed = 2\<rparr>
   \<and> nextTick (the (syncTicker (fst (snd (RunTurn fakeEnv exampleConfig RefreshTick
                                            (exampleWatcher, fakeSys exampleWorld))))))
       = 30000000002
   \<and> syncTicker (fst (snd (RunTurn fakeEnv exampleConfig RefreshTick
                             (exampleWatcher\<lparr>currentIPv4 := Some ''2.2.2.2''\<rparr>,
                              fakeSys exampleWorld))))
       = Some \<lparr>period = 30000000000, armed = 0\<rparr>
   \<and> syncTicker (fst (snd (RunTurn fakeEnv exampleConfig SyncTick
                             (exampleWatcher, fakeSys exampleWorld))))
       = Some \<lparr>period = 30000000000, armed = 0\<rparr>
   \<and> syncInterval fakeEnv hastyConfig = 0
   \<and> (\<exists>p. fst (checkAndUpdateIP fakeEnv hastyConfig (exampleWatcher, fakeSys exampleWorld))
            = Panics p)
   \<and> calls (snd (snd (checkAndUpdateIP fakeEnv hastyConfig
                         (exampleWatcher, fakeSys exampleWorld))))
       = [CallHTTPGet ipv4URL, CallHTTPGet ipv6URL]
   \<and> fst (RunStart fakeEnv hastyConfig (NewIPWatcher, fakeSys exampleWorld)) \<noteq> None
   \<and> fst (RunStart fakeEnv exampleConfig (NewIPWatcher, fakeSys exampleWorld)) = None
   \<and> period (the (syncTicker (fst (snd (RunStart fakeEnv exampleConfig
                                           (NewIPWatcher, fakeSys exampleWorld))))))
       = 30000000000"
proof -
  note g = example_lookups(1,2)
  have t: "syncTicker exampleWatcher = Some \<lparr>period = 30000000000, armed = 0\<rparr>"
    and t': "syncTicker (exampleWatcher\<lparr>currentIPv4 := Some ''2.2.2.2''\<rparr>)
               = Some \<lparr>period = 30000000000, armed = 0\<rparr>"
    by (simp_all add: exampleWatcher_def)
  have now: "Now fakeEnv (world exampleFetched) = 2"
    by (simp add: fakeEnv_def exampleFetched_def)
  have cl: "calls exampleFetched = [CallHTTPGet ipv4URL, CallHTTPGet ipv6URL]"
    by (simp add: exampleFetched_def)
  have i4: "ipChanged ''2.2.2.2'' (currentIPv4 exampleWatcher)
              \<or> ipChanged (fetched6 exampleConfig '''') (currentIPv6 exampleWatcher)"
    and j4: "ipChanged ''2.2.2.2'' (currentIPv4 exampleWatcher)
              \<or> ipChanged (fetched6 hastyConfig '''') (currentIPv6 exampleWatcher)"
    by (simp_all add: ipChanged_def exampleWatcher_def loadString_def)
  have n: "\<not> ipChanged ''2.2.2.2'' (currentIPv4 (exampleWatcher\<lparr>currentIPv4 := Some ''2.2.2.2''\<rparr>))"
    "\<not> ipChanged (fetched6 exampleConfig '''')
          (currentIPv6 (exampleWatcher\<lparr>currentIPv4 := Some ''2.2.2.2''\<rparr>))"
    by (simp_all add: ipChanged_def fetched6_def loadString_def)
  have p: "0 < syncInterval fakeEnv exampleConfig" by (simp add: example_intervals)
  have z: "syncTicker exampleWatcher = None \<or> syncInterval fakeEnv hastyConfig \<le> 0"
    by (simp add: example_intervals)
  note re = checkAndUpdateIP_resets_verify_ticker
              [OF g, where cfg = exampleConfig and w = exampleWatcher, THEN conjunct1,
               THEN mp, OF i4, THEN conjunct1, rule_format, OF t p]
  have a: "syncTicker (fst (snd (RunTurn fakeEnv exampleConfig RefreshTick
                             (exampleWatcher, fakeSys exampleWorld))))
       = Some \<lparr>period = 30000000000, armed = 2\<rparr>"
    using re [THEN conjunct1] by (simp only: example_lookups(3) example_intervals now)
  have b: "nextTick (the (syncTicker (fst (snd (RunTurn fakeEnv exampleConfig RefreshTick
                                            (exampleWatcher, fakeSys exampleWorld))))))
       = 30000000002"
    using re [THEN conjunct2, THEN conjunct1]
    by (simp add: example_lookups(3) example_intervals now)
  have c: "syncTicker (fst (snd (RunTurn fakeEnv exampleConfig RefreshTick
                             (exampleWatcher\<lparr>currentIPv4 := Some ''2.2.2.2''\<rparr>,
                              fakeSys exampleWorld))))
       = Some \<lparr>period = 30000000000, armed = 0\<rparr>"
    using checkAndUpdateIP_resets_verify_ticker
              [OF g, where cfg = exampleConfig
                 and w = "exampleWatcher\<lparr>currentIPv4 := Some ''2.2.2.2''\<rparr>", THEN conjunct2, THEN conjunct1,
               THEN mp, OF n(1), THEN mp, OF n(2), THEN conjunct1]
    by (simp only: t')
  have d: "syncTicker (fst (snd (RunTurn fakeEnv exampleConfig SyncTick
                             (exampleWatcher, fakeSys exampleWorld))))
       = Some \<lparr>period = 30000000000, armed = 0\<rparr>"
    using checkAndUpdateIP_resets_verify_ticker
              [OF g, where cfg = exampleConfig and w = exampleWatcher, THEN conjunct2, THEN conjunct2, THEN conjunct2, THEN conjunct1]
    by (simp only: t)
  note pa = checkAndUpdateIP_resets_verify_ticker
              [OF g, where cfg = hastyConfig and w = exampleWatcher, THEN conjunct1,
               THEN mp, OF j4, THEN conjunct2, THEN mp, OF z]
  have e: "\<exists>p. fst (checkAndUpdateIP fakeEnv hastyConfig (exampleWatcher, fakeSys exampleWorld))
            = Panics p"
    by (rule pa [THEN conjunct1])
  have f: "calls (snd (snd (checkAndUpdateIP fakeEnv hastyConfig
                         (exampleWatcher, fakeSys exampleWorld))))
       = [CallHTTPGet ipv4URL, CallHTTPGet ipv6URL]"
    using pa [THEN conjunct2] by (simp only: example_lookups(4) cl)
  have h: "fst (RunStart fakeEnv hastyConfig (NewIPWatcher, fakeSys exampleWorld)) \<noteq> None"
    using checkAndUpdateIP_resets_verify_ticker
              [OF g, where cfg = hastyConfig and ?st0.0 = "(NewIPWatcher, fakeSys exampleWorld)", THEN conjunct2, THEN conjunct2, THEN conjunct2, THEN conjunct2, THEN conjunct1]
    by (simp add: example_intervals)
  have k: "fst (RunStart fakeEnv exampleConfig (NewIPWatcher, fakeSys exampleWorld)) = None"
    using checkAndUpdateIP_resets_verify_ticker
              [OF g, where cfg = exampleConfig and ?st0.0 = "(NewIPWatcher, fakeSys exampleWorld)", THEN conjunct2, THEN conjunct2, THEN conjunct2, THEN conjunct2, THEN conjunct1]
    by (simp add: example_intervals)
  have l: "period (the (syncTicker (fst (snd (RunStart fakeEnv exampleConfig
                                           (NewIPWatcher, fakeSys exampleWorld))))))
       = 30000000000"
    using checkAndUpdateIP_resets_verify_ticker
              [OF g, where cfg = exampleConfig and ?st0.0 = "(NewIPWatcher, fakeSys exampleWorld)", THEN conjunct2, THEN conjunct2, THEN conjunct2, THEN conjunct2, THEN conjunct2,
               THEN mp, OF k, THEN conjunct1]
    by (simp add: example_intervals)
  from t example_intervals(1) now a b c d example_intervals(3) e f h k l
  show ?thesis by blast
qed

end
